theory Spec2Isabelle
  imports Complex_Main "HOL-Library.Log_Nat"
begin

section \<open>Clinic backend: appointments and dispensary\<close>

text \<open>
  A shallow embedding of the route handlers of \<^verbatim>\<open>src/routes/dispensary.js\<close> and
  \<^verbatim>\<open>src/routes/appointments.js\<close> over the collections declared in
  \<^verbatim>\<open>src/models\<close>.

  Conventions of the embedding.
  \<^item> A collection is the list of its documents, in the order in which \<^verbatim>\<open>findOne\<close>
    meets them; \<^verbatim>\<open>findOne\<close> is \<^const>\<open>find\<close>, an insert appends, a save or an update
    by \<^verbatim>\<open>_id\<close> replaces the document with that \<^verbatim>\<open>_id\<close> in place.
  \<^item> An \<^verbatim>\<open>ObjectId\<close> is a natural number; a fresh one is drawn by the driver and so
    is an argument of the handler that creates a document.
  \<^item> A JavaScript \<^verbatim>\<open>Number\<close> holding money, a quantity or a stock level is the
    rational that the double denotes. Comparisons and \<^verbatim>\<open>Math.max\<close> are exact; a
    sum, a difference and a product are rounded to the nearest double, ties to even
    (\<open>jsAdd\<close>, \<open>jsSub\<close> and \<open>jsMul\<close> below). \<^verbatim>\<open>Number(x)\<close> of a number is
    that number; a decimal of a request such as \<^verbatim>\<open>0.1\<close> is the double nearest to
    it, \<open>toDouble (1 / 10)\<close>. \<^verbatim>\<open>Infinity\<close> and \<^verbatim>\<open>NaN\<close> are not modelled: the
    numbers of a request and of the store are finite and no result exceeds the largest
    double. A daily token is a whole number, an integer. An instant (\<^verbatim>\<open>Date\<close>) is
    its number of milliseconds, an integer.
  \<^item> A field of a request body that may be absent is an \<open>option\<close>; \<open>None\<close> is
    \<^verbatim>\<open>undefined\<close>. The types of the bodies are what the express validators of each
    route let through; the validator of the amount of a payment is written out
    (\<open>isNumeric\<close> and \<open>payDispenseRequest\<close> below).
  \<^item> A handler takes the database and returns its response together with the database
    it leaves. A response is \<open>Inl\<close> of a \<open>failure\<close> or \<open>Inr\<close> of the document sent back.
  \<^item> The \<^verbatim>\<open>auth\<close> and \<^verbatim>\<open>authorize\<close> middlewares run before a handler and are
    not part of it.
\<close>

type_synonym oid = nat
type_synonym instant = int

text \<open>
  The failures a handler answers with:
  \<^item> \<open>ValidationFailed\<close>: status 400 with the validators' error array, or 400
    \<^verbatim>\<open>Provide (date and token) or patient\<close>;
  \<^item> \<open>Forbidden\<close>: status 403;
  \<^item> \<open>NotFound\<close>: status 404;
  \<^item> \<open>SlotConflict\<close>: status 400, \<^verbatim>\<open>Doctor already has an appointment at this time\<close>;
  \<^item> \<open>InvalidState\<close>: status 400, \<^verbatim>\<open>Cannot update cancelled dispense\<close>,
    \<^verbatim>\<open>Already cancelled\<close>, \<^verbatim>\<open>Cannot pay for cancelled dispense\<close>;
  \<^item> \<open>TokenAllocationFailed\<close>: status 500, \<^verbatim>\<open>Failed to assign daily token ...\<close>;
  \<^item> \<open>ServerError\<close>: status 500 from the handler's outer \<^verbatim>\<open>catch\<close>.
\<close>

datatype failure =
  ValidationFailed | Forbidden | NotFound | SlotConflict | InvalidState
  | TokenAllocationFailed | ServerError

datatype paymentStatus = Pending | Paid | Partial | Cancelled

datatype status =
  Scheduled | Confirmed | InProgress | Completed | CancelledVisit | NoShow
  | PrescriptionDispensed

datatype role = Admin | Receptionist | Doctor | Chemist

subsection \<open>Documents (src/models)\<close>

record medicine =
  med_id :: oid
  med_name :: string
  med_strength :: "string option"
  med_form :: "string option"
  med_stock :: rat

record dispenseItem =
  it_name :: string
  it_quantity :: rat
  it_unitPrice :: rat
  it_strength :: "string option"
  it_form :: "string option"

record dispense =
  d_id :: oid
  d_patient :: oid
  d_appointment :: "oid option"
  d_appointmentDay :: "instant option"
  d_dailyToken :: "int option"
  d_items :: "dispenseItem list"
  d_subtotal :: rat
  d_tax :: rat
  d_discount :: rat
  d_total :: rat
  d_paymentStatus :: paymentStatus
  d_paidAmount :: rat
  d_billNumber :: "string option"
  d_dispensedBy :: oid

record appointment =
  a_id :: oid
  a_patient :: oid
  a_doctor :: oid
  a_appointmentDate :: instant
  a_appointmentDay :: instant
  a_appointmentTime :: string
  a_dailyToken :: int
  a_status :: status
  a_paymentStatus :: paymentStatus
  a_amount :: "rat option"
  a_discount :: rat
  a_paymentOnline :: rat
  a_paymentOffline :: rat

record doctor =
  doc_id :: oid
  doc_consultationFee :: "rat option"

record db =
  appointments :: "appointment list"
  dispenses :: "dispense list"
  medicines :: "medicine list"
  patients :: "oid list"
  doctors :: "doctor list"

record user =
  u_id :: oid
  u_role :: role
  u_doctorId :: "oid option"

subsection \<open>JavaScript helpers\<close>

text \<open>\<^verbatim>\<open>s || ''\<close> on an optional string.\<close>

definition orEmpty :: "string option \<Rightarrow> string" where
  "orEmpty s = (case s of None \<Rightarrow> [] | Some v \<Rightarrow> v)"

text \<open>Truthiness of an optional string: present and not empty.\<close>

definition truthy :: "string option \<Rightarrow> bool" where
  "truthy s = (case s of None \<Rightarrow> False | Some v \<Rightarrow> v \<noteq> [])"

text \<open>\<^verbatim>\<open>x ?? y\<close> and \<^verbatim>\<open>Number(x || 0)\<close> on an optional number.\<close>

definition orElse :: "'a option \<Rightarrow> 'a \<Rightarrow> 'a" where
  "orElse x y = (case x of None \<Rightarrow> y | Some v \<Rightarrow> v)"

text \<open>\<^verbatim>\<open>s.slice(-n)\<close>: the last \<open>n\<close> characters, all of \<open>s\<close> when it is shorter.\<close>

definition sliceLast :: "nat \<Rightarrow> string \<Rightarrow> string" where
  "sliceLast n s = drop (length s - n) s"

text \<open>\<^verbatim>\<open>s.padStart(2, '0')\<close>.\<close>

definition padStart2 :: "string \<Rightarrow> string" where
  "padStart2 s = replicate (2 - length s) (CHR ''0'') @ s"

text \<open>
  What a handler reads from \<^verbatim>\<open>new Date()\<close> and \<^verbatim>\<open>Date.now()\<close>: the decimal
  renderings of the year, of the month number plus one, of the day of the month and of
  the millisecond clock.
\<close>

record clock =
  c_fullYear :: string
  c_month1 :: string
  c_date :: string
  c_now :: string

text \<open>
  The template literal of both bill numbers,
  \<^verbatim>\<open>`${y}${m}${day}-${Date.now().toString().slice(-6)}-${suffix}`\<close>.
\<close>

definition billNumberOf :: "clock \<Rightarrow> string \<Rightarrow> string" where
  "billNumberOf now suffix =
     c_fullYear now @ padStart2 (c_month1 now) @ padStart2 (c_date now)
       @ ''-'' @ sliceLast 6 (c_now now) @ ''-'' @ suffix"

subsection \<open>JavaScript numbers\<close>

text \<open>
  Rounding to an integer, a tie going to the even neighbour.
\<close>

definition roundHalfEven :: "rat \<Rightarrow> int" where
  "roundHalfEven r =
     (let f = \<lfloor>r\<rfloor>; d = r - of_int f
      in if d < 1 / 2 then f
         else if 1 / 2 < d then f + 1
         else if even f then f else f + 1)"

text \<open>
  The binary exponent of a positive rational \<open>x\<close>, the \<open>e\<close> with
  \<open>2 powi e \<le> x < 2 powi (e + 1)\<close>, from the bit lengths of its numerator and
  denominator.
\<close>

definition exponentOf :: "rat \<Rightarrow> int" where
  "exponentOf x =
     (let (p, q) = quotient_of x; e = bitlen p - bitlen q
      in if 2 powi e \<le> x then e else e - 1)"

text \<open>
  The double nearest to a rational (IEEE 754 binary64, round to nearest, ties to even):
  53 significant bits, so the doubles around \<open>x\<close> are the multiples of
  \<open>2 powi (e - 52)\<close>, \<open>e\<close> the exponent of \<open>x\<close> and at least \<open>-1022\<close> (below that the
  doubles are subnormal and evenly spaced).
\<close>

definition toDouble :: "rat \<Rightarrow> rat" where
  "toDouble x =
     (if x = 0 then 0
      else let ulp = 2 powi (max (exponentOf \<bar>x\<bar>) (- 1022) - 52)
           in sgn x * of_int (roundHalfEven (\<bar>x\<bar> / ulp)) * ulp)"

definition isDouble :: "rat \<Rightarrow> bool" where
  "isDouble x = (toDouble x = x)"

text \<open>\<^verbatim>\<open>x + y\<close>, \<^verbatim>\<open>x - y\<close> and \<^verbatim>\<open>x * y\<close> on numbers.\<close>

definition jsAdd :: "rat \<Rightarrow> rat \<Rightarrow> rat" where
  "jsAdd x y = toDouble (x + y)"

definition jsSub :: "rat \<Rightarrow> rat \<Rightarrow> rat" where
  "jsSub x y = toDouble (x - y)"

definition jsMul :: "rat \<Rightarrow> rat \<Rightarrow> rat" where
  "jsMul x y = toDouble (x * y)"

text \<open>
  The validator \<^verbatim>\<open>isNumeric()\<close> on a JSON number: it tests the text that
  \<^verbatim>\<open>String\<close> prints for the number against
  \<^verbatim>\<open>/^[+-]?([0-9]*[.])?[0-9]+$/\<close>, and \<^verbatim>\<open>String\<close> prints plain digits for zero and
  for a number from \<^verbatim>\<open>0.000001\<close> up to, not including, \<^verbatim>\<open>1e21\<close>; any other number
  is printed with an exponent.
\<close>

definition isNumeric :: "rat \<Rightarrow> bool" where
  "isNumeric x = (x = 0 \<or> (toDouble (1 / 10 ^ 6) \<le> \<bar>x\<bar> \<and> \<bar>x\<bar> < 10 ^ 21))"

subsection \<open>dispensary.js: helpers\<close>

text \<open>
  Lines 9-13. \<^verbatim>\<open>reduce\<close> adds the products from the left, starting from 0.
\<close>

definition computeTotals :: "dispenseItem list \<Rightarrow> rat \<Rightarrow> rat \<Rightarrow> rat \<times> rat" where
  "computeTotals items tax discount =
     (let subtotal = foldl (\<lambda>sum it. jsAdd sum (jsMul (it_quantity it) (it_unitPrice it))) 0 items;
          total' = max 0 (jsSub (jsAdd subtotal tax) discount)
      in (subtotal, total'))"

text \<open>
  The status chain written out in \<^verbatim>\<open>PUT /dispenses/:id\<close> (lines 284-290) and in
  \<^verbatim>\<open>POST /dispenses/:id/pay\<close> (lines 353-359).
\<close>

definition dispenseStatus :: "rat \<Rightarrow> rat \<Rightarrow> paymentStatus" where
  "dispenseStatus paidAmount total' =
     (if paidAmount \<ge> total' then Paid
      else if paidAmount > 0 then Partial
      else Pending)"

text \<open>
  \<^verbatim>\<open>Medicine.findOne({name, strength: it.strength || '', form: it.form || ''})\<close> and
  \<^verbatim>\<open>Medicine.findOne({name})\<close>. A medicine stored without a strength does not match
  the empty string.
\<close>

definition findExact :: "medicine list \<Rightarrow> dispenseItem \<Rightarrow> medicine option" where
  "findExact meds it =
     find (\<lambda>m. med_name m = it_name it
              \<and> med_strength m = Some (orEmpty (it_strength it))
              \<and> med_form m = Some (orEmpty (it_form it))) meds"

definition findByName :: "medicine list \<Rightarrow> dispenseItem \<Rightarrow> medicine option" where
  "findByName meds it = find (\<lambda>m. med_name m = it_name it) meds"

text \<open>
  The lookup of \<^verbatim>\<open>POST /dispenses\<close> (lines 193-199): the exact query runs only for an
  item with a name and a strength or a form.
\<close>

definition resolveOnCreate :: "medicine list \<Rightarrow> dispenseItem \<Rightarrow> medicine option" where
  "resolveOnCreate meds it =
     (let med = (if it_name it \<noteq> [] \<and> (truthy (it_strength it) \<or> truthy (it_form it))
                 then findExact meds it else None)
      in case med of None \<Rightarrow> findByName meds it | Some m \<Rightarrow> Some m)"

text \<open>
  The lookup of the update and cancel routes (lines 257-258, 266-267, 313-314): the
  exact query always runs first.
\<close>

definition resolveMedicine :: "medicine list \<Rightarrow> dispenseItem \<Rightarrow> medicine option" where
  "resolveMedicine meds it =
     (case findExact meds it of None \<Rightarrow> findByName meds it | Some m \<Rightarrow> Some m)"

text \<open>
  \<^verbatim>\<open>med.save()\<close>: the schema's \<^verbatim>\<open>stock: {min: 0}\<close> is validated, a violation throws
  (\<open>None\<close>); otherwise the document with this \<^verbatim>\<open>_id\<close> is replaced.
\<close>

definition saveMedicine :: "medicine \<Rightarrow> medicine list \<Rightarrow> medicine list option" where
  "saveMedicine med meds =
     (if med_stock med < 0 then None
      else Some (map (\<lambda>m. if med_id m = med_id med then med else m) meds))"

text \<open>
  The two stock loops. Each runs inside a \<^verbatim>\<open>try\<close> whose \<^verbatim>\<open>catch\<close> only logs, so
  a throwing \<^verbatim>\<open>save\<close> ends the loop and keeps what was written before it: the result
  is whether the loop ran to its end, and the medicines it leaves.
\<close>

fun restoreStock :: "dispenseItem list \<Rightarrow> medicine list \<Rightarrow> bool \<times> medicine list" where
  "restoreStock [] meds = (True, meds)"
| "restoreStock (it # its) meds =
     (case resolveMedicine meds it of
        None \<Rightarrow> restoreStock its meds
      | Some med \<Rightarrow>
          (case saveMedicine (med\<lparr>med_stock := jsAdd (med_stock med) (it_quantity it)\<rparr>) meds of
             None \<Rightarrow> (False, meds)
           | Some meds' \<Rightarrow> restoreStock its meds'))"

fun deductStock ::
  "(medicine list \<Rightarrow> dispenseItem \<Rightarrow> medicine option) \<Rightarrow> dispenseItem list
     \<Rightarrow> medicine list \<Rightarrow> bool \<times> medicine list" where
  "deductStock resolve [] meds = (True, meds)"
| "deductStock resolve (it # its) meds =
     (case resolve meds it of
        None \<Rightarrow> deductStock resolve its meds
      | Some med \<Rightarrow>
          (case saveMedicine
                  (med\<lparr>med_stock := max 0 (jsSub (med_stock med) (it_quantity it))\<rparr>) meds of
             None \<Rightarrow> (False, meds)
           | Some meds' \<Rightarrow> deductStock resolve its meds'))"

text \<open>
  What Mongoose validates when a dispense is saved, from the schema: an item needs a
  name, a quantity of at least 1 and a unit price of at least 0; the amounts are at
  least 0.
\<close>

definition validItem :: "dispenseItem \<Rightarrow> bool" where
  "validItem it = (it_name it \<noteq> [] \<and> 1 \<le> it_quantity it \<and> 0 \<le> it_unitPrice it)"

definition validAmounts :: "dispense \<Rightarrow> bool" where
  "validAmounts d =
     (list_all validItem (d_items d) \<and> 0 \<le> d_subtotal d \<and> 0 \<le> d_tax d
      \<and> 0 \<le> d_discount d \<and> 0 \<le> d_total d)"

text \<open>
  The unique indexes of the collection: \<^verbatim>\<open>_id\<close>, and \<^verbatim>\<open>billNumber\<close> (unique and
  sparse: documents without one are not indexed).
\<close>

definition billTaken :: "dispense \<Rightarrow> dispense list \<Rightarrow> bool" where
  "billTaken d ds =
     (case d_billNumber d of
        None \<Rightarrow> False
      | Some b \<Rightarrow> list_ex (\<lambda>x. d_id x \<noteq> d_id d \<and> d_billNumber x = Some b) ds)"

text \<open>\<^verbatim>\<open>new Dispense(...).save()\<close>: validation, then the insert under both indexes.\<close>

definition insertDispense :: "dispense \<Rightarrow> dispense list \<Rightarrow> dispense list option" where
  "insertDispense d ds =
     (if \<not> (validAmounts d \<and> 0 \<le> d_paidAmount d) then None
      else if list_ex (\<lambda>x. d_id x = d_id d) ds \<or> billTaken d ds then None
      else Some (ds @ [d]))"

text \<open>
  \<^verbatim>\<open>d.save()\<close> on a loaded document: \<open>ok\<close> is the validation of the paths the handler
  assigned (and the bill number index, when the handler assigned a bill number); the
  write replaces the document with this \<^verbatim>\<open>_id\<close>.
\<close>

definition saveDispense :: "bool \<Rightarrow> dispense \<Rightarrow> dispense list \<Rightarrow> dispense list option" where
  "saveDispense ok d ds =
     (if \<not> ok then None
      else Some (map (\<lambda>x. if d_id x = d_id d then d else x) ds))"

definition findDispense :: "oid \<Rightarrow> dispense list \<Rightarrow> dispense option" where
  "findDispense i ds = find (\<lambda>d. d_id d = i) ds"


subsection \<open>dispensary.js: POST /dispenses\<close>

record createDispenseBody =
  cd_items :: "dispenseItem list"
  cd_tax :: "rat option"
  cd_discount :: "rat option"
  cd_patient :: "oid option"
  cd_date :: "instant option"
  cd_token :: "int option"

text \<open>
  Lines 147-161: the patient comes from the appointment holding the given token on the
  given day, or from the given patient id. \<open>setHours0\<close> is
  \<^verbatim>\<open>day.setHours(0, 0, 0, 0)\<close>, the start of the server's local day. The token is
  a JSON number, so \<^verbatim>\<open>date && token\<close> holds when both are present and the token
  is not 0.
\<close>

definition resolvePatient ::
  "(instant \<Rightarrow> instant) \<Rightarrow> createDispenseBody \<Rightarrow> db
     \<Rightarrow> failure + (oid \<times> appointment option \<times> instant option \<times> int option)" where
  "resolvePatient setHours0 body st =
     (let byPatient =
            (case cd_patient body of
               Some patientId \<Rightarrow>
                 if patientId \<in> set (patients st) then Inr (patientId, None, None, None)
                 else Inl NotFound
             | None \<Rightarrow> Inl ValidationFailed)
      in case (cd_date body, cd_token body) of
           (Some date, Some token) \<Rightarrow>
             if token \<noteq> 0 then
               (let day = setHours0 date in
                case find (\<lambda>a. a_appointmentDay a = day \<and> a_dailyToken a = token)
                       (appointments st) of
                  None \<Rightarrow> Inl NotFound
                | Some appointmentRef \<Rightarrow>
                    if a_patient appointmentRef \<in> set (patients st)
                    then Inr (a_patient appointmentRef, Some appointmentRef, Some day, Some token)
                    else Inl NotFound)
             else byPatient
         | _ \<Rightarrow> byPatient)"

text \<open>
  Lines 210-216: \<^verbatim>\<open>Appointment.findByIdAndUpdate(id, {status: 'prescription dispensed'})\<close>.
\<close>

definition markDispensed :: "oid \<Rightarrow> appointment list \<Rightarrow> appointment list" where
  "markDispensed i as =
     map (\<lambda>a. if a_id a = i then a\<lparr>a_status := PrescriptionDispensed\<rparr> else a) as"

text \<open>
  The handler. \<open>now\<close> is the clock, \<open>rnd\<close> is \<^verbatim>\<open>Math.random().toString(36)\<close>,
  \<open>newId\<close> the \<^verbatim>\<open>_id\<close> of the new document, \<open>userId\<close> is \<^verbatim>\<open>req.user.id\<close>.
\<close>

definition createDispense ::
  "(instant \<Rightarrow> instant) \<Rightarrow> clock \<Rightarrow> string \<Rightarrow> oid \<Rightarrow> oid \<Rightarrow> createDispenseBody \<Rightarrow> db
     \<Rightarrow> (failure + dispense) \<times> db" where
  "createDispense setHours0 now rnd newId userId body st =
     (if cd_items body = [] \<or> list_ex (\<lambda>it. it_name it = []) (cd_items body)
      then (Inl ValidationFailed, st)
      else
        (let items = cd_items body;
             tax = orElse (cd_tax body) 0;
             discount = orElse (cd_discount body) 0
         in case resolvePatient setHours0 body st of
             Inl e \<Rightarrow> (Inl e, st)
           | Inr (patient, appointmentRef, appointmentDay, dailyToken) \<Rightarrow>
              (let (subtotal, total') = computeTotals items tax discount;
                   billNumber = billNumberOf now (sliceLast 5 rnd);
                   dispense = \<lparr> d_id = newId, d_patient = patient,
                     d_appointment = map_option a_id appointmentRef,
                     d_appointmentDay = appointmentDay, d_dailyToken = dailyToken,
                     d_items = items, d_subtotal = subtotal, d_tax = tax,
                     d_discount = discount, d_total = total',
                     d_paymentStatus = Pending, d_paidAmount = 0,
                     d_billNumber = Some billNumber, d_dispensedBy = userId \<rparr>
               in case insertDispense dispense (dispenses st) of
                    None \<Rightarrow> (Inl ServerError, st)
                  | Some ds \<Rightarrow>
                     (let meds = snd (deductStock resolveOnCreate items (medicines st));
                          as = (case appointmentRef of
                                  None \<Rightarrow> appointments st
                                | Some a \<Rightarrow> markDispensed (a_id a) (appointments st))
                      in (Inr dispense,
                          st\<lparr>dispenses := ds, medicines := meds, appointments := as\<rparr>)))))"

subsection \<open>dispensary.js: PUT /dispenses/:id\<close>

record updateDispenseBody =
  ud_items :: "dispenseItem list option"
  ud_tax :: "rat option"
  ud_discount :: "rat option"

text \<open>
  Lines 254-275: both loops stand in one \<^verbatim>\<open>try\<close>, so the second runs only when the
  first ran to its end.
\<close>

definition adjustStock ::
  "dispenseItem list \<Rightarrow> dispenseItem list \<Rightarrow> medicine list \<Rightarrow> medicine list" where
  "adjustStock oldItems newItems meds =
     (case restoreStock oldItems meds of
        (False, meds1) \<Rightarrow> meds1
      | (True, meds1) \<Rightarrow> snd (deductStock resolveMedicine newItems meds1))"

definition updateDispense ::
  "oid \<Rightarrow> updateDispenseBody \<Rightarrow> db \<Rightarrow> (failure + dispense) \<times> db" where
  "updateDispense i body st =
     (if ud_items body = Some [] then (Inl ValidationFailed, st)
      else case findDispense i (dispenses st) of
        None \<Rightarrow> (Inl NotFound, st)
      | Some d \<Rightarrow>
          if d_paymentStatus d = Cancelled then (Inl InvalidState, st)
          else
           (let oldItems = d_items d;
                newItems = orElse (ud_items body) (d_items d);
                tax = orElse (ud_tax body) (d_tax d);
                discount = orElse (ud_discount body) (d_discount d);
                (subtotal, total') = computeTotals newItems tax discount;
                meds = adjustStock oldItems newItems (medicines st);
                d' = d\<lparr>d_items := newItems, d_tax := tax, d_discount := discount,
                       d_subtotal := subtotal, d_total := total',
                       d_paymentStatus := dispenseStatus (d_paidAmount d) total'\<rparr>
            in case saveDispense (validAmounts d') d' (dispenses st) of
                 None \<Rightarrow> (Inl ServerError, st\<lparr>medicines := meds\<rparr>)
               | Some ds \<Rightarrow> (Inr d', st\<lparr>medicines := meds, dispenses := ds\<rparr>)))"

subsection \<open>dispensary.js: POST /dispenses/:id/cancel\<close>

definition cancelDispense :: "oid \<Rightarrow> db \<Rightarrow> (failure + dispense) \<times> db" where
  "cancelDispense i st =
     (case findDispense i (dispenses st) of
        None \<Rightarrow> (Inl NotFound, st)
      | Some d \<Rightarrow>
          if d_paymentStatus d = Cancelled then (Inl InvalidState, st)
          else
           (let meds = snd (restoreStock (d_items d) (medicines st));
                d' = d\<lparr>d_paymentStatus := Cancelled\<rparr>
            in case saveDispense True d' (dispenses st) of
                 None \<Rightarrow> (Inl ServerError, st\<lparr>medicines := meds\<rparr>)
               | Some ds \<Rightarrow> (Inr d', st\<lparr>medicines := meds, dispenses := ds\<rparr>)))"

subsection \<open>dispensary.js: POST /dispenses/:id/pay\<close>

text \<open>
  Lines 346-372, the handler once the validator has passed. \<open>amount\<close> is
  \<^verbatim>\<open>Number(req.body.amount)\<close>, \<open>oidStr\<close> is \<^verbatim>\<open>String(d._id)\<close>. The save validates
  \<^verbatim>\<open>paidAmount: {min: 0}\<close> and, for a bill number assigned here, its unique index.
\<close>

definition payDispense ::
  "clock \<Rightarrow> (oid \<Rightarrow> string) \<Rightarrow> oid \<Rightarrow> rat \<Rightarrow> db \<Rightarrow> (failure + dispense) \<times> db" where
  "payDispense now oidStr i amount st =
     (case findDispense i (dispenses st) of
        None \<Rightarrow> (Inl NotFound, st)
      | Some d \<Rightarrow>
          if d_paymentStatus d = Cancelled then (Inl InvalidState, st)
          else
           (let d1 = d\<lparr>d_paidAmount := jsAdd (d_paidAmount d) amount\<rparr>;
                d2 = d1\<lparr>d_paymentStatus := dispenseStatus (d_paidAmount d1) (d_total d1)\<rparr>;
                assign = (\<not> truthy (d_billNumber d2) \<and> d_paymentStatus d2 \<noteq> Pending);
                d3 = (if assign
                      then d2\<lparr>d_billNumber := Some (billNumberOf now (sliceLast 6 (oidStr (d_id d2))))\<rparr>
                      else d2)
            in case saveDispense (0 \<le> d_paidAmount d3 \<and> \<not> (assign \<and> billTaken d3 (dispenses st)))
                      d3 (dispenses st) of
                 None \<Rightarrow> (Inl ServerError, st)
               | Some ds \<Rightarrow> (Inr d3, st\<lparr>dispenses := ds\<rparr>)))"

text \<open>
  The route: the validator \<^verbatim>\<open>body('amount').isNumeric()\<close> (lines 338 and
  341-344), the amount being a JSON number, then the handler.
\<close>

definition payDispenseRequest ::
  "clock \<Rightarrow> (oid \<Rightarrow> string) \<Rightarrow> oid \<Rightarrow> rat \<Rightarrow> db \<Rightarrow> (failure + dispense) \<times> db" where
  "payDispenseRequest now oidStr i amount st =
     (if \<not> isNumeric amount then (Inl ValidationFailed, st)
      else payDispense now oidStr i amount st)"

subsection \<open>Sequences of dispensary requests\<close>

datatype dispensaryOp =
  CreateDispense clock string oid oid createDispenseBody
  | UpdateDispense oid updateDispenseBody
  | CancelDispense oid
  | PayDispense clock oid rat

fun dispensaryStep ::
  "(instant \<Rightarrow> instant) \<Rightarrow> (oid \<Rightarrow> string) \<Rightarrow> db \<Rightarrow> dispensaryOp \<Rightarrow> db" where
  "dispensaryStep setHours0 oidStr st (CreateDispense now rnd newId userId body) =
     snd (createDispense setHours0 now rnd newId userId body st)"
| "dispensaryStep setHours0 oidStr st (UpdateDispense i body) = snd (updateDispense i body st)"
| "dispensaryStep setHours0 oidStr st (CancelDispense i) = snd (cancelDispense i st)"
| "dispensaryStep setHours0 oidStr st (PayDispense now i amount) =
     snd (payDispenseRequest now oidStr i amount st)"


text \<open>A request that is not a payment of a negative amount.\<close>

definition paysNoNegativeAmount :: "dispensaryOp \<Rightarrow> bool" where
  "paysNoNegativeAmount op =
     (case op of PayDispense now i amount \<Rightarrow> 0 \<le> amount | _ \<Rightarrow> True)"

subsection \<open>appointments.js: the collection and its indexes\<close>

text \<open>
  Of an appointment the model keeps the fields the handlers below read or compute;
  \<^verbatim>\<open>reason\<close>, \<^verbatim>\<open>type\<close>, \<^verbatim>\<open>duration\<close>, \<^verbatim>\<open>notes\<close> and the like pass through
  unread. What a write can throw: the duplicate key error (code 11000) of a unique
  index, or anything else, here a validation error.
\<close>

datatype storeError = DuplicateKey | ValidationError

text \<open>The \<^verbatim>\<open>min: 0\<close> constraints of the schema.\<close>

definition validAppointment :: "appointment \<Rightarrow> bool" where
  "validAppointment a =
     (0 \<le> orElse (a_amount a) 0 \<and> 0 \<le> a_discount a \<and> 0 \<le> a_paymentOnline a
      \<and> 0 \<le> a_paymentOffline a)"

text \<open>
  \<^verbatim>\<open>new Appointment(data).save()\<close>: validation, then the insert under the unique
  indexes, \<^verbatim>\<open>_id\<close> and \<^verbatim>\<open>{appointmentDay: 1, dailyToken: 1}\<close> (Appointment.js
  line 99).
\<close>

definition insertAppointment :: "appointment \<Rightarrow> appointment list \<Rightarrow> storeError + appointment list" where
  "insertAppointment a as =
     (if \<not> validAppointment a then Inl ValidationError
      else if list_ex (\<lambda>x. a_id x = a_id a) as
            \<or> list_ex (\<lambda>x. a_appointmentDay x = a_appointmentDay a
                              \<and> a_dailyToken x = a_dailyToken a) as
      then Inl DuplicateKey
      else Inr (as @ [a]))"

definition findById :: "oid \<Rightarrow> appointment list \<Rightarrow> appointment option" where
  "findById i as = find (\<lambda>a. a_id a = i) as"

text \<open>\<^verbatim>\<open>Appointment.countDocuments({appointmentDay: day})\<close>, line 183.\<close>

definition countDay :: "instant \<Rightarrow> appointment list \<Rightarrow> nat" where
  "countDay day as = length (filter (\<lambda>a. a_appointmentDay a = day) as)"

text \<open>
  \<^verbatim>\<open>Appointment.countDocuments({appointmentDay: day, _id: {$ne: id}})\<close>, line 288.
\<close>

definition countDayExcept :: "instant \<Rightarrow> oid \<Rightarrow> appointment list \<Rightarrow> nat" where
  "countDayExcept day i as =
     length (filter (\<lambda>a. a_appointmentDay a = day \<and> a_id a \<noteq> i) as)"

text \<open>
  The status chain written out at lines 170-177, 293-300 and 324-331 of
  appointments.js.
\<close>

definition appointmentStatus :: "rat \<Rightarrow> rat \<Rightarrow> rat \<Rightarrow> paymentStatus" where
  "appointmentStatus paid amount discount =
     (let payable = max 0 (jsSub amount discount)
      in if paid \<le> 0 then Pending
         else if paid < payable then Partial
         else Paid)"

text \<open>
  Other requests run between the awaits of a handler. In the two token loops this is
  explicit: \<open>others k\<close> is what the other requests have written to the collection when
  the loop resumes from its \<open>k\<close>-th await. A request that runs alone has
  \<open>others = alone\<close>.
\<close>

definition alone :: "nat \<Rightarrow> appointment list \<Rightarrow> appointment list" where
  "alone k as = as"

text \<open>How one pass through a token loop ends.\<close>

datatype 'r attempt = Saved 'r | Duplicate | Thrown

subsection \<open>appointments.js: POST /\<close>

record createAppointmentBody =
  ca_patient :: oid
  ca_doctor :: oid
  ca_appointmentDate :: instant
  ca_appointmentTime :: string
  ca_status :: "status option"
  ca_paymentStatus :: "paymentStatus option"
  ca_amount :: "rat option"
  ca_discount :: "rat option"
  ca_paymentOnline :: "rat option"
  ca_paymentOffline :: "rat option"

text \<open>
  Lines 123-147: the validators (of the modelled fields, the time must not be empty),
  the doctor's own-appointments rule, and the two existence checks. The first failure
  is the response.
\<close>

definition createChecks :: "user \<Rightarrow> createAppointmentBody \<Rightarrow> db \<Rightarrow> failure option" where
  "createChecks usr body st =
     (if ca_appointmentTime body = [] then Some ValidationFailed
      else if u_role usr = Doctor
              \<and> (u_doctorId usr = None \<or> Some (ca_doctor body) \<noteq> u_doctorId usr)
      then Some Forbidden
      else if ca_patient body \<notin> set (patients st) then Some NotFound
      else if find (\<lambda>d. doc_id d = ca_doctor body) (doctors st) = None then Some NotFound
      else None)"

text \<open>Lines 150-155: the query for a conflicting appointment.\<close>

definition conflictingOnCreate :: "createAppointmentBody \<Rightarrow> appointment list \<Rightarrow> appointment option" where
  "conflictingOnCreate body as =
     find (\<lambda>a. a_doctor a = ca_doctor body
              \<and> a_appointmentDate a = ca_appointmentDate body
              \<and> a_appointmentTime a = ca_appointmentTime body
              \<and> (a_status a = Scheduled \<or> a_status a = Confirmed)) as"

text \<open>
  Lines 163-178: the document the loop will save, but for its \<^verbatim>\<open>_id\<close> and token. The
  schema's defaults fill what the body leaves out.
\<close>

definition appointmentData :: "(instant \<Rightarrow> instant) \<Rightarrow> createAppointmentBody \<Rightarrow> appointment" where
  "appointmentData setHours0 body =
     (let day = setHours0 (ca_appointmentDate body);
          paymentStatus =
            (if ca_paymentOnline body \<noteq> None \<or> ca_paymentOffline body \<noteq> None
             then Some (appointmentStatus
                          (jsAdd (orElse (ca_paymentOnline body) 0)
                             (orElse (ca_paymentOffline body) 0))
                          (orElse (ca_amount body) 0) (orElse (ca_discount body) 0))
             else ca_paymentStatus body)
      in \<lparr> a_id = 0, a_patient = ca_patient body, a_doctor = ca_doctor body,
           a_appointmentDate = ca_appointmentDate body, a_appointmentDay = day,
           a_appointmentTime = ca_appointmentTime body, a_dailyToken = 0,
           a_status = orElse (ca_status body) Scheduled,
           a_paymentStatus = orElse paymentStatus Pending,
           a_amount = ca_amount body, a_discount = orElse (ca_discount body) 0,
           a_paymentOnline = orElse (ca_paymentOnline body) 0,
           a_paymentOffline = orElse (ca_paymentOffline body) 0 \<rparr>)"

text \<open>
  Lines 183-195, one pass of the loop: count the day, propose the next token, save a
  new document. \<open>newId attempt\<close> is the \<^verbatim>\<open>_id\<close> that \<^verbatim>\<open>new Appointment\<close> draws in
  this pass.
\<close>

definition createAttempt ::
  "(nat \<Rightarrow> appointment list \<Rightarrow> appointment list) \<Rightarrow> (nat \<Rightarrow> oid) \<Rightarrow> appointment \<Rightarrow> nat
     \<Rightarrow> appointment list \<Rightarrow> appointment attempt \<times> appointment list" where
  "createAttempt others newId data attempt as =
     (let as1 = others (2 * attempt) as;
          count = countDay (a_appointmentDay data) as1;
          appointment = data\<lparr>a_id := newId attempt, a_dailyToken := int count + 1\<rparr>;
          as2 = others (2 * attempt + 1) as1
      in case insertAppointment appointment as2 of
           Inr as3 \<Rightarrow> (Saved appointment, as3)
         | Inl DuplicateKey \<Rightarrow> (Duplicate, as2)
         | Inl ValidationError \<Rightarrow> (Thrown, as2))"

text \<open>Lines 182-200: at most three passes.\<close>

function createLoop ::
  "(nat \<Rightarrow> appointment list \<Rightarrow> appointment list) \<Rightarrow> (nat \<Rightarrow> oid) \<Rightarrow> appointment \<Rightarrow> nat
     \<Rightarrow> appointment list \<Rightarrow> (failure + appointment) \<times> appointment list" where
  "createLoop others newId data attempt as =
     (if attempt < 3 then
        (case createAttempt others newId data attempt as of
           (Saved saved, as') \<Rightarrow> (Inr saved, as')
         | (Duplicate, as') \<Rightarrow> createLoop others newId data (attempt + 1) as'
         | (Thrown, as') \<Rightarrow> (Inl ServerError, as'))
      else (Inl TokenAllocationFailed, as))"
  by pat_completeness auto
termination
  by (relation "measure (\<lambda>(others, newId, data, attempt, as). 3 - attempt)") auto

definition createAppointment ::
  "(instant \<Rightarrow> instant) \<Rightarrow> (nat \<Rightarrow> appointment list \<Rightarrow> appointment list) \<Rightarrow> (nat \<Rightarrow> oid)
     \<Rightarrow> user \<Rightarrow> createAppointmentBody \<Rightarrow> db \<Rightarrow> (failure + appointment) \<times> db" where
  "createAppointment setHours0 others newId usr body st =
     (case createChecks usr body st of
        Some e \<Rightarrow> (Inl e, st)
      | None \<Rightarrow>
          (case conflictingOnCreate body (appointments st) of
             Some conflictingAppointment \<Rightarrow> (Inl SlotConflict, st)
           | None \<Rightarrow>
               (case createLoop others newId (appointmentData setHours0 body) 0 (appointments st) of
                  (r, as) \<Rightarrow> (r, st\<lparr>appointments := as\<rparr>))))"

subsection \<open>appointments.js: PUT /:id\<close>

text \<open>
  The statuses that the validator of the route lets through (line 219):
  \<^verbatim>\<open>scheduled\<close>, \<^verbatim>\<open>confirmed\<close>, \<^verbatim>\<open>in-progress\<close>, \<^verbatim>\<open>completed\<close>,
  \<^verbatim>\<open>cancelled\<close> and \<^verbatim>\<open>no-show\<close>, but not \<^verbatim>\<open>prescription dispensed\<close>.
\<close>

datatype updatableStatus =
  ToScheduled | ToConfirmed | ToInProgress | ToCompleted | ToCancelledVisit | ToNoShow

fun statusOf :: "updatableStatus \<Rightarrow> status" where
  "statusOf ToScheduled = Scheduled"
| "statusOf ToConfirmed = Confirmed"
| "statusOf ToInProgress = InProgress"
| "statusOf ToCompleted = Completed"
| "statusOf ToCancelledVisit = CancelledVisit"
| "statusOf ToNoShow = NoShow"

text \<open>
  The body is spread into the update as it is, so it may also carry
  \<^verbatim>\<open>appointmentDay\<close> and \<^verbatim>\<open>dailyToken\<close>.
\<close>

record updateAppointmentBody =
  ua_patient :: "oid option"
  ua_doctor :: "oid option"
  ua_appointmentDate :: "instant option"
  ua_appointmentTime :: "string option"
  ua_status :: "updatableStatus option"
  ua_paymentStatus :: "paymentStatus option"
  ua_amount :: "rat option"
  ua_discount :: "rat option"
  ua_paymentOnline :: "rat option"
  ua_paymentOffline :: "rat option"
  ua_appointmentDay :: "instant option"
  ua_dailyToken :: "int option"

text \<open>
  Lines 224-256, given the appointment found: the validators, the doctor's scope (the
  populated doctor is read, so a missing doctor document throws), the patient and the
  new doctor if the body names them.
\<close>

definition updateChecks :: "user \<Rightarrow> updateAppointmentBody \<Rightarrow> appointment \<Rightarrow> db \<Rightarrow> failure option" where
  "updateChecks usr body appointment st =
     (if u_role usr = Doctor \<and> u_doctorId usr \<noteq> None
         \<and> find (\<lambda>d. doc_id d = a_doctor appointment) (doctors st) = None
      then Some ServerError
      else if u_role usr = Doctor \<and> u_doctorId usr \<noteq> None
              \<and> Some (a_doctor appointment) \<noteq> u_doctorId usr
      then Some Forbidden
      else if (case ua_patient body of None \<Rightarrow> False | Some p \<Rightarrow> p \<notin> set (patients st))
      then Some NotFound
      else if (case ua_doctor body of
                 None \<Rightarrow> False
               | Some d \<Rightarrow> find (\<lambda>x. doc_id x = d) (doctors st) = None)
      then Some NotFound
      else None)"

text \<open>
  Lines 252-255: a new doctor's consultation fee becomes the amount when the body has
  none.
\<close>

definition withDoctorFee :: "updateAppointmentBody \<Rightarrow> db \<Rightarrow> updateAppointmentBody" where
  "withDoctorFee body st =
     (case ua_doctor body of
        None \<Rightarrow> body
      | Some d \<Rightarrow>
          (case find (\<lambda>x. doc_id x = d) (doctors st) of
             None \<Rightarrow> body
           | Some newDoc \<Rightarrow>
               if ua_amount body = None \<and> doc_consultationFee newDoc \<noteq> None
               then body\<lparr>ua_amount := doc_consultationFee newDoc\<rparr>
               else body))"

text \<open>
  Lines 259-277: the conflict query runs when the body names a date, a time or a
  doctor, on the values the appointment will have.
\<close>

definition conflictingOnUpdate ::
  "oid \<Rightarrow> updateAppointmentBody \<Rightarrow> appointment \<Rightarrow> appointment list \<Rightarrow> appointment option" where
  "conflictingOnUpdate i body appointment as =
     (if ua_appointmentDate body \<noteq> None \<or> ua_appointmentTime body \<noteq> None
         \<or> ua_doctor body \<noteq> None
      then
        (let appointmentDate = orElse (ua_appointmentDate body) (a_appointmentDate appointment);
             appointmentTime = orElse (ua_appointmentTime body) (a_appointmentTime appointment);
             doctorToCheck = orElse (ua_doctor body) (a_doctor appointment)
         in find (\<lambda>a. a_id a \<noteq> i \<and> a_doctor a = doctorToCheck
                    \<and> a_appointmentDate a = appointmentDate
                    \<and> a_appointmentTime a = appointmentTime
                    \<and> (a_status a = Scheduled \<or> a_status a = Confirmed)) as)
      else None)"

text \<open>Lines 291-301 and 322-332: the payment status joins the update.\<close>

definition paymentFieldsPresent :: "updateAppointmentBody \<Rightarrow> bool" where
  "paymentFieldsPresent b =
     (ua_paymentOnline b \<noteq> None \<or> ua_paymentOffline b \<noteq> None \<or> ua_amount b \<noteq> None
      \<or> ua_discount b \<noteq> None)"

definition withPaymentStatus :: "updateAppointmentBody \<Rightarrow> appointment \<Rightarrow> updateAppointmentBody" where
  "withPaymentStatus b current =
     (let paid = jsAdd (orElse (ua_paymentOnline b) (a_paymentOnline current))
                   (orElse (ua_paymentOffline b) (a_paymentOffline current));
          amount = orElse (ua_amount b) (orElse (a_amount current) 0);
          discount = orElse (ua_discount b) (a_discount current)
      in b\<lparr>ua_paymentStatus := Some (appointmentStatus paid amount discount)\<rparr>)"

text \<open>The document after \<^verbatim>\<open>$set\<close> of the fields the update carries.\<close>

definition applyUpdate :: "updateAppointmentBody \<Rightarrow> appointment \<Rightarrow> appointment" where
  "applyUpdate b a =
     a\<lparr>a_patient := orElse (ua_patient b) (a_patient a),
       a_doctor := orElse (ua_doctor b) (a_doctor a),
       a_appointmentDate := orElse (ua_appointmentDate b) (a_appointmentDate a),
       a_appointmentTime := orElse (ua_appointmentTime b) (a_appointmentTime a),
       a_status := orElse (map_option statusOf (ua_status b)) (a_status a),
       a_paymentStatus := orElse (ua_paymentStatus b) (a_paymentStatus a),
       a_amount := (case ua_amount b of None \<Rightarrow> a_amount a | Some v \<Rightarrow> Some v),
       a_discount := orElse (ua_discount b) (a_discount a),
       a_paymentOnline := orElse (ua_paymentOnline b) (a_paymentOnline a),
       a_paymentOffline := orElse (ua_paymentOffline b) (a_paymentOffline a),
       a_appointmentDay := orElse (ua_appointmentDay b) (a_appointmentDay a),
       a_dailyToken := orElse (ua_dailyToken b) (a_dailyToken a)\<rparr>"

text \<open>
  \<^verbatim>\<open>Appointment.findByIdAndUpdate(id, update, {new: true, runValidators: true})\<close>:
  the \<^verbatim>\<open>min: 0\<close> validators run on the fields of the update; a missing document
  gives \<^verbatim>\<open>null\<close>; a document whose day and token move onto another document's is
  refused by the unique index.
\<close>

definition findByIdAndUpdate ::
  "oid \<Rightarrow> updateAppointmentBody \<Rightarrow> appointment list
     \<Rightarrow> storeError + (appointment option \<times> appointment list)" where
  "findByIdAndUpdate i b as =
     (if \<not> (0 \<le> orElse (ua_amount b) 0 \<and> 0 \<le> orElse (ua_discount b) 0
             \<and> 0 \<le> orElse (ua_paymentOnline b) 0 \<and> 0 \<le> orElse (ua_paymentOffline b) 0)
      then Inl ValidationError
      else case findById i as of
        None \<Rightarrow> Inr (None, as)
      | Some a \<Rightarrow>
          (let a' = applyUpdate b a
           in if (a_appointmentDay a' \<noteq> a_appointmentDay a \<or> a_dailyToken a' \<noteq> a_dailyToken a)
                 \<and> list_ex (\<lambda>x. a_id x \<noteq> i \<and> a_appointmentDay x = a_appointmentDay a'
                                  \<and> a_dailyToken x = a_dailyToken a') as
              then Inl DuplicateKey
              else Inr (Some a', map (\<lambda>x. if a_id x = i then a' else x) as)))"

text \<open>
  Lines 288-316, one pass of the loop: count the day without this appointment, propose
  the next token, read the appointment again for the payment status when the update
  carries a payment field (a missing document throws), and write.
\<close>

definition updateAttempt ::
  "(nat \<Rightarrow> appointment list \<Rightarrow> appointment list) \<Rightarrow> oid \<Rightarrow> instant \<Rightarrow> updateAppointmentBody \<Rightarrow> nat
     \<Rightarrow> appointment list \<Rightarrow> appointment option attempt \<times> appointment list" where
  "updateAttempt others i day updateBody attempt as =
     (let as1 = others (3 * attempt) as;
          count = countDayExcept day i as1;
          b1 = updateBody\<lparr>ua_dailyToken := Some (int count + 1)\<rparr>;
          as2 = others (3 * attempt + 1) as1
      in if paymentFieldsPresent b1 \<and> findById i as2 = None then (Thrown, as2)
         else
           (let b2 = (case findById i as2 of
                        None \<Rightarrow> b1
                      | Some current \<Rightarrow>
                          if paymentFieldsPresent b1 then withPaymentStatus b1 current else b1);
                as3 = others (3 * attempt + 2) as2
            in case findByIdAndUpdate i b2 as3 of
                 Inr (updatedAppointment, as4) \<Rightarrow> (Saved updatedAppointment, as4)
               | Inl DuplicateKey \<Rightarrow> (Duplicate, as3)
               | Inl ValidationError \<Rightarrow> (Thrown, as3)))"

text \<open>Lines 287-318: at most three passes.\<close>

function updateLoop ::
  "(nat \<Rightarrow> appointment list \<Rightarrow> appointment list) \<Rightarrow> oid \<Rightarrow> instant \<Rightarrow> updateAppointmentBody \<Rightarrow> nat
     \<Rightarrow> appointment list \<Rightarrow> (failure + appointment option) \<times> appointment list" where
  "updateLoop others i day updateBody attempt as =
     (if attempt < 3 then
        (case updateAttempt others i day updateBody attempt as of
           (Saved updatedAppointment, as') \<Rightarrow> (Inr updatedAppointment, as')
         | (Duplicate, as') \<Rightarrow> updateLoop others i day updateBody (attempt + 1) as'
         | (Thrown, as') \<Rightarrow> (Inl ServerError, as'))
      else (Inl TokenAllocationFailed, as))"
  by pat_completeness auto
termination
  by (relation "measure (\<lambda>(others, i, day, updateBody, attempt, as). 3 - attempt)") auto

text \<open>
  Lines 321-344: the update of a body without a date. Any error of the write reaches
  the outer \<^verbatim>\<open>catch\<close>.
\<close>

definition updateInPlace ::
  "oid \<Rightarrow> updateAppointmentBody \<Rightarrow> appointment \<Rightarrow> db \<Rightarrow> (failure + appointment option) \<times> db" where
  "updateInPlace i updateBody current st =
     (let b = (if paymentFieldsPresent updateBody then withPaymentStatus updateBody current
               else updateBody)
      in case findByIdAndUpdate i b (appointments st) of
           Inr (updatedAppointment, as) \<Rightarrow> (Inr updatedAppointment, st\<lparr>appointments := as\<rparr>)
         | Inl e \<Rightarrow> (Inl ServerError, st))"

definition updateAppointment ::
  "(instant \<Rightarrow> instant) \<Rightarrow> (nat \<Rightarrow> appointment list \<Rightarrow> appointment list) \<Rightarrow> user \<Rightarrow> oid
     \<Rightarrow> updateAppointmentBody \<Rightarrow> db \<Rightarrow> (failure + appointment option) \<times> db" where
  "updateAppointment setHours0 others usr i body st =
     (if ua_appointmentTime body = Some [] then (Inl ValidationFailed, st)
      else case findById i (appointments st) of
        None \<Rightarrow> (Inl NotFound, st)
      | Some appointment \<Rightarrow>
          (case updateChecks usr body appointment st of
             Some e \<Rightarrow> (Inl e, st)
           | None \<Rightarrow>
               (case conflictingOnUpdate i body appointment (appointments st) of
                  Some conflictingAppointment \<Rightarrow> (Inl SlotConflict, st)
                | None \<Rightarrow>
                    (let updateBody = withDoctorFee body st
                     in case ua_appointmentDate body of
                          Some date \<Rightarrow>
                            (let day = setHours0 date
                             in case updateLoop others i day
                                       (updateBody\<lparr>ua_appointmentDay := Some day\<rparr>) 0
                                       (appointments st) of
                                  (r, as) \<Rightarrow> (r, st\<lparr>appointments := as\<rparr>))
                        | None \<Rightarrow> updateInPlace i updateBody appointment st))))"

subsection \<open>appointments.js: DELETE /:id\<close>

text \<open>The \<^verbatim>\<open>_id\<close> index is unique: the documents with this \<^verbatim>\<open>_id\<close> are one.\<close>

definition deleteAppointment :: "oid \<Rightarrow> db \<Rightarrow> (failure + unit) \<times> db" where
  "deleteAppointment i st =
     (case findById i (appointments st) of
        None \<Rightarrow> (Inl NotFound, st)
      | Some appointment \<Rightarrow>
          (Inr (), st\<lparr>appointments := filter (\<lambda>a. a_id a \<noteq> i) (appointments st)\<rparr>))"

subsection \<open>Sequences of appointment requests, one after the other\<close>

datatype appointmentOp =
  CreateAppointment "nat \<Rightarrow> oid" user createAppointmentBody
  | UpdateAppointment user oid updateAppointmentBody
  | DeleteAppointment oid

fun appointmentStep :: "(instant \<Rightarrow> instant) \<Rightarrow> db \<Rightarrow> appointmentOp \<Rightarrow> db" where
  "appointmentStep setHours0 st (CreateAppointment newId usr body) =
     snd (createAppointment setHours0 alone newId usr body st)"
| "appointmentStep setHours0 st (UpdateAppointment usr i body) =
     snd (updateAppointment setHours0 alone usr i body st)"
| "appointmentStep setHours0 st (DeleteAppointment i) = snd (deleteAppointment i st)"

text \<open>The appointments that a list of create requests, run in order, answers with.\<close>

fun createdBy ::
  "(instant \<Rightarrow> instant) \<Rightarrow> db \<Rightarrow> ((nat \<Rightarrow> oid) \<times> user \<times> createAppointmentBody) list
     \<Rightarrow> appointment list" where
  "createdBy setHours0 st [] = []"
| "createdBy setHours0 st ((newId, usr, body) # reqs) =
     (case createAppointment setHours0 alone newId usr body st of
        (Inr saved, st') \<Rightarrow> saved # createdBy setHours0 st' reqs
      | (Inl e, st') \<Rightarrow> createdBy setHours0 st' reqs)"

subsection \<open>The specification's words for the appointment rules\<close>

text \<open>
  Section 4.3: \<open>payable = max(0, amount - discount)\<close>, the difference being the one
  that JavaScript computes; pending when \<open>paid \<le> 0\<close>, partial when
  \<open>0 < paid < payable\<close>, paid when \<open>paid \<ge> payable\<close>, the first of the three that
  applies. An appointment is judged on \<open>paymentOnline + paymentOffline\<close> against the
  payable amount, a dispense on \<open>paidAmount\<close> against \<open>total\<close>.
\<close>

definition payable_spec :: "rat \<Rightarrow> rat \<Rightarrow> rat" where
  "payable_spec amount discount = max 0 (jsSub amount discount)"

definition derive_spec :: "rat \<Rightarrow> rat \<Rightarrow> paymentStatus" where
  "derive_spec paid payable =
     (if paid \<le> 0 then Pending
      else if 0 < paid \<and> paid < payable then Partial
      else Paid)"

text \<open>
  Section 4.2: a conflict is an appointment with the same doctor, exactly the same date
  and time, status scheduled or confirmed, and an identity other than the excluded one.
\<close>

definition hasConflict_spec ::
  "oid \<Rightarrow> instant \<Rightarrow> string \<Rightarrow> oid option \<Rightarrow> appointment list \<Rightarrow> bool" where
  "hasConflict_spec doc date time excludeId as =
     list_ex (\<lambda>a. a_doctor a = doc \<and> a_appointmentDate a = date \<and> a_appointmentTime a = time
                 \<and> a_status a \<in> {Scheduled, Confirmed} \<and> Some (a_id a) \<noteq> excludeId) as"

text \<open>The pair that the unique index of the collection keys.\<close>

definition dayToken :: "appointment \<Rightarrow> instant \<times> int" where
  "dayToken a = (a_appointmentDay a, a_dailyToken a)"

subsection \<open>The stock ledger as the specification words it\<close>

text \<open>
  Section 4.4 of the specification: for each line item, resolve the medicine by exact
  (name, strength, form) match, falling back to a name-only match; if found, adjust
  the stock by \<open>sign * quantity\<close>, clamped at zero on the downward direction; if no
  medicine matches, the item is a no-op.

  The key of an item and of a medicine is its name, strength and form, a strength or a
  form that is not given being empty. The medicine that matches is the first one, in
  the order of the catalogue, whose key is the item's; failing that, the first one
  with the item's name.
\<close>

definition itemKey_spec :: "dispenseItem \<Rightarrow> string \<times> string \<times> string" where
  "itemKey_spec it =
     (it_name it,
      (case it_strength it of None \<Rightarrow> [] | Some s \<Rightarrow> s),
      (case it_form it of None \<Rightarrow> [] | Some f \<Rightarrow> f))"

definition medicineKey_spec :: "medicine \<Rightarrow> string \<times> string \<times> string" where
  "medicineKey_spec m =
     (med_name m,
      (case med_strength m of None \<Rightarrow> [] | Some s \<Rightarrow> s),
      (case med_form m of None \<Rightarrow> [] | Some f \<Rightarrow> f))"

definition resolve_spec :: "medicine list \<Rightarrow> dispenseItem \<Rightarrow> medicine option" where
  "resolve_spec meds it =
     (case filter (\<lambda>m. medicineKey_spec m = itemKey_spec it) meds of
        m # ms \<Rightarrow> Some m
      | [] \<Rightarrow>
          (case filter (\<lambda>m. med_name m = it_name it) meds of
             m # ms \<Rightarrow> Some m
           | [] \<Rightarrow> None))"

text \<open>
  One delta. The sum \<open>stock + sign * quantity\<close> is rounded as JavaScript rounds a sum;
  the product by the sign, 1 or -1, is exact.
\<close>

definition applyItem_spec :: "int \<Rightarrow> medicine list \<Rightarrow> dispenseItem \<Rightarrow> medicine list" where
  "applyItem_spec sign meds it =
     (case resolve_spec meds it of
        None \<Rightarrow> meds
      | Some m \<Rightarrow>
          (let moved = jsAdd (med_stock m) (of_int sign * it_quantity it);
               stock' = (if sign < 0 then max 0 moved else moved)
           in map (\<lambda>x. if med_id x = med_id m then m\<lparr>med_stock := stock'\<rparr> else x) meds))"

definition applyDelta_spec :: "dispenseItem list \<Rightarrow> int \<Rightarrow> medicine list \<Rightarrow> medicine list" where
  "applyDelta_spec items sign meds = foldl (applyItem_spec sign) meds items"

text \<open>A catalogue in which every medicine stores a strength and a form.\<close>

definition storesKey :: "medicine \<Rightarrow> bool" where
  "storesKey m = (med_strength m \<noteq> None \<and> med_form m \<noteq> None)"

subsection \<open>Concrete data for the examples\<close>

text \<open>\<^verbatim>\<open>setHours(0, 0, 0, 0)\<close> on a server whose local time is UTC.\<close>

definition utcMidnight :: "instant \<Rightarrow> instant" where
  "utcMidnight t = t - t mod 86400000"

definition ex_clock :: clock where
  "ex_clock = \<lparr> c_fullYear = ''2024'', c_month1 = ''3'', c_date = ''7'',
                 c_now = ''1709800000123'' \<rparr>"

definition ex_oidStr :: "oid \<Rightarrow> string" where
  "ex_oidStr i = (if i = 100 then ''65e9a1b2c3d4e5f6a7b8c9d0'' else ''65e9a1b2c3d4e5f6a7b8c9d1'')"

definition ex_medA :: medicine where
  "ex_medA = \<lparr> med_id = 1, med_name = ''A'', med_strength = Some ''500mg'',
                med_form = Some ''tablet'', med_stock = 10 \<rparr>"

definition ex_medB :: medicine where
  "ex_medB = \<lparr> med_id = 2, med_name = ''B'', med_strength = None, med_form = None,
                med_stock = 10 \<rparr>"

definition ex_itemA :: "rat \<Rightarrow> dispenseItem" where
  "ex_itemA q = \<lparr> it_name = ''A'', it_quantity = q, it_unitPrice = 2,
                   it_strength = Some ''500mg'', it_form = Some ''tablet'' \<rparr>"

definition ex_itemB :: "rat \<Rightarrow> dispenseItem" where
  "ex_itemB q = \<lparr> it_name = ''B'', it_quantity = q, it_unitPrice = 3,
                   it_strength = None, it_form = None \<rparr>"

definition ex_db :: db where
  "ex_db = \<lparr> appointments = [], dispenses = [], medicines = [ex_medA, ex_medB],
              patients = [7], doctors = [] \<rparr>"

definition ex_body :: "dispenseItem list \<Rightarrow> createDispenseBody" where
  "ex_body items = \<lparr> cd_items = items, cd_tax = None, cd_discount = None,
                      cd_patient = Some 7, cd_date = None, cd_token = None \<rparr>"

text \<open>A stored dispense of three units of A, not yet paid, and the same one cancelled.\<close>

definition ex_dispense :: dispense where
  "ex_dispense = \<lparr> d_id = 100, d_patient = 7, d_appointment = None,
     d_appointmentDay = None, d_dailyToken = None, d_items = [ex_itemA 3],
     d_subtotal = 6, d_tax = 0, d_discount = 0, d_total = 6,
     d_paymentStatus = Pending, d_paidAmount = 0,
     d_billNumber = Some ''20240307-000123-x9abc'', d_dispensedBy = 9 \<rparr>"

definition ex_db_open :: db where
  "ex_db_open = ex_db\<lparr>dispenses := [ex_dispense]\<rparr>"

definition ex_db_cancelled :: db where
  "ex_db_cancelled = ex_db\<lparr>dispenses := [ex_dispense\<lparr>d_paymentStatus := Cancelled\<rparr>]\<rparr>"

definition ex_update :: updateDispenseBody where
  "ex_update = \<lparr> ud_items = Some [ex_itemA 1, ex_itemB 2], ud_tax = None, ud_discount = None \<rparr>"

text \<open>
  Two catalogue entries named Para: one stored without strength and form, one stored
  with both empty (as the prescription route stores them); and an item that names
  neither.
\<close>

definition ex_para_bare :: medicine where
  "ex_para_bare = \<lparr> med_id = 3, med_name = ''Para'', med_strength = None,
                     med_form = None, med_stock = 10 \<rparr>"

definition ex_para_empty :: medicine where
  "ex_para_empty = \<lparr> med_id = 4, med_name = ''Para'', med_strength = Some [],
                      med_form = Some [], med_stock = 10 \<rparr>"

definition ex_itemPara :: dispenseItem where
  "ex_itemPara = \<lparr> it_name = ''Para'', it_quantity = 5, it_unitPrice = 1,
                    it_strength = None, it_form = None \<rparr>"

definition ex_db_para :: db where
  "ex_db_para = ex_db\<lparr>medicines := [ex_para_bare, ex_para_empty]\<rparr>"

text \<open>
  Two strengths of Para, each stored with its strength and its form, and the second
  one as a catalogue entry made without a form; items that name them; a stored
  dispense of three units of the second and its update to one unit of the second and
  two of the first.
\<close>

definition ex_para250 :: medicine where
  "ex_para250 = \<lparr> med_id = 5, med_name = ''Para'', med_strength = Some ''250mg'',
                   med_form = Some ''tablet'', med_stock = 10 \<rparr>"

definition ex_para500 :: medicine where
  "ex_para500 = \<lparr> med_id = 6, med_name = ''Para'', med_strength = Some ''500mg'',
                   med_form = Some ''tablet'', med_stock = 10 \<rparr>"

definition ex_para500_bare :: medicine where
  "ex_para500_bare = ex_para500\<lparr>med_form := None\<rparr>"

definition ex_item250 :: "rat \<Rightarrow> dispenseItem" where
  "ex_item250 q = \<lparr> it_name = ''Para'', it_quantity = q, it_unitPrice = 2,
                     it_strength = Some ''250mg'', it_form = Some ''tablet'' \<rparr>"

definition ex_item500 :: "rat \<Rightarrow> dispenseItem" where
  "ex_item500 q = \<lparr> it_name = ''Para'', it_quantity = q, it_unitPrice = 2,
                     it_strength = Some ''500mg'', it_form = Some ''tablet'' \<rparr>"

definition ex_item500_bare :: "rat \<Rightarrow> dispenseItem" where
  "ex_item500_bare q = (ex_item500 q)\<lparr>it_form := None\<rparr>"

definition ex_db_paras :: db where
  "ex_db_paras = ex_db\<lparr>medicines := [ex_para250, ex_para500],
     dispenses := [ex_dispense\<lparr>d_items := [ex_item500 3]\<rparr>]\<rparr>"

definition ex_update_paras :: updateDispenseBody where
  "ex_update_paras =
     \<lparr> ud_items = Some [ex_item500 1, ex_item250 2], ud_tax = None, ud_discount = None \<rparr>"

definition ex_db_bare :: db where
  "ex_db_bare = ex_db\<lparr>medicines := [ex_para250, ex_para500_bare],
     dispenses := [ex_dispense\<lparr>d_items := [ex_item500_bare 3]\<rparr>]\<rparr>"

definition ex_update_bare :: updateDispenseBody where
  "ex_update_bare =
     \<lparr> ud_items = Some [ex_item500_bare 1], ud_tax = None, ud_discount = None \<rparr>"

text \<open>A free item: its dispense has a total of zero.\<close>

definition ex_itemFree :: dispenseItem where
  "ex_itemFree = \<lparr> it_name = ''A'', it_quantity = 1, it_unitPrice = 0,
                    it_strength = Some ''500mg'', it_form = Some ''tablet'' \<rparr>"

text \<open>The same dispense partly paid, and a record that carries no bill number.\<close>

definition ex_db_partial :: db where
  "ex_db_partial = ex_db\<lparr>dispenses := [ex_dispense\<lparr>d_paymentStatus := Partial, d_paidAmount := 4\<rparr>]\<rparr>"

definition ex_db_legacy :: db where
  "ex_db_legacy = ex_db\<lparr>dispenses := [ex_dispense\<lparr>d_billNumber := None\<rparr>]\<rparr>"

text \<open>A small clinic: one patient, one doctor, a receptionist at the desk.\<close>

definition ex_clinic :: db where
  "ex_clinic = \<lparr> appointments = [], dispenses = [], medicines = [], patients = [7],
                  doctors = [\<lparr> doc_id = 5, doc_consultationFee = Some 300 \<rparr>] \<rparr>"

definition ex_receptionist :: user where
  "ex_receptionist = \<lparr> u_id = 9, u_role = Receptionist, u_doctorId = None \<rparr>"

text \<open>
  A booking for 1 January 2024 (the instant is 10:00 UTC of that day) at the given
  time, with the given payments.
\<close>

definition ex_booking :: "string \<Rightarrow> rat option \<Rightarrow> rat option \<Rightarrow> createAppointmentBody" where
  "ex_booking time amount online =
     \<lparr> ca_patient = 7, ca_doctor = 5, ca_appointmentDate = 1704103200000,
       ca_appointmentTime = time, ca_status = None, ca_paymentStatus = None,
       ca_amount = amount, ca_discount = None, ca_paymentOnline = online,
       ca_paymentOffline = None \<rparr>"

definition ex_newId :: "oid \<Rightarrow> nat \<Rightarrow> oid" where
  "ex_newId base attempt = base + attempt"

definition ex_appointment :: "oid \<Rightarrow> string \<Rightarrow> int \<Rightarrow> appointment" where
  "ex_appointment i time token =
     \<lparr> a_id = i, a_patient = 7, a_doctor = 5, a_appointmentDate = 1704103200000,
       a_appointmentDay = 1704067200000, a_appointmentTime = time, a_dailyToken = token,
       a_status = Scheduled, a_paymentStatus = Pending, a_amount = None, a_discount = 0,
       a_paymentOnline = 0, a_paymentOffline = 0 \<rparr>"

text \<open>The day after three bookings, and after the first of them was deleted.\<close>

definition ex_day3 :: db where
  "ex_day3 = ex_clinic\<lparr>appointments :=
     [ex_appointment 10 ''10:00'' 1, ex_appointment 20 ''10:30'' 2, ex_appointment 30 ''11:00'' 3]\<rparr>"

definition ex_gap :: db where
  "ex_gap = ex_clinic\<lparr>appointments :=
     [ex_appointment 20 ''10:30'' 2, ex_appointment 30 ''11:00'' 3]\<rparr>"

text \<open>A move of an appointment to 2 January 2024, 09:00 UTC.\<close>

definition ex_move :: updateAppointmentBody where
  "ex_move = \<lparr> ua_patient = None, ua_doctor = None, ua_appointmentDate = Some 1704186000000,
     ua_appointmentTime = None, ua_status = None, ua_paymentStatus = None, ua_amount = None,
     ua_discount = None, ua_paymentOnline = None, ua_paymentOffline = None,
     ua_appointmentDay = None, ua_dailyToken = None \<rparr>"

text \<open>A change of an appointment's time to 10:00, and a payment of 100 online.\<close>

definition ex_retime :: updateAppointmentBody where
  "ex_retime = ex_move\<lparr>ua_appointmentDate := None, ua_appointmentTime := Some ''10:00''\<rparr>"

definition ex_payOnline :: updateAppointmentBody where
  "ex_payOnline = ex_move\<lparr>ua_appointmentDate := None, ua_amount := Some 300,
     ua_paymentOnline := Some 100\<rparr>"

text \<open>A dispense of one free item: its total is zero.\<close>

definition ex_free :: dispense where
  "ex_free = ex_dispense\<lparr>d_items := [ex_itemFree], d_subtotal := 0, d_total := 0\<rparr>"

definition ex_db_free :: db where
  "ex_db_free = ex_db\<lparr>dispenses := [ex_free]\<rparr>"


section \<open>Properties\<close>

subsection \<open>Rounding to a double\<close>

text \<open>
  The rounding keeps the sign and the order of what it rounds.
\<close>

lemma roundHalfEven_of_int [simp]: "roundHalfEven (of_int n) = n"
  by (simp add: roundHalfEven_def)

lemma roundHalfEven_0 [simp]: "roundHalfEven 0 = 0"
  using roundHalfEven_of_int[of 0] by simp

lemma roundHalfEven_numeral [simp]: "roundHalfEven (numeral n) = numeral n"
  using roundHalfEven_of_int[of "numeral n"] by simp

lemma roundHalfEven_mono:
  assumes "r \<le> r'" shows "roundHalfEven r \<le> roundHalfEven r'"
proof (cases "\<lfloor>r\<rfloor> = \<lfloor>r'\<rfloor>")
  case True
  with assms show ?thesis by (auto simp: roundHalfEven_def Let_def)
next
  case False
  with assms have lt: "\<lfloor>r\<rfloor> + 1 \<le> \<lfloor>r'\<rfloor>" using floor_mono[OF assms] by linarith
  have a: "roundHalfEven r \<le> \<lfloor>r\<rfloor> + 1" by (auto simp: roundHalfEven_def Let_def)
  have b: "\<lfloor>r'\<rfloor> \<le> roundHalfEven r'" by (auto simp: roundHalfEven_def Let_def)
  from a lt b show ?thesis by linarith
qed

lemma exponentOf_bounds:
  assumes "0 < x"
  shows "2 powi exponentOf x \<le> x \<and> x < 2 powi (exponentOf x + 1)"
proof -
  obtain p q where pq: "quotient_of x = (p, q)" by (cases "quotient_of x")
  then have q0: "0 < q" and x: "x = of_int p / of_int q"
    by (rule quotient_of_denom_pos, rule quotient_of_div)
  with assms have p0: "0 < p" by (simp add: zero_less_divide_iff)
  define bp where "bp = bitlen p"
  define bq where "bq = bitlen q"
  have bp1: "1 \<le> bp" and bq1: "1 \<le> bq" using p0 q0 by (auto simp: bp_def bq_def bitlen_alt_def)
  from bitlen_bounds[OF p0] have pb: "2 ^ nat (bp - 1) \<le> p" "p < 2 ^ nat bp" by (auto simp: bp_def)
  from bitlen_bounds[OF q0] have qb: "2 ^ nat (bq - 1) \<le> q" "q < 2 ^ nat bq" by (auto simp: bq_def)
  have P1: "(2::rat) powi (bp - 1) \<le> of_int p"
  proof -
    have "(of_int (2 ^ nat (bp - 1)) :: rat) \<le> of_int p" using pb(1) by (simp only: of_int_le_iff)
    then show ?thesis using bp1 by (simp add: power_int_def)
  qed
  have P2: "of_int p < (2::rat) powi bp"
  proof -
    have "(of_int p :: rat) < of_int (2 ^ nat bp)" using pb(2) by (simp only: of_int_less_iff)
    then show ?thesis using bp1 by (simp add: power_int_def)
  qed
  have Q1: "(2::rat) powi (bq - 1) \<le> of_int q"
  proof -
    have "(of_int (2 ^ nat (bq - 1)) :: rat) \<le> of_int q" using qb(1) by (simp only: of_int_le_iff)
    then show ?thesis using bq1 by (simp add: power_int_def)
  qed
  have Q2: "of_int q < (2::rat) powi bq"
  proof -
    have "(of_int q :: rat) < of_int (2 ^ nat bq)" using qb(2) by (simp only: of_int_less_iff)
    then show ?thesis using bq1 by (simp add: power_int_def)
  qed
  have qr: "(0::rat) < of_int q" using q0 by simp
  have up: "x < 2 powi (bp - bq + 1)"
  proof -
    have "x * of_int q = of_int p" using x qr by simp
    also have "\<dots> < 2 powi bp" by (rule P2)
    also have "\<dots> = 2 powi (bp - bq + 1) * 2 powi (bq - 1)"
      by (simp add: power_int_add[symmetric])
    also have "\<dots> \<le> 2 powi (bp - bq + 1) * of_int q"
      using Q1 by (simp add: mult_left_mono)
    finally show ?thesis using qr by simp
  qed
  have lo: "2 powi (bp - bq - 1) < x"
  proof -
    have "2 powi (bp - bq - 1) * of_int q < 2 powi (bp - bq - 1) * (2::rat) powi bq"
      using Q2 by (simp add: mult_strict_left_mono)
    also have "\<dots> = 2 powi (bp - 1)" by (simp add: power_int_add[symmetric])
    also have "\<dots> \<le> of_int p" by (rule P1)
    also have "\<dots> = x * of_int q" using x qr by simp
    finally show ?thesis using qr by simp
  qed
  have e: "exponentOf x = (if 2 powi (bp - bq) \<le> x then bp - bq else bp - bq - 1)"
    by (simp add: exponentOf_def pq bp_def bq_def Let_def)
  show ?thesis
  proof (cases "2 powi (bp - bq) \<le> x")
    case True
    with e up show ?thesis by simp
  next
    case False
    with e lo show ?thesis by simp
  qed
qed

lemma toDouble_minus: "toDouble (- x) = - toDouble x"
  by (simp add: toDouble_def Let_def)

lemma roundHalfEven_nonneg: "0 \<le> r \<Longrightarrow> 0 \<le> roundHalfEven r"
  using roundHalfEven_mono[of 0 r] by simp

lemma toDouble_nonneg: "0 \<le> x \<Longrightarrow> 0 \<le> toDouble x"
  by (simp add: toDouble_def Let_def sgn_if roundHalfEven_nonneg)


lemma toDouble_pos:
  "0 < x \<Longrightarrow> toDouble x =
     of_int (roundHalfEven (x / 2 powi (max (exponentOf x) (- 1022) - 52)))
       * 2 powi (max (exponentOf x) (- 1022) - 52)"
  by (simp add: toDouble_def Let_def)

lemma toDouble_mono_pos:
  assumes "0 < x" and "x \<le> y"
  shows "toDouble x \<le> toDouble y"
proof -
  from assms have y0: "0 < y" by simp
  define Ex where "Ex = max (exponentOf x) (- 1022)"
  define Ey where "Ey = max (exponentOf y) (- 1022)"
  define ux :: rat where "ux = 2 powi (Ex - 52)"
  define uy :: rat where "uy = 2 powi (Ey - 52)"
  have ux0: "0 < ux" and uy0: "0 < uy" by (simp_all add: ux_def uy_def)
  have tx: "toDouble x = of_int (roundHalfEven (x / ux)) * ux"
    using toDouble_pos[OF assms(1)] by (simp add: ux_def Ex_def)
  have ty: "toDouble y = of_int (roundHalfEven (y / uy)) * uy"
    using toDouble_pos[OF y0] by (simp add: uy_def Ey_def)
  note bx = exponentOf_bounds[OF assms(1)]
  note bnd_y = exponentOf_bounds[OF y0]
  have ee: "exponentOf x \<le> exponentOf y"
  proof (rule ccontr)
    assume "\<not> exponentOf x \<le> exponentOf y"
    then have "exponentOf y + 1 \<le> exponentOf x" by simp
    then have "(2::rat) powi (exponentOf y + 1) \<le> 2 powi exponentOf x"
      by (rule power_int_increasing) simp
    with bx bnd_y assms(2) show False by linarith
  qed
  then have EE: "Ex \<le> Ey" by (simp add: Ex_def Ey_def)
  show ?thesis
  proof (cases "Ex = Ey")
    case True
    then have u: "ux = uy" by (simp add: ux_def uy_def)
    have "x / uy \<le> y / uy" using assms(2) uy0 by (simp add: divide_right_mono)
    then have "roundHalfEven (x / uy) \<le> roundHalfEven (y / uy)" by (rule roundHalfEven_mono)
    then have "(of_int (roundHalfEven (x / uy)) :: rat) \<le> of_int (roundHalfEven (y / uy))"
      by (simp only: of_int_le_iff)
    then show ?thesis using uy0 by (simp add: tx ty u mult_right_mono)
  next
    case False
    with EE have lt: "Ex + 1 \<le> Ey" by simp
    then have "- 1022 < Ey" by (simp add: Ex_def)
    then have Eyy: "Ey = exponentOf y" by (simp add: Ey_def)
    have s52: "of_int (2 ^ 52) * uy = (2::rat) powi Ey"
      using power_int_add[of "2::rat" 52 "Ey - 52"] by (simp add: uy_def)
    have "of_int (2 ^ 52) * uy = (2::rat) powi Ey" by (rule s52)
    also have "\<dots> \<le> y" using bnd_y Eyy by simp
    finally have "(of_int (2 ^ 52) :: rat) \<le> y / uy" using uy0 by (simp add: pos_le_divide_eq)
    from roundHalfEven_mono[OF this] have "2 ^ 52 \<le> roundHalfEven (y / uy)" by simp
    then have "(of_int (2 ^ 52) :: rat) \<le> of_int (roundHalfEven (y / uy))"
      by (simp only: of_int_le_iff)
    then have "of_int (2 ^ 52) * uy \<le> toDouble y"
      using uy0 by (simp only: ty mult_right_mono less_imp_le)
    moreover note s52
    ultimately have lowy: "(2::rat) powi Ey \<le> toDouble y" by simp
    have "x < 2 powi (exponentOf x + 1)" using bx by simp
    also have "\<dots> \<le> 2 powi (Ex + 1)" by (rule power_int_increasing) (simp_all add: Ex_def)
    also have "\<dots> = of_int (2 ^ 53) * ux"
      using power_int_add[of "2::rat" 53 "Ex - 52"] by (simp add: ux_def add.commute)
    finally have "x / ux \<le> of_int (2 ^ 53)" using ux0 by (simp add: pos_divide_le_eq)
    from roundHalfEven_mono[OF this] have "roundHalfEven (x / ux) \<le> 2 ^ 53" by simp
    then have "(of_int (roundHalfEven (x / ux)) :: rat) \<le> of_int (2 ^ 53)"
      by (simp only: of_int_le_iff)
    then have "toDouble x \<le> of_int (2 ^ 53) * ux"
      using ux0 by (simp only: tx mult_right_mono less_imp_le)
    also have "\<dots> = 2 powi (Ex + 1)"
      using power_int_add[of "2::rat" 53 "Ex - 52"] by (simp add: ux_def add.commute)
    also have "\<dots> \<le> 2 powi Ey" using lt by (rule power_int_increasing) simp
    finally show ?thesis using lowy by simp
  qed
qed

lemma toDouble_0 [simp]: "toDouble 0 = 0"
  by (simp add: toDouble_def)

lemma toDouble_mono:
  assumes "x \<le> y" shows "toDouble x \<le> toDouble y"
proof -
  consider "0 < x" | "x \<le> 0" "0 \<le> y" | "y < 0" by linarith
  then show ?thesis
  proof cases
    case 1
    from 1 assms show ?thesis by (rule toDouble_mono_pos)
  next
    case 2
    have "0 \<le> toDouble (- x)" using 2(1) by (intro toDouble_nonneg) simp
    then have "toDouble x \<le> 0" by (simp add: toDouble_minus)
    moreover have "0 \<le> toDouble y" using 2(2) by (rule toDouble_nonneg)
    ultimately show ?thesis by simp
  next
    case 3
    then have "0 < - y" "- y \<le> - x" using assms by simp_all
    then have "toDouble (- y) \<le> toDouble (- x)" by (rule toDouble_mono_pos)
    then show ?thesis by (simp add: toDouble_minus)
  qed
qed

text \<open>
  A double is rounded to itself, so what the rounding gives is a double.
\<close>

lemma exponentOf_unique:
  assumes "0 < v" and "2 powi k \<le> v" and "v < 2 powi (k + 1)"
  shows "exponentOf v = k"
proof -
  note b = exponentOf_bounds[OF assms(1)]
  have "\<not> exponentOf v < k"
  proof
    assume "exponentOf v < k"
    then have "exponentOf v + 1 \<le> k" by simp
    then have "(2::rat) powi (exponentOf v + 1) \<le> 2 powi k" by (rule power_int_increasing) simp
    with b assms(2) show False by linarith
  qed
  moreover have "\<not> k < exponentOf v"
  proof
    assume "k < exponentOf v"
    then have "k + 1 \<le> exponentOf v" by simp
    then have "(2::rat) powi (k + 1) \<le> 2 powi exponentOf v" by (rule power_int_increasing) simp
    with b assms(3) show False by linarith
  qed
  ultimately show ?thesis by simp
qed

lemma toDouble_normal:
  assumes "- 1074 \<le> j" and "2 ^ 52 \<le> n" and "n < 2 ^ 53"
  shows "toDouble (of_int n * 2 powi j) = of_int n * 2 powi j"
proof -
  define v :: rat where "v = of_int n * 2 powi j"
  have n0: "(0::rat) < of_int n" using assms(2) by simp
  have v0: "0 < v" using n0 by (simp add: v_def)
  have lo: "(2::rat) powi (j + 52) \<le> v"
  proof -
    have "(2::rat) powi (j + 52) = of_int (2 ^ 52) * 2 powi j"
      using power_int_add[of "2::rat" 52 j] by (simp add: add.commute)
    also have "\<dots> \<le> of_int n * 2 powi j"
      using assms(2) by (intro mult_right_mono) (simp_all only: of_int_le_iff zero_le_power_int zero_le_numeral)
    finally show ?thesis by (simp add: v_def)
  qed
  have hi: "v < (2::rat) powi (j + 52 + 1)"
  proof -
    have "of_int n * (2::rat) powi j < of_int (2 ^ 53) * 2 powi j"
      using assms(3) by (intro mult_strict_right_mono) (simp_all only: of_int_less_iff zero_less_power_int zero_less_numeral)
    also have "\<dots> = 2 powi (j + 52 + 1)"
      using power_int_add[of "2::rat" 53 j] by (simp add: add.commute)
    finally show ?thesis by (simp add: v_def)
  qed
  have e: "exponentOf v = j + 52" using v0 lo hi by (rule exponentOf_unique)
  have m: "max (exponentOf v) (- 1022) - 52 = j" using e assms(1) by simp
  have "toDouble v = of_int (roundHalfEven (v / 2 powi j)) * 2 powi j"
    using toDouble_pos[OF v0] by (simp only: m)
  also have "v / 2 powi j = of_int n" by (simp add: v_def)
  finally show ?thesis by (simp add: v_def)
qed

lemma toDouble_subnormal:
  assumes "0 \<le> n" and "n < 2 ^ 52"
  shows "toDouble (of_int n * 2 powi (- 1074)) = of_int n * 2 powi (- 1074)"
proof (cases "n = 0")
  case True
  then show ?thesis by simp
next
  case False
  with assms(1) have n1: "0 < n" by simp
  define v :: rat where "v = of_int n * 2 powi (- 1074)"
  have v0: "0 < v" using n1 by (simp add: v_def)
  have hi: "v < (2::rat) powi (- 1022)"
  proof -
    have "of_int n * (2::rat) powi (- 1074) < of_int (2 ^ 52) * 2 powi (- 1074)"
      using assms(2) by (intro mult_strict_right_mono) (simp_all only: of_int_less_iff zero_less_power_int zero_less_numeral)
    also have "\<dots> = 2 powi (- 1022)"
      using power_int_add[of "2::rat" 52 "- 1074"] by simp
    finally show ?thesis by (simp add: v_def)
  qed
  have e: "exponentOf v < - 1022"
  proof (rule ccontr)
    assume "\<not> exponentOf v < - 1022"
    then have "- 1022 \<le> exponentOf v" by simp
    then have "(2::rat) powi (- 1022) \<le> 2 powi exponentOf v" by (rule power_int_increasing) simp
    with exponentOf_bounds[OF v0] hi show False by linarith
  qed
  have m: "max (exponentOf v) (- 1022) - 52 = - 1074" using e by simp
  have "toDouble v = of_int (roundHalfEven (v / 2 powi (- 1074))) * 2 powi (- 1074)"
    using toDouble_pos[OF v0] by (simp only: m)
  also have "v / 2 powi (- 1074) = of_int n" by (simp add: v_def)
  finally show ?thesis by (simp add: v_def)
qed

lemma toDouble_idem_pos:
  assumes "0 < x"
  shows "toDouble (toDouble x) = toDouble x"
proof -
  define e where "e = exponentOf x"
  define j where "j = max e (- 1022) - 52"
  define n where "n = roundHalfEven (x / 2 powi j)"
  have t: "toDouble x = of_int n * 2 powi j"
    using toDouble_pos[OF assms] by (simp add: n_def j_def e_def)
  have j0: "- 1074 \<le> j" by (simp add: j_def)
  have u0: "(0::rat) < 2 powi j" by simp
  note b = exponentOf_bounds[OF assms]
  have n0: "0 \<le> n" unfolding n_def using assms by (intro roundHalfEven_nonneg) simp
  show ?thesis
  proof (cases "- 1022 \<le> e")
    case True
    then have je: "j = e - 52" by (simp add: j_def)
    have "of_int (2 ^ 52) * (2::rat) powi j = 2 powi e"
      using power_int_add[of "2::rat" 52 "e - 52"] by (simp add: je)
    also have "\<dots> \<le> x" using b by (simp add: e_def)
    finally have "(of_int (2 ^ 52) :: rat) \<le> x / 2 powi j" using u0 by (simp add: pos_le_divide_eq)
    from roundHalfEven_mono[OF this] have nlo: "2 ^ 52 \<le> n" by (simp add: n_def)
    have "x < 2 powi (e + 1)" using b by (simp add: e_def)
    also have "\<dots> = of_int (2 ^ 53) * (2::rat) powi j"
      using power_int_add[of "2::rat" 53 "e - 52"] by (simp add: je add.commute)
    finally have "x / 2 powi j \<le> of_int (2 ^ 53)" using u0 by (simp add: pos_divide_le_eq)
    from roundHalfEven_mono[OF this] have nhi: "n \<le> 2 ^ 53" by (simp add: n_def)
    show ?thesis
    proof (cases "n < 2 ^ 53")
      case True
      from toDouble_normal[OF j0 nlo True] show ?thesis by (simp add: t)
    next
      case False
      with nhi have n: "n = 2 ^ 53" by simp
      have "of_int n * (2::rat) powi j = of_int (2 ^ 52) * 2 powi (j + 1)"
        using power_int_add[of "2::rat" j 1] by (simp add: n)
      moreover have "toDouble (of_int (2 ^ 52) * 2 powi (j + 1)) = of_int (2 ^ 52) * 2 powi (j + 1)"
        using j0 by (intro toDouble_normal) simp_all
      ultimately show ?thesis by (simp only: t)
    qed
  next
    case False
    then have jm: "j = - 1074" by (simp add: j_def)
    from False have "e + 1 \<le> - 1022" by simp
    then have "(2::rat) powi (e + 1) \<le> 2 powi (- 1022)" by (rule power_int_increasing) simp
    with b have "x < 2 powi (- 1022)" by (simp add: e_def)
    also have "\<dots> = of_int (2 ^ 52) * (2::rat) powi j"
      using power_int_add[of "2::rat" 52 "- 1074"] by (simp add: jm)
    finally have "x / 2 powi j \<le> of_int (2 ^ 52)" using u0 by (simp add: pos_divide_le_eq)
    from roundHalfEven_mono[OF this] have nhi: "n \<le> 2 ^ 52" by (simp add: n_def)
    show ?thesis
    proof (cases "n < 2 ^ 52")
      case True
      from toDouble_subnormal[OF n0 True] show ?thesis by (simp add: t jm)
    next
      case False
      with nhi have n: "n = 2 ^ 52" by simp
      have "toDouble (of_int n * 2 powi j) = of_int n * 2 powi j"
        using j0 by (intro toDouble_normal) (simp_all add: n)
      then show ?thesis by (simp only: t)
    qed
  qed
qed

lemma toDouble_idem: "toDouble (toDouble x) = toDouble x"
proof -
  consider "0 < x" | "x = 0" | "x < 0" by linarith
  then show ?thesis
  proof cases
    case 1
    then show ?thesis by (rule toDouble_idem_pos)
  next
    case 2
    then show ?thesis by simp
  next
    case 3
    then have "0 < - x" by simp
    from toDouble_idem_pos[OF this] show ?thesis by (simp add: toDouble_minus)
  qed
qed

lemma isDouble_toDouble: "isDouble (toDouble x)"
  by (simp add: isDouble_def toDouble_idem)

lemma isDouble_jsAdd: "isDouble (jsAdd x y)"
  by (simp add: jsAdd_def isDouble_toDouble)

lemma jsAdd_nonneg: "0 \<le> x \<Longrightarrow> 0 \<le> y \<Longrightarrow> 0 \<le> jsAdd x y"
  by (simp add: jsAdd_def toDouble_nonneg)

lemma jsAdd_grows: "isDouble x \<Longrightarrow> 0 \<le> y \<Longrightarrow> x \<le> jsAdd x y"
proof -
  assume d: "isDouble x" and y: "0 \<le> y"
  from y have "toDouble x \<le> toDouble (x + y)" by (intro toDouble_mono) simp
  with d show ?thesis by (simp add: isDouble_def jsAdd_def)
qed

subsection \<open>Finding and replacing a dispense\<close>

lemma findDispense_id: "findDispense i ds = Some d \<Longrightarrow> d_id d = i"
  by (auto simp: findDispense_def find_Some_iff)

lemma findDispense_append:
  "findDispense i ds = Some d \<Longrightarrow> findDispense i (ds @ [n]) = Some d"
  unfolding findDispense_def by (induction ds) (auto split: if_splits)

lemma findDispense_new:
  "\<not> list_ex (\<lambda>x. d_id x = d_id n) ds \<Longrightarrow> findDispense (d_id n) (ds @ [n]) = Some n"
  unfolding findDispense_def by (induction ds) (auto simp: list_ex_iff)

lemma findDispense_replace:
  "d_id d' = j \<Longrightarrow>
   findDispense i (map (\<lambda>x. if d_id x = j then d' else x) ds) =
     (case findDispense i ds of None \<Rightarrow> None | Some d \<Rightarrow> Some (if j = i then d' else d))"
  by (induction ds) (auto simp: findDispense_def)

lemma insertDispense_find:
  "insertDispense n ds = Some ds' \<Longrightarrow> findDispense i ds = Some d \<Longrightarrow> findDispense i ds' = Some d"
  by (auto simp: insertDispense_def findDispense_append split: if_splits)

subsection \<open>What each dispensary handler returns and writes\<close>

lemma billNumberOf_truthy: "truthy (Some (billNumberOf now suffix))"
  by (simp add: truthy_def billNumberOf_def)

lemma createDispense_result:
  assumes "createDispense setHours0 now rnd newId userId body st = (r, st')"
  shows "st' = st \<and> (\<exists>e. r = Inl e) \<or>
    (\<exists>d. r = Inr d \<and> d_id d = newId \<and> d_paidAmount d = 0 \<and> d_paymentStatus d = Pending
       \<and> d_billNumber d = Some (billNumberOf now (sliceLast 5 rnd))
       \<and> d_items d = cd_items body
       \<and> insertDispense d (dispenses st) = Some (dispenses st')
       \<and> medicines st' = snd (deductStock resolveOnCreate (cd_items body) (medicines st)))"
proof (cases "cd_items body = [] \<or> list_ex (\<lambda>it. it_name it = []) (cd_items body)")
  case True
  with assms show ?thesis by (auto simp: createDispense_def)
next
  case False
  note valid = this
  show ?thesis
  proof (cases "resolvePatient setHours0 body st")
    case (Inl e)
    with assms valid show ?thesis by (auto simp: createDispense_def Let_def)
  next
    case (Inr found)
    obtain patient appointmentRef appointmentDay dailyToken
      where found: "found = (patient, appointmentRef, appointmentDay, dailyToken)"
      by (cases found) auto
    define d where "d = \<lparr> d_id = newId, d_patient = patient,
        d_appointment = map_option a_id appointmentRef,
        d_appointmentDay = appointmentDay, d_dailyToken = dailyToken,
        d_items = cd_items body,
        d_subtotal = fst (computeTotals (cd_items body) (orElse (cd_tax body) 0) (orElse (cd_discount body) 0)),
        d_tax = orElse (cd_tax body) 0, d_discount = orElse (cd_discount body) 0,
        d_total = snd (computeTotals (cd_items body) (orElse (cd_tax body) 0) (orElse (cd_discount body) 0)),
        d_paymentStatus = Pending, d_paidAmount = 0,
        d_billNumber = Some (billNumberOf now (sliceLast 5 rnd)), d_dispensedBy = userId \<rparr>"
    have run: "createDispense setHours0 now rnd newId userId body st =
        (case insertDispense d (dispenses st) of
           None \<Rightarrow> (Inl ServerError, st)
         | Some ds \<Rightarrow> (Inr d, st\<lparr>dispenses := ds,
              medicines := snd (deductStock resolveOnCreate (cd_items body) (medicines st)),
              appointments := (case appointmentRef of None \<Rightarrow> appointments st
                 | Some a \<Rightarrow> markDispensed (a_id a) (appointments st))\<rparr>))"
      using valid Inr found
      by (simp add: createDispense_def Let_def d_def split_beta split: option.split)
    show ?thesis
    proof (cases "insertDispense d (dispenses st)")
      case None
      with run assms show ?thesis by simp
    next
      case (Some ds)
      with run assms have "r = Inr d" "dispenses st' = ds"
        "medicines st' = snd (deductStock resolveOnCreate (cd_items body) (medicines st))"
        by auto
      with Some show ?thesis by (simp add: d_def)
    qed
  qed
qed

lemma payDispense_result:
  assumes "payDispense now oidStr j amount st = (r, st')"
  shows "st' = st \<and> (\<exists>e. r = Inl e) \<or>
    (\<exists>dj d3. findDispense j (dispenses st) = Some dj \<and> d_paymentStatus dj \<noteq> Cancelled
       \<and> r = Inr d3 \<and> d_id d3 = j
       \<and> d_paidAmount d3 = jsAdd (d_paidAmount dj) amount \<and> 0 \<le> d_paidAmount d3
       \<and> d_paymentStatus d3 = dispenseStatus (d_paidAmount d3) (d_total dj)
       \<and> d_total d3 = d_total dj
       \<and> (d_billNumber d3 =
            (if \<not> truthy (d_billNumber dj) \<and> d_paymentStatus d3 \<noteq> Pending
             then Some (billNumberOf now (sliceLast 6 (oidStr j))) else d_billNumber dj))
       \<and> st' = st\<lparr>dispenses := map (\<lambda>x. if d_id x = j then d3 else x) (dispenses st)\<rparr>)"
proof (cases "findDispense j (dispenses st)")
  case None
  with assms show ?thesis by (auto simp: payDispense_def)
next
  case (Some dj)
  note dj = this
  have idj: "d_id dj = j" using dj by (rule findDispense_id)
  show ?thesis
  proof (cases "d_paymentStatus dj = Cancelled")
    case True
    with assms dj show ?thesis by (auto simp: payDispense_def)
  next
    case False
    define d2 where "d2 = dj\<lparr>d_paidAmount := jsAdd (d_paidAmount dj) amount,
      d_paymentStatus := dispenseStatus (jsAdd (d_paidAmount dj) amount) (d_total dj)\<rparr>"
    define assign where "assign = (\<not> truthy (d_billNumber d2) \<and> d_paymentStatus d2 \<noteq> Pending)"
    define d3 where "d3 = (if assign
      then d2\<lparr>d_billNumber := Some (billNumberOf now (sliceLast 6 (oidStr (d_id d2))))\<rparr> else d2)"
    define ok where "ok = (0 \<le> d_paidAmount d3 \<and> \<not> (assign \<and> billTaken d3 (dispenses st)))"
    have run: "payDispense now oidStr j amount st =
        (if ok then (Inr d3, st\<lparr>dispenses := map (\<lambda>x. if d_id x = d_id d3 then d3 else x) (dispenses st)\<rparr>)
         else (Inl ServerError, st))"
      using dj False
      by (simp add: payDispense_def Let_def saveDispense_def d2_def assign_def d3_def ok_def)
    have props: "d_id d3 = j" "d_paidAmount d3 = jsAdd (d_paidAmount dj) amount" "d_total d3 = d_total dj"
      "d_paymentStatus d3 = dispenseStatus (d_paidAmount d3) (d_total dj)"
      "d_billNumber d3 =
            (if \<not> truthy (d_billNumber dj) \<and> d_paymentStatus d3 \<noteq> Pending
             then Some (billNumberOf now (sliceLast 6 (oidStr j))) else d_billNumber dj)"
      using idj by (simp_all add: d3_def d2_def assign_def)
    show ?thesis
    proof (cases ok)
      case True
      then have "0 \<le> d_paidAmount d3" by (simp add: ok_def)
      with True run assms props dj False show ?thesis by auto
    next
      case False
      with run assms show ?thesis by auto
    qed
  qed
qed

lemma updateDispense_result:
  assumes "updateDispense j body st = (r, st')"
  shows "dispenses st' = dispenses st \<and> (\<exists>e. r = Inl e) \<or>
    (\<exists>dj d3. findDispense j (dispenses st) = Some dj \<and> d_paymentStatus dj \<noteq> Cancelled
       \<and> r = Inr d3 \<and> d_id d3 = j
       \<and> d_paidAmount d3 = d_paidAmount dj
       \<and> d_billNumber d3 = d_billNumber dj
       \<and> d_paymentStatus d3 = dispenseStatus (d_paidAmount d3) (d_total d3)
       \<and> 0 \<le> d_total d3
       \<and> dispenses st' = map (\<lambda>x. if d_id x = j then d3 else x) (dispenses st))"
proof (cases "findDispense j (dispenses st)")
  case None
  with assms show ?thesis by (auto simp: updateDispense_def split: if_splits)
next
  case (Some dj)
  note dj = this
  have idj: "d_id dj = j" using dj by (rule findDispense_id)
  show ?thesis
  proof (cases "d_paymentStatus dj = Cancelled \<or> ud_items body = Some []")
    case True
    with assms dj show ?thesis by (auto simp: updateDispense_def split: if_splits)
  next
    case False
    with assms dj idj show ?thesis
      by (auto simp add: updateDispense_def Let_def saveDispense_def computeTotals_def split: if_splits)
  qed
qed

lemma cancelDispense_result:
  assumes "cancelDispense j st = (r, st')"
  shows "st' = st \<and> (\<exists>e. r = Inl e) \<or>
    (\<exists>dj. findDispense j (dispenses st) = Some dj \<and> d_paymentStatus dj \<noteq> Cancelled
       \<and> r = Inr (dj\<lparr>d_paymentStatus := Cancelled\<rparr>)
       \<and> dispenses st' = map (\<lambda>x. if d_id x = j then dj\<lparr>d_paymentStatus := Cancelled\<rparr> else x) (dispenses st))"
proof (cases "findDispense j (dispenses st)")
  case None
  with assms show ?thesis by (auto simp: cancelDispense_def split: if_splits)
next
  case (Some dj)
  note dj = this
  have idj: "d_id dj = j" using dj by (rule findDispense_id)
  show ?thesis
  proof (cases "d_paymentStatus dj = Cancelled")
    case True
    with assms dj show ?thesis by (auto simp: cancelDispense_def)
  next
    case False
    with assms dj idj show ?thesis
      by (auto simp add: cancelDispense_def Let_def saveDispense_def split: if_splits prod.splits)
  qed
qed

subsection \<open>What one request does to another dispense\<close>

text \<open>
  Whatever the request, a stored dispense stays stored; its bill number, once not
  empty, stays; a cancelled one stays as it is; its paid amount stays non-negative,
  stays a double, is the same after any request but a payment, and, being a double,
  does not go down unless the request is a payment of a negative amount.
\<close>

lemma payDispenseRequest_cases:
  "payDispenseRequest now oidStr j amount st = (Inl ValidationFailed, st) \<and> \<not> isNumeric amount
   \<or> payDispenseRequest now oidStr j amount st = payDispense now oidStr j amount st
       \<and> isNumeric amount"
  by (simp add: payDispenseRequest_def)

text \<open>
  The validator of a payment refuses \<^verbatim>\<open>1e21\<close> and \<^verbatim>\<open>1e-7\<close>, which are printed
  with an exponent, and lets \<^verbatim>\<open>0.000001\<close> and a negative amount through. A dispense
  for a date and the token 0 is created for the patient named in the body.
\<close>

lemma pay_validator_example:
  "\<not> isNumeric (10 ^ 21)
   \<and> payDispenseRequest ex_clock ex_oidStr 100 (10 ^ 21) ex_db_partial
       = (Inl ValidationFailed, ex_db_partial)
   \<and> \<not> isNumeric (toDouble (1 / 10 ^ 7))
   \<and> isNumeric (toDouble (1 / 10 ^ 6)) \<and> isNumeric (- 2) \<and> isNumeric 0"
  by code_simp

lemma token_zero_example:
  "fst (createDispense utcMidnight ex_clock ''0.k3j5x9abc'' 100 9
          ((ex_body [ex_itemA 3])\<lparr>cd_date := Some 1704103200000, cd_token := Some 0\<rparr>) ex_db)
     = Inr ex_dispense"
  by code_simp

lemma dispensaryStep_frame:
  assumes "findDispense i (dispenses st) = Some d"
  shows "\<exists>d'. findDispense i (dispenses (dispensaryStep setHours0 oidStr st op)) = Some d'
           \<and> (truthy (d_billNumber d) \<longrightarrow> d_billNumber d' = d_billNumber d)
           \<and> (d_paymentStatus d = Cancelled \<longrightarrow> d' = d)
           \<and> (0 \<le> d_paidAmount d \<longrightarrow> 0 \<le> d_paidAmount d')
           \<and> (isDouble (d_paidAmount d) \<longrightarrow> isDouble (d_paidAmount d'))
           \<and> ((\<forall>now j amount. op \<noteq> PayDispense now j amount)
                \<longrightarrow> d_paidAmount d' = d_paidAmount d)
           \<and> (isDouble (d_paidAmount d)
                \<and> (\<forall>now j amount. op = PayDispense now j amount \<longrightarrow> 0 \<le> amount)
                \<longrightarrow> d_paidAmount d \<le> d_paidAmount d')"
proof (cases op)
  case (CreateDispense now rnd newId userId body)
  obtain r st' where eq: "createDispense setHours0 now rnd newId userId body st = (r, st')"
    by (cases "createDispense setHours0 now rnd newId userId body st")
  from createDispense_result[OF eq] assms have "findDispense i (dispenses st') = Some d"
    by (auto simp: insertDispense_find)
  with CreateDispense eq show ?thesis by simp
next
  case (UpdateDispense j body)
  obtain r st' where eq: "updateDispense j body st = (r, st')"
    by (cases "updateDispense j body st")
  from updateDispense_result[OF eq] show ?thesis
  proof (elim disjE exE conjE)
    assume "dispenses st' = dispenses st"
    with UpdateDispense eq assms show ?thesis by simp
  next
    fix dj d3
    assume h: "findDispense j (dispenses st) = Some dj" "d_paymentStatus dj \<noteq> Cancelled"
      "d_id d3 = j" "d_paidAmount d3 = d_paidAmount dj" "d_billNumber d3 = d_billNumber dj"
      "dispenses st' = map (\<lambda>x. if d_id x = j then d3 else x) (dispenses st)"
    have f: "findDispense i (dispenses st') = Some (if j = i then d3 else d)"
      using h(6) findDispense_replace[OF h(3), of i "dispenses st"] assms by simp
    show ?thesis
    proof (cases "j = i")
      case True
      with h assms have "dj = d" by simp
      with True f h UpdateDispense eq show ?thesis by simp
    next
      case False
      with f UpdateDispense eq show ?thesis by simp
    qed
  qed
next
  case (CancelDispense j)
  obtain r st' where eq: "cancelDispense j st = (r, st')"
    by (cases "cancelDispense j st")
  from cancelDispense_result[OF eq] show ?thesis
  proof (elim disjE exE conjE)
    assume "st' = st"
    with CancelDispense eq assms show ?thesis by simp
  next
    fix dj
    assume h: "findDispense j (dispenses st) = Some dj" "d_paymentStatus dj \<noteq> Cancelled"
      "dispenses st' = map (\<lambda>x. if d_id x = j then dj\<lparr>d_paymentStatus := Cancelled\<rparr> else x) (dispenses st)"
    have idj: "d_id (dj\<lparr>d_paymentStatus := Cancelled\<rparr>) = j"
      using findDispense_id[OF h(1)] by simp
    have f: "findDispense i (dispenses st') = Some (if j = i then dj\<lparr>d_paymentStatus := Cancelled\<rparr> else d)"
      using h(3) findDispense_replace[OF idj, of i "dispenses st"] assms by simp
    show ?thesis
    proof (cases "j = i")
      case True
      with h assms have "dj = d" by simp
      with True f h CancelDispense eq show ?thesis by simp
    next
      case False
      with f CancelDispense eq show ?thesis by simp
    qed
  qed
next
  case (PayDispense now j amount)
  show ?thesis
  proof (cases "isNumeric amount")
    case False
    then have "payDispenseRequest now oidStr j amount st = (Inl ValidationFailed, st)"
      by (simp add: payDispenseRequest_def)
    with PayDispense assms show ?thesis by simp
  next
    case True
    then have req: "payDispenseRequest now oidStr j amount st = payDispense now oidStr j amount st"
      by (simp add: payDispenseRequest_def)
  obtain r st' where eq: "payDispense now oidStr j amount st = (r, st')"
    by (cases "payDispense now oidStr j amount st")
  from payDispense_result[OF eq] show ?thesis
  proof (elim disjE exE conjE)
    assume "st' = st"
    with PayDispense eq req assms show ?thesis by simp
  next
    fix dj d3
    assume h: "findDispense j (dispenses st) = Some dj" "d_paymentStatus dj \<noteq> Cancelled"
      "d_id d3 = j" "d_paidAmount d3 = jsAdd (d_paidAmount dj) amount" "0 \<le> d_paidAmount d3"
      "d_billNumber d3 =
         (if \<not> truthy (d_billNumber dj) \<and> d_paymentStatus d3 \<noteq> Pending
          then Some (billNumberOf now (sliceLast 6 (oidStr j))) else d_billNumber dj)"
      "st' = st\<lparr>dispenses := map (\<lambda>x. if d_id x = j then d3 else x) (dispenses st)\<rparr>"
    have f: "findDispense i (dispenses st') = Some (if j = i then d3 else d)"
      using h(7) findDispense_replace[OF h(3), of i "dispenses st"] assms by simp
    show ?thesis
    proof (cases "j = i")
      case True
      with h assms have dj: "dj = d" by simp
      have up: "isDouble (d_paidAmount d) \<and> 0 \<le> amount \<longrightarrow> d_paidAmount d \<le> d_paidAmount d3"
        using h(4) dj by (simp add: jsAdd_grows)
      have dbl: "isDouble (d_paidAmount d3)" using h(4) by (simp add: isDouble_jsAdd)
      from True f h dj up dbl PayDispense eq req show ?thesis by (auto split: if_splits)
    next
      case False
      with f PayDispense eq req show ?thesis by simp
    qed
  qed
  qed
qed

subsection \<open>Sequences of dispensary requests keep a dispense\<close>

lemma run_frame:
  assumes "findDispense i (dispenses st) = Some d"
  shows "\<exists>d'. findDispense i (dispenses (foldl (dispensaryStep setHours0 oidStr) st ops)) = Some d'
           \<and> (truthy (d_billNumber d) \<longrightarrow> d_billNumber d' = d_billNumber d)
           \<and> (d_paymentStatus d = Cancelled \<longrightarrow> d' = d)"
  using assms
proof (induction ops arbitrary: st d)
  case Nil
  then show ?case by simp
next
  case (Cons op ops)
  from dispensaryStep_frame[OF Cons.prems, of setHours0 oidStr op]
  obtain d1 where d1: "findDispense i (dispenses (dispensaryStep setHours0 oidStr st op)) = Some d1"
    "truthy (d_billNumber d) \<longrightarrow> d_billNumber d1 = d_billNumber d"
    "d_paymentStatus d = Cancelled \<longrightarrow> d1 = d" by blast
  from Cons.IH[OF d1(1)] obtain d' where
    "findDispense i (dispenses (foldl (dispensaryStep setHours0 oidStr) (dispensaryStep setHours0 oidStr st op) ops)) = Some d'"
    "truthy (d_billNumber d1) \<longrightarrow> d_billNumber d' = d_billNumber d1"
    "d_paymentStatus d1 = Cancelled \<longrightarrow> d' = d1" by blast
  with d1 show ?case by auto
qed

lemma paid_run:
  assumes "findDispense i (dispenses st) = Some d" and "0 \<le> d_paidAmount d"
    and "isDouble (d_paidAmount d)" and "list_all paysNoNegativeAmount ops"
  shows "\<exists>d'. findDispense i (dispenses (foldl (dispensaryStep setHours0 oidStr) st ops)) = Some d'
           \<and> 0 \<le> d_paidAmount d' \<and> isDouble (d_paidAmount d')
           \<and> d_paidAmount d \<le> d_paidAmount d'"
  using assms
proof (induction ops arbitrary: st d)
  case Nil
  then show ?case by simp
next
  case (Cons op ops)
  from Cons.prems(4) have p: "\<forall>now j amount. op = PayDispense now j amount \<longrightarrow> 0 \<le> amount"
    by (auto simp: paysNoNegativeAmount_def)
  from Cons.prems(4) have rest: "list_all paysNoNegativeAmount ops" by simp
  from dispensaryStep_frame[OF Cons.prems(1), of setHours0 oidStr op] Cons.prems(2,3) p
  obtain d1 where d1: "findDispense i (dispenses (dispensaryStep setHours0 oidStr st op)) = Some d1"
    "0 \<le> d_paidAmount d1" "isDouble (d_paidAmount d1)" "d_paidAmount d \<le> d_paidAmount d1"
    by blast
  from Cons.IH[OF d1(1,2,3) rest] obtain d' where
    "findDispense i (dispenses (foldl (dispensaryStep setHours0 oidStr) (dispensaryStep setHours0 oidStr st op) ops)) = Some d'"
    "0 \<le> d_paidAmount d'" "isDouble (d_paidAmount d')" "d_paidAmount d1 \<le> d_paidAmount d'"
    by blast
  with d1(4) show ?case by auto
qed

subsection \<open>Cancelled is terminal\<close>

text \<open>
  C8. Once a dispense is cancelled, every update (of a body the validators let through),
  every payment and every cancellation of it is answered with the invalid-state failure
  and leaves the whole database, the medicine stocks included, as it was; and after any
  sequence of dispensary requests the stored record is still the same cancelled record.
  So it is for the handler of the payment and, when the amount passes the validator,
  for the route; a payment that the validator refuses leaves the database as it was
  just the same.
\<close>

theorem cancelled_dispense_is_terminal:
  assumes "findDispense i (dispenses st) = Some d" and "d_paymentStatus d = Cancelled"
    and "ud_items body \<noteq> Some []"
  shows "updateDispense i body st = (Inl InvalidState, st)
       \<and> payDispense now oidStr i amount st = (Inl InvalidState, st)
       \<and> cancelDispense i st = (Inl InvalidState, st)
       \<and> findDispense i (dispenses (foldl (dispensaryStep setHours0 oidStr) st ops)) = Some d
       \<and> (isNumeric amount \<longrightarrow>
            payDispenseRequest now oidStr i amount st = (Inl InvalidState, st))
       \<and> snd (payDispenseRequest now oidStr i amount st) = st"
proof -
  from run_frame[OF assms(1), of setHours0 oidStr ops] assms(2)
  have "findDispense i (dispenses (foldl (dispensaryStep setHours0 oidStr) st ops)) = Some d"
    by auto
  with assms show ?thesis
    by (simp add: updateDispense_def payDispense_def cancelDispense_def payDispenseRequest_def)
qed

theorem cancelled_dispense_is_terminal_witness:
  "findDispense 100 (dispenses ex_db_cancelled) = Some (ex_dispense\<lparr>d_paymentStatus := Cancelled\<rparr>)
   \<and> d_paymentStatus (ex_dispense\<lparr>d_paymentStatus := Cancelled\<rparr>) = Cancelled
   \<and> ud_items ex_update \<noteq> Some []
   \<and> updateDispense 100 ex_update ex_db_cancelled = (Inl InvalidState, ex_db_cancelled)
   \<and> payDispense ex_clock ex_oidStr 100 6 ex_db_cancelled = (Inl InvalidState, ex_db_cancelled)
   \<and> cancelDispense 100 ex_db_cancelled = (Inl InvalidState, ex_db_cancelled)
   \<and> findDispense 100 (dispenses (foldl (dispensaryStep utcMidnight ex_oidStr) ex_db_cancelled
        [PayDispense ex_clock 100 6, UpdateDispense 100 ex_update, CancelDispense 100,
         CreateDispense ex_clock ''0.k3j5x9abc'' 100 9 (ex_body [ex_itemA 1])]))
       = Some (ex_dispense\<lparr>d_paymentStatus := Cancelled\<rparr>)
   \<and> isNumeric 6
   \<and> payDispenseRequest ex_clock ex_oidStr 100 6 ex_db_cancelled
       = (Inl InvalidState, ex_db_cancelled)
   \<and> snd (payDispenseRequest ex_clock ex_oidStr 100 6 ex_db_cancelled) = ex_db_cancelled"
proof -
  have h4: "isNumeric 6" by code_simp
  have h1: "findDispense 100 (dispenses ex_db_cancelled) = Some (ex_dispense\<lparr>d_paymentStatus := Cancelled\<rparr>)"
    by (simp add: findDispense_def ex_db_cancelled_def ex_db_def ex_dispense_def)
  have h2: "d_paymentStatus (ex_dispense\<lparr>d_paymentStatus := Cancelled\<rparr>) = Cancelled" by simp
  have h3: "ud_items ex_update \<noteq> Some []" by (simp add: ex_update_def)
  from cancelled_dispense_is_terminal[OF h1 h2 h3] h1 h2 h3 h4 show ?thesis by blast
qed

subsection \<open>Bill numbers\<close>

lemma ex_create:
  "createDispense utcMidnight ex_clock ''0.k3j5x9abc'' 100 9 (ex_body [ex_itemA 3]) ex_db
     = (Inr ex_dispense, ex_db\<lparr>dispenses := [ex_dispense], medicines := [ex_medA\<lparr>med_stock := 7\<rparr>, ex_medB]\<rparr>)"
  by code_simp

text \<open>
  C1, as stated, fails: the dispense that \<^verbatim>\<open>POST /dispenses\<close> answers with has a paid
  amount of zero and already carries a bill number.
\<close>

theorem bill_number_absent_at_creation_counterexample:
  "fst (createDispense utcMidnight ex_clock ''0.k3j5x9abc'' 100 9 (ex_body [ex_itemA 3]) ex_db)
     = Inr ex_dispense
   \<and> d_paidAmount ex_dispense = 0
   \<and> d_billNumber ex_dispense = Some ''20240307-000123-x9abc''"
  by (simp add: ex_create) (simp add: ex_dispense_def)

text \<open>
  C1, amended. A created dispense has a paid amount of zero and carries the non-empty
  bill number built by the create handler, and is stored so. A payment sets a bill
  number only on a record that has none (or an empty one) and only when it leaves the
  status other than pending; otherwise the bill number is the one the record had. A
  non-empty bill number survives every sequence of dispensary requests.
\<close>

theorem bill_number_assigned_at_creation:
  "(createDispense setHours0 now rnd newId userId body st = (Inr d, st') \<longrightarrow>
      d_paidAmount d = 0 \<and> d_billNumber d = Some (billNumberOf now (sliceLast 5 rnd))
      \<and> truthy (d_billNumber d) \<and> findDispense newId (dispenses st') = Some d)
   \<and> (findDispense j (dispenses s) = Some dj \<and> payDispense now' oidStr j amount s = (Inr dj', s') \<longrightarrow>
      d_billNumber dj' =
        (if \<not> truthy (d_billNumber dj) \<and> d_paymentStatus dj' \<noteq> Pending
         then Some (billNumberOf now' (sliceLast 6 (oidStr j))) else d_billNumber dj))
   \<and> (findDispense i (dispenses t) = Some dk \<and> truthy (d_billNumber dk) \<longrightarrow>
      (\<exists>dn. findDispense i (dispenses (foldl (dispensaryStep setHours0 oidStr) t ops)) = Some dn
            \<and> d_billNumber dn = d_billNumber dk))"
proof (intro conjI impI)
  assume eq: "createDispense setHours0 now rnd newId userId body st = (Inr d, st')"
  from createDispense_result[OF eq]
  have h: "d_id d = newId" "d_paidAmount d = 0" "d_billNumber d = Some (billNumberOf now (sliceLast 5 rnd))"
    "insertDispense d (dispenses st) = Some (dispenses st')" by auto
  from h(4) have "dispenses st' = dispenses st @ [d]" "\<not> list_ex (\<lambda>x. d_id x = d_id d) (dispenses st)"
    by (auto simp: insertDispense_def split: if_splits)
  with h(1) have f: "findDispense newId (dispenses st') = Some d"
    using findDispense_new[of d "dispenses st"] by simp
  show "d_paidAmount d = 0" by (rule h(2))
  show "d_billNumber d = Some (billNumberOf now (sliceLast 5 rnd))" by (rule h(3))
  show "truthy (d_billNumber d)" by (simp add: h(3) billNumberOf_truthy)
  show "findDispense newId (dispenses st') = Some d" by (rule f)
next
  assume a: "findDispense j (dispenses s) = Some dj \<and> payDispense now' oidStr j amount s = (Inr dj', s')"
  then have eq: "payDispense now' oidStr j amount s = (Inr dj', s')" by simp
  from payDispense_result[OF eq] a
  show "d_billNumber dj' =
        (if \<not> truthy (d_billNumber dj) \<and> d_paymentStatus dj' \<noteq> Pending
         then Some (billNumberOf now' (sliceLast 6 (oidStr j))) else d_billNumber dj)"
    by auto
next
  assume a: "findDispense i (dispenses t) = Some dk \<and> truthy (d_billNumber dk)"
  with run_frame[of i t dk setHours0 oidStr ops]
  show "\<exists>dn. findDispense i (dispenses (foldl (dispensaryStep setHours0 oidStr) t ops)) = Some dn
            \<and> d_billNumber dn = d_billNumber dk" by auto
qed

lemma ex_pay_legacy:
  "payDispense ex_clock ex_oidStr 100 6 ex_db_legacy
     = (Inr (ex_dispense\<lparr>d_paymentStatus := Paid, d_paidAmount := 6,
                          d_billNumber := Some ''20240307-000123-b8c9d0''\<rparr>),
        ex_db\<lparr>dispenses := [ex_dispense\<lparr>d_paymentStatus := Paid, d_paidAmount := 6,
                          d_billNumber := Some ''20240307-000123-b8c9d0''\<rparr>]\<rparr>)"
  by code_simp

theorem bill_number_assigned_at_creation_witness:
  "(createDispense utcMidnight ex_clock ''0.k3j5x9abc'' 100 9 (ex_body [ex_itemA 3]) ex_db
        = (Inr ex_dispense, ex_db\<lparr>dispenses := [ex_dispense], medicines := [ex_medA\<lparr>med_stock := 7\<rparr>, ex_medB]\<rparr>))
   \<and> (d_paidAmount ex_dispense = 0
      \<and> d_billNumber ex_dispense = Some (billNumberOf ex_clock (sliceLast 5 ''0.k3j5x9abc''))
      \<and> truthy (d_billNumber ex_dispense)
      \<and> findDispense 100 (dispenses (ex_db\<lparr>dispenses := [ex_dispense], medicines := [ex_medA\<lparr>med_stock := 7\<rparr>, ex_medB]\<rparr>)) = Some ex_dispense)
   \<and> (findDispense 100 (dispenses ex_db_legacy) = Some (ex_dispense\<lparr>d_billNumber := None\<rparr>)
      \<and> payDispense ex_clock ex_oidStr 100 6 ex_db_legacy
        = (Inr (ex_dispense\<lparr>d_paymentStatus := Paid, d_paidAmount := 6,
                          d_billNumber := Some ''20240307-000123-b8c9d0''\<rparr>),
           ex_db\<lparr>dispenses := [ex_dispense\<lparr>d_paymentStatus := Paid, d_paidAmount := 6,
                          d_billNumber := Some ''20240307-000123-b8c9d0''\<rparr>]\<rparr>))
   \<and> (d_billNumber (ex_dispense\<lparr>d_paymentStatus := Paid, d_paidAmount := 6,
                          d_billNumber := Some ''20240307-000123-b8c9d0''\<rparr>) =
        (if \<not> truthy (d_billNumber (ex_dispense\<lparr>d_billNumber := None\<rparr>))
            \<and> d_paymentStatus (ex_dispense\<lparr>d_paymentStatus := Paid, d_paidAmount := 6,
                          d_billNumber := Some ''20240307-000123-b8c9d0''\<rparr>) \<noteq> Pending
         then Some (billNumberOf ex_clock (sliceLast 6 (ex_oidStr 100)))
         else d_billNumber (ex_dispense\<lparr>d_billNumber := None\<rparr>)))
   \<and> (findDispense 100 (dispenses ex_db_open) = Some ex_dispense \<and> truthy (d_billNumber ex_dispense))
   \<and> (\<exists>dn. findDispense 100 (dispenses (foldl (dispensaryStep utcMidnight ex_oidStr) ex_db_open
               [PayDispense ex_clock 100 2, UpdateDispense 100 ex_update, PayDispense ex_clock 100 6,
                CancelDispense 100])) = Some dn
            \<and> d_billNumber dn = d_billNumber ex_dispense)"
proof -
  have a1: "createDispense utcMidnight ex_clock ''0.k3j5x9abc'' 100 9 (ex_body [ex_itemA 3]) ex_db
        = (Inr ex_dispense, ex_db\<lparr>dispenses := [ex_dispense], medicines := [ex_medA\<lparr>med_stock := 7\<rparr>, ex_medB]\<rparr>)"
    by (rule ex_create)
  have a2: "findDispense 100 (dispenses ex_db_legacy) = Some (ex_dispense\<lparr>d_billNumber := None\<rparr>)
      \<and> payDispense ex_clock ex_oidStr 100 6 ex_db_legacy
        = (Inr (ex_dispense\<lparr>d_paymentStatus := Paid, d_paidAmount := 6,
                          d_billNumber := Some ''20240307-000123-b8c9d0''\<rparr>),
           ex_db\<lparr>dispenses := [ex_dispense\<lparr>d_paymentStatus := Paid, d_paidAmount := 6,
                          d_billNumber := Some ''20240307-000123-b8c9d0''\<rparr>]\<rparr>)"
    by (simp add: ex_pay_legacy) (simp add: findDispense_def ex_db_legacy_def ex_db_def ex_dispense_def)
  have a3: "findDispense 100 (dispenses ex_db_open) = Some ex_dispense \<and> truthy (d_billNumber ex_dispense)"
    by (simp add: findDispense_def ex_db_open_def ex_db_def ex_dispense_def truthy_def)
  have inst: "(createDispense utcMidnight ex_clock ''0.k3j5x9abc'' 100 9 (ex_body [ex_itemA 3]) ex_db
        = (Inr ex_dispense, ex_db\<lparr>dispenses := [ex_dispense], medicines := [ex_medA\<lparr>med_stock := 7\<rparr>, ex_medB]\<rparr>) \<longrightarrow>
      d_paidAmount ex_dispense = 0
      \<and> d_billNumber ex_dispense = Some (billNumberOf ex_clock (sliceLast 5 ''0.k3j5x9abc''))
      \<and> truthy (d_billNumber ex_dispense)
      \<and> findDispense 100 (dispenses (ex_db\<lparr>dispenses := [ex_dispense], medicines := [ex_medA\<lparr>med_stock := 7\<rparr>, ex_medB]\<rparr>)) = Some ex_dispense)
   \<and> (findDispense 100 (dispenses ex_db_legacy) = Some (ex_dispense\<lparr>d_billNumber := None\<rparr>)
      \<and> payDispense ex_clock ex_oidStr 100 6 ex_db_legacy
        = (Inr (ex_dispense\<lparr>d_paymentStatus := Paid, d_paidAmount := 6,
                          d_billNumber := Some ''20240307-000123-b8c9d0''\<rparr>),
           ex_db\<lparr>dispenses := [ex_dispense\<lparr>d_paymentStatus := Paid, d_paidAmount := 6,
                          d_billNumber := Some ''20240307-000123-b8c9d0''\<rparr>]\<rparr>) \<longrightarrow>
      d_billNumber (ex_dispense\<lparr>d_paymentStatus := Paid, d_paidAmount := 6,
                          d_billNumber := Some ''20240307-000123-b8c9d0''\<rparr>) =
        (if \<not> truthy (d_billNumber (ex_dispense\<lparr>d_billNumber := None\<rparr>))
            \<and> d_paymentStatus (ex_dispense\<lparr>d_paymentStatus := Paid, d_paidAmount := 6,
                          d_billNumber := Some ''20240307-000123-b8c9d0''\<rparr>) \<noteq> Pending
         then Some (billNumberOf ex_clock (sliceLast 6 (ex_oidStr 100)))
         else d_billNumber (ex_dispense\<lparr>d_billNumber := None\<rparr>)))
   \<and> (findDispense 100 (dispenses ex_db_open) = Some ex_dispense \<and> truthy (d_billNumber ex_dispense) \<longrightarrow>
      (\<exists>dn. findDispense 100 (dispenses (foldl (dispensaryStep utcMidnight ex_oidStr) ex_db_open
               [PayDispense ex_clock 100 2, UpdateDispense 100 ex_update, PayDispense ex_clock 100 6,
                CancelDispense 100])) = Some dn
            \<and> d_billNumber dn = d_billNumber ex_dispense))"
    by (rule bill_number_assigned_at_creation)
  from inst a1 a2 a3 show ?thesis by blast
qed

subsection \<open>The paid amount\<close>

text \<open>
  C9, as stated, fails: a payment of \<open>-2\<close> on a dispense that is not cancelled and has
  4 paid passes the validator, is accepted, and leaves 2 paid.
\<close>

theorem pay_amount_positive_counterexample:
  "findDispense 100 (dispenses ex_db_partial)
     = Some (ex_dispense\<lparr>d_paymentStatus := Partial, d_paidAmount := 4\<rparr>)
   \<and> isNumeric (- 2)
   \<and> fst (payDispenseRequest ex_clock ex_oidStr 100 (- 2) ex_db_partial)
     = Inr (ex_dispense\<lparr>d_paymentStatus := Partial, d_paidAmount := 2\<rparr>)"
  by code_simp

text \<open>
  C9, amended. A created dispense has a paid amount of zero. For a stored dispense whose
  paid amount is not negative, after any one dispensary request it is still stored, with
  a paid amount that is not negative; that amount is a double if it was one; it is the
  amount it was unless the request is a payment; and, having been a double, it is not
  smaller than it was unless the request is a payment of a negative amount. A payment
  that the route accepts has passed the validator, which asks for a numeric amount of
  either sign, and answers with the sum of the stored amount and the amount sent, as
  JavaScript rounds it, which is not negative. An update and a cancellation that are
  accepted answer with the paid amount that was stored. So across any sequence of
  requests none of which is a payment of a negative amount, a paid amount that is a
  double and not negative stays so and never goes down.
\<close>

theorem paid_amount_moves_only_by_pay:
  "(createDispense setHours0 now rnd newId userId body st = (Inr dc, st') \<longrightarrow> d_paidAmount dc = 0)
   \<and> (findDispense i (dispenses s) = Some d \<and> 0 \<le> d_paidAmount d \<longrightarrow>
        (\<exists>dn. findDispense i (dispenses (dispensaryStep setHours0 oidStr s op)) = Some dn
           \<and> 0 \<le> d_paidAmount dn
           \<and> (isDouble (d_paidAmount d) \<longrightarrow> isDouble (d_paidAmount dn))
           \<and> ((\<forall>now j amount. op \<noteq> PayDispense now j amount)
                \<longrightarrow> d_paidAmount dn = d_paidAmount d)
           \<and> (isDouble (d_paidAmount d)
                \<and> (\<forall>now j amount. op = PayDispense now j amount \<longrightarrow> 0 \<le> amount)
                \<longrightarrow> d_paidAmount d \<le> d_paidAmount dn)))
   \<and> (findDispense k (dispenses t) = Some dk
        \<and> payDispenseRequest now' oidStr k amount t = (Inr dp, t') \<longrightarrow>
        isNumeric amount \<and> d_paidAmount dp = jsAdd (d_paidAmount dk) amount
        \<and> 0 \<le> d_paidAmount dp)
   \<and> (findDispense u (dispenses v) = Some du
        \<and> updateDispense u ubody v = (Inr du', v') \<longrightarrow>
        d_paidAmount du' = d_paidAmount du)
   \<and> (findDispense c (dispenses w) = Some dw
        \<and> cancelDispense c w = (Inr dw', w') \<longrightarrow>
        d_paidAmount dw' = d_paidAmount dw)
   \<and> (findDispense x (dispenses y) = Some dy \<and> 0 \<le> d_paidAmount dy
        \<and> isDouble (d_paidAmount dy) \<and> list_all paysNoNegativeAmount ops \<longrightarrow>
        (\<exists>dn. findDispense x (dispenses (foldl (dispensaryStep setHours0 oidStr) y ops)) = Some dn
           \<and> 0 \<le> d_paidAmount dn \<and> isDouble (d_paidAmount dn)
           \<and> d_paidAmount dy \<le> d_paidAmount dn))"
proof (intro conjI impI)
  assume eq: "createDispense setHours0 now rnd newId userId body st = (Inr dc, st')"
  from createDispense_result[OF eq] show "d_paidAmount dc = 0" by auto
next
  assume a: "findDispense i (dispenses s) = Some d \<and> 0 \<le> d_paidAmount d"
  with dispensaryStep_frame[of i s d setHours0 oidStr op]
  show "\<exists>dn. findDispense i (dispenses (dispensaryStep setHours0 oidStr s op)) = Some dn
           \<and> 0 \<le> d_paidAmount dn
           \<and> (isDouble (d_paidAmount d) \<longrightarrow> isDouble (d_paidAmount dn))
           \<and> ((\<forall>now j amount. op \<noteq> PayDispense now j amount)
                \<longrightarrow> d_paidAmount dn = d_paidAmount d)
           \<and> (isDouble (d_paidAmount d)
                \<and> (\<forall>now j amount. op = PayDispense now j amount \<longrightarrow> 0 \<le> amount)
                \<longrightarrow> d_paidAmount d \<le> d_paidAmount dn)"
    by blast
next
  assume a: "findDispense k (dispenses t) = Some dk
        \<and> payDispenseRequest now' oidStr k amount t = (Inr dp, t')"
  with payDispenseRequest_cases[of now' oidStr k amount t]
  have num: "isNumeric amount" and eq: "payDispense now' oidStr k amount t = (Inr dp, t')"
    by auto
  from payDispense_result[OF eq] a
  have both: "d_paidAmount dp = jsAdd (d_paidAmount dk) amount \<and> 0 \<le> d_paidAmount dp" by auto
  from num show "isNumeric amount" .
  from both show "d_paidAmount dp = jsAdd (d_paidAmount dk) amount" by simp
  from both show "0 \<le> d_paidAmount dp" by simp
next
  assume a: "findDispense u (dispenses v) = Some du
        \<and> updateDispense u ubody v = (Inr du', v')"
  then have eq: "updateDispense u ubody v = (Inr du', v')" by simp
  from updateDispense_result[OF eq] a show "d_paidAmount du' = d_paidAmount du" by auto
next
  assume a: "findDispense c (dispenses w) = Some dw
        \<and> cancelDispense c w = (Inr dw', w')"
  then have eq: "cancelDispense c w = (Inr dw', w')" by simp
  from cancelDispense_result[OF eq] a show "d_paidAmount dw' = d_paidAmount dw" by auto
next
  assume a: "findDispense x (dispenses y) = Some dy \<and> 0 \<le> d_paidAmount dy
        \<and> isDouble (d_paidAmount dy) \<and> list_all paysNoNegativeAmount ops"
  then have h: "findDispense x (dispenses y) = Some dy" "0 \<le> d_paidAmount dy"
    "isDouble (d_paidAmount dy)" "list_all paysNoNegativeAmount ops" by simp_all
  from paid_run[OF h]
  show "\<exists>dn. findDispense x (dispenses (foldl (dispensaryStep setHours0 oidStr) y ops)) = Some dn
           \<and> 0 \<le> d_paidAmount dn \<and> isDouble (d_paidAmount dn)
           \<and> d_paidAmount dy \<le> d_paidAmount dn" .
qed

lemma ex_pay_partial:
  "payDispenseRequest ex_clock ex_oidStr 100 2 ex_db_partial
     = (Inr (ex_dispense\<lparr>d_paymentStatus := Paid, d_paidAmount := 6\<rparr>), ex_db\<lparr>dispenses := [ex_dispense\<lparr>d_paymentStatus := Paid, d_paidAmount := 6\<rparr>]\<rparr>)"
  by code_simp

lemma ex_update_partial:
  "updateDispense 100 ex_update ex_db_partial
     = (Inr (ex_dispense\<lparr>d_paymentStatus := Partial, d_paidAmount := 4, d_items := [ex_itemA 1, ex_itemB 2], d_subtotal := 8, d_total := 8\<rparr>),
        snd (updateDispense 100 ex_update ex_db_partial))"
  by code_simp

lemma ex_cancel_partial:
  "cancelDispense 100 ex_db_partial
     = (Inr (ex_dispense\<lparr>d_paymentStatus := Cancelled, d_paidAmount := 4\<rparr>),
        snd (cancelDispense 100 ex_db_partial))"
  by code_simp

theorem paid_amount_moves_only_by_pay_witness:
  "createDispense utcMidnight ex_clock ''0.k3j5x9abc'' 100 9 (ex_body [ex_itemA 3]) ex_db
        = (Inr ex_dispense, ex_db\<lparr>dispenses := [ex_dispense], medicines := [ex_medA\<lparr>med_stock := 7\<rparr>, ex_medB]\<rparr>)
   \<and> d_paidAmount ex_dispense = 0
   \<and> findDispense 100 (dispenses ex_db_partial) = Some (ex_dispense\<lparr>d_paymentStatus := Partial, d_paidAmount := 4\<rparr>)
   \<and> 0 \<le> d_paidAmount (ex_dispense\<lparr>d_paymentStatus := Partial, d_paidAmount := 4\<rparr>)
   \<and> isDouble (d_paidAmount (ex_dispense\<lparr>d_paymentStatus := Partial, d_paidAmount := 4\<rparr>))
   \<and> (\<exists>dn. findDispense 100 (dispenses (dispensaryStep utcMidnight ex_oidStr ex_db_partial (PayDispense ex_clock 100 2))) = Some dn
           \<and> 0 \<le> d_paidAmount dn \<and> isDouble (d_paidAmount dn)
           \<and> d_paidAmount (ex_dispense\<lparr>d_paymentStatus := Partial, d_paidAmount := 4\<rparr>) \<le> d_paidAmount dn)
   \<and> (\<exists>dn. findDispense 100 (dispenses (dispensaryStep utcMidnight ex_oidStr ex_db_partial (UpdateDispense 100 ex_update))) = Some dn
           \<and> 0 \<le> d_paidAmount dn \<and> isDouble (d_paidAmount dn)
           \<and> d_paidAmount dn = d_paidAmount (ex_dispense\<lparr>d_paymentStatus := Partial, d_paidAmount := 4\<rparr>))
   \<and> payDispenseRequest ex_clock ex_oidStr 100 2 ex_db_partial
     = (Inr (ex_dispense\<lparr>d_paymentStatus := Paid, d_paidAmount := 6\<rparr>), ex_db\<lparr>dispenses := [ex_dispense\<lparr>d_paymentStatus := Paid, d_paidAmount := 6\<rparr>]\<rparr>)
   \<and> isNumeric 2
   \<and> d_paidAmount (ex_dispense\<lparr>d_paymentStatus := Paid, d_paidAmount := 6\<rparr>)
       = jsAdd (d_paidAmount (ex_dispense\<lparr>d_paymentStatus := Partial, d_paidAmount := 4\<rparr>)) 2
   \<and> jsAdd 4 2 = 6
   \<and> updateDispense 100 ex_update ex_db_partial
     = (Inr (ex_dispense\<lparr>d_paymentStatus := Partial, d_paidAmount := 4, d_items := [ex_itemA 1, ex_itemB 2], d_subtotal := 8, d_total := 8\<rparr>),
        snd (updateDispense 100 ex_update ex_db_partial))
   \<and> d_paidAmount (ex_dispense\<lparr>d_paymentStatus := Partial, d_paidAmount := 4, d_items := [ex_itemA 1, ex_itemB 2], d_subtotal := 8, d_total := 8\<rparr>) = d_paidAmount (ex_dispense\<lparr>d_paymentStatus := Partial, d_paidAmount := 4\<rparr>)
   \<and> cancelDispense 100 ex_db_partial
     = (Inr (ex_dispense\<lparr>d_paymentStatus := Cancelled, d_paidAmount := 4\<rparr>),
        snd (cancelDispense 100 ex_db_partial))
   \<and> d_paidAmount (ex_dispense\<lparr>d_paymentStatus := Cancelled, d_paidAmount := 4\<rparr>) = d_paidAmount (ex_dispense\<lparr>d_paymentStatus := Partial, d_paidAmount := 4\<rparr>)
   \<and> list_all paysNoNegativeAmount [PayDispense ex_clock 100 2, UpdateDispense 100 ex_update, PayDispense ex_clock 100 0, CancelDispense 100]
   \<and> (\<exists>dn. findDispense 100 (dispenses (foldl (dispensaryStep utcMidnight ex_oidStr) ex_db_partial [PayDispense ex_clock 100 2, UpdateDispense 100 ex_update, PayDispense ex_clock 100 0, CancelDispense 100])) = Some dn
           \<and> 0 \<le> d_paidAmount dn \<and> isDouble (d_paidAmount dn)
           \<and> d_paidAmount (ex_dispense\<lparr>d_paymentStatus := Partial, d_paidAmount := 4\<rparr>) \<le> d_paidAmount dn)"
proof -
  have a1: "createDispense utcMidnight ex_clock ''0.k3j5x9abc'' 100 9 (ex_body [ex_itemA 3]) ex_db
        = (Inr ex_dispense, ex_db\<lparr>dispenses := [ex_dispense], medicines := [ex_medA\<lparr>med_stock := 7\<rparr>, ex_medB]\<rparr>)"
    by (rule ex_create)
  have a2: "findDispense 100 (dispenses ex_db_partial) = Some (ex_dispense\<lparr>d_paymentStatus := Partial, d_paidAmount := 4\<rparr>)"
    by (simp add: findDispense_def ex_db_partial_def ex_db_def ex_dispense_def)
  have a3: "0 \<le> d_paidAmount (ex_dispense\<lparr>d_paymentStatus := Partial, d_paidAmount := 4\<rparr>)" by simp
  have a3d: "isDouble (d_paidAmount (ex_dispense\<lparr>d_paymentStatus := Partial, d_paidAmount := 4\<rparr>))" by code_simp
  have a4: "\<forall>now j amount. PayDispense ex_clock 100 2 = PayDispense now j amount \<longrightarrow> 0 \<le> amount" by simp
  have a4u: "\<forall>now j amount. UpdateDispense 100 ex_update \<noteq> PayDispense now j amount" by simp
  have a5: "payDispenseRequest ex_clock ex_oidStr 100 2 ex_db_partial
     = (Inr (ex_dispense\<lparr>d_paymentStatus := Paid, d_paidAmount := 6\<rparr>), ex_db\<lparr>dispenses := [ex_dispense\<lparr>d_paymentStatus := Paid, d_paidAmount := 6\<rparr>]\<rparr>)"
    by (rule ex_pay_partial)
  have a6: "updateDispense 100 ex_update ex_db_partial
     = (Inr (ex_dispense\<lparr>d_paymentStatus := Partial, d_paidAmount := 4, d_items := [ex_itemA 1, ex_itemB 2], d_subtotal := 8, d_total := 8\<rparr>),
        snd (updateDispense 100 ex_update ex_db_partial))"
    by (rule ex_update_partial)
  have a7: "cancelDispense 100 ex_db_partial
     = (Inr (ex_dispense\<lparr>d_paymentStatus := Cancelled, d_paidAmount := 4\<rparr>),
        snd (cancelDispense 100 ex_db_partial))"
    by (rule ex_cancel_partial)
  have a8: "jsAdd 4 2 = 6" by code_simp
  have a9: "list_all paysNoNegativeAmount [PayDispense ex_clock 100 2, UpdateDispense 100 ex_update, PayDispense ex_clock 100 0, CancelDispense 100]"
    by (simp add: paysNoNegativeAmount_def)
  have i1: "createDispense utcMidnight ex_clock ''0.k3j5x9abc'' 100 9 (ex_body [ex_itemA 3]) ex_db
        = (Inr ex_dispense, ex_db\<lparr>dispenses := [ex_dispense], medicines := [ex_medA\<lparr>med_stock := 7\<rparr>, ex_medB]\<rparr>)
       \<longrightarrow> d_paidAmount ex_dispense = 0"
    by (rule paid_amount_moves_only_by_pay[THEN conjunct1])
  have i2: "findDispense 100 (dispenses ex_db_partial) = Some (ex_dispense\<lparr>d_paymentStatus := Partial, d_paidAmount := 4\<rparr>) \<and> 0 \<le> d_paidAmount (ex_dispense\<lparr>d_paymentStatus := Partial, d_paidAmount := 4\<rparr>) \<longrightarrow>
        (\<exists>dn. findDispense 100 (dispenses (dispensaryStep utcMidnight ex_oidStr ex_db_partial (PayDispense ex_clock 100 2))) = Some dn
           \<and> 0 \<le> d_paidAmount dn
           \<and> (isDouble (d_paidAmount (ex_dispense\<lparr>d_paymentStatus := Partial, d_paidAmount := 4\<rparr>)) \<longrightarrow> isDouble (d_paidAmount dn))
           \<and> ((\<forall>now j amount. PayDispense ex_clock 100 2 \<noteq> PayDispense now j amount)
                \<longrightarrow> d_paidAmount dn = d_paidAmount (ex_dispense\<lparr>d_paymentStatus := Partial, d_paidAmount := 4\<rparr>))
           \<and> (isDouble (d_paidAmount (ex_dispense\<lparr>d_paymentStatus := Partial, d_paidAmount := 4\<rparr>))
                \<and> (\<forall>now j amount. PayDispense ex_clock 100 2 = PayDispense now j amount \<longrightarrow> 0 \<le> amount)
                \<longrightarrow> d_paidAmount (ex_dispense\<lparr>d_paymentStatus := Partial, d_paidAmount := 4\<rparr>) \<le> d_paidAmount dn))"
    by (rule paid_amount_moves_only_by_pay[THEN conjunct2, THEN conjunct1])
  have i2u: "findDispense 100 (dispenses ex_db_partial) = Some (ex_dispense\<lparr>d_paymentStatus := Partial, d_paidAmount := 4\<rparr>) \<and> 0 \<le> d_paidAmount (ex_dispense\<lparr>d_paymentStatus := Partial, d_paidAmount := 4\<rparr>) \<longrightarrow>
        (\<exists>dn. findDispense 100 (dispenses (dispensaryStep utcMidnight ex_oidStr ex_db_partial (UpdateDispense 100 ex_update))) = Some dn
           \<and> 0 \<le> d_paidAmount dn
           \<and> (isDouble (d_paidAmount (ex_dispense\<lparr>d_paymentStatus := Partial, d_paidAmount := 4\<rparr>)) \<longrightarrow> isDouble (d_paidAmount dn))
           \<and> ((\<forall>now j amount. UpdateDispense 100 ex_update \<noteq> PayDispense now j amount)
                \<longrightarrow> d_paidAmount dn = d_paidAmount (ex_dispense\<lparr>d_paymentStatus := Partial, d_paidAmount := 4\<rparr>))
           \<and> (isDouble (d_paidAmount (ex_dispense\<lparr>d_paymentStatus := Partial, d_paidAmount := 4\<rparr>))
                \<and> (\<forall>now j amount. UpdateDispense 100 ex_update = PayDispense now j amount \<longrightarrow> 0 \<le> amount)
                \<longrightarrow> d_paidAmount (ex_dispense\<lparr>d_paymentStatus := Partial, d_paidAmount := 4\<rparr>) \<le> d_paidAmount dn))"
    by (rule paid_amount_moves_only_by_pay[THEN conjunct2, THEN conjunct1])
  have i3: "findDispense 100 (dispenses ex_db_partial) = Some (ex_dispense\<lparr>d_paymentStatus := Partial, d_paidAmount := 4\<rparr>)
        \<and> payDispenseRequest ex_clock ex_oidStr 100 2 ex_db_partial
             = (Inr (ex_dispense\<lparr>d_paymentStatus := Paid, d_paidAmount := 6\<rparr>), ex_db\<lparr>dispenses := [ex_dispense\<lparr>d_paymentStatus := Paid, d_paidAmount := 6\<rparr>]\<rparr>) \<longrightarrow>
        isNumeric 2
        \<and> d_paidAmount (ex_dispense\<lparr>d_paymentStatus := Paid, d_paidAmount := 6\<rparr>)
          = jsAdd (d_paidAmount (ex_dispense\<lparr>d_paymentStatus := Partial, d_paidAmount := 4\<rparr>)) 2
        \<and> 0 \<le> d_paidAmount (ex_dispense\<lparr>d_paymentStatus := Paid, d_paidAmount := 6\<rparr>)"
    by (rule paid_amount_moves_only_by_pay[THEN conjunct2, THEN conjunct2, THEN conjunct1])
  have i4: "findDispense 100 (dispenses ex_db_partial) = Some (ex_dispense\<lparr>d_paymentStatus := Partial, d_paidAmount := 4\<rparr>)
        \<and> updateDispense 100 ex_update ex_db_partial
             = (Inr (ex_dispense\<lparr>d_paymentStatus := Partial, d_paidAmount := 4, d_items := [ex_itemA 1, ex_itemB 2], d_subtotal := 8, d_total := 8\<rparr>),
                snd (updateDispense 100 ex_update ex_db_partial)) \<longrightarrow>
        d_paidAmount (ex_dispense\<lparr>d_paymentStatus := Partial, d_paidAmount := 4, d_items := [ex_itemA 1, ex_itemB 2], d_subtotal := 8, d_total := 8\<rparr>) = d_paidAmount (ex_dispense\<lparr>d_paymentStatus := Partial, d_paidAmount := 4\<rparr>)"
    by (rule paid_amount_moves_only_by_pay[THEN conjunct2, THEN conjunct2, THEN conjunct2, THEN conjunct1])
  have i5: "findDispense 100 (dispenses ex_db_partial) = Some (ex_dispense\<lparr>d_paymentStatus := Partial, d_paidAmount := 4\<rparr>)
        \<and> cancelDispense 100 ex_db_partial
             = (Inr (ex_dispense\<lparr>d_paymentStatus := Cancelled, d_paidAmount := 4\<rparr>),
                snd (cancelDispense 100 ex_db_partial)) \<longrightarrow>
        d_paidAmount (ex_dispense\<lparr>d_paymentStatus := Cancelled, d_paidAmount := 4\<rparr>) = d_paidAmount (ex_dispense\<lparr>d_paymentStatus := Partial, d_paidAmount := 4\<rparr>)"
    by (rule paid_amount_moves_only_by_pay[THEN conjunct2, THEN conjunct2, THEN conjunct2, THEN conjunct2, THEN conjunct1])
  have i6: "findDispense 100 (dispenses ex_db_partial) = Some (ex_dispense\<lparr>d_paymentStatus := Partial, d_paidAmount := 4\<rparr>) \<and> 0 \<le> d_paidAmount (ex_dispense\<lparr>d_paymentStatus := Partial, d_paidAmount := 4\<rparr>)
        \<and> isDouble (d_paidAmount (ex_dispense\<lparr>d_paymentStatus := Partial, d_paidAmount := 4\<rparr>)) \<and> list_all paysNoNegativeAmount [PayDispense ex_clock 100 2, UpdateDispense 100 ex_update, PayDispense ex_clock 100 0, CancelDispense 100] \<longrightarrow>
        (\<exists>dn. findDispense 100 (dispenses (foldl (dispensaryStep utcMidnight ex_oidStr) ex_db_partial [PayDispense ex_clock 100 2, UpdateDispense 100 ex_update, PayDispense ex_clock 100 0, CancelDispense 100])) = Some dn
           \<and> 0 \<le> d_paidAmount dn \<and> isDouble (d_paidAmount dn)
           \<and> d_paidAmount (ex_dispense\<lparr>d_paymentStatus := Partial, d_paidAmount := 4\<rparr>) \<le> d_paidAmount dn)"
    by (rule paid_amount_moves_only_by_pay[THEN conjunct2, THEN conjunct2, THEN conjunct2, THEN conjunct2, THEN conjunct2])
  from i1 a1 have c1: "d_paidAmount ex_dispense = 0" by blast
  from i2 a2 a3 a3d a4 have c2: "\<exists>dn. findDispense 100 (dispenses (dispensaryStep utcMidnight ex_oidStr ex_db_partial (PayDispense ex_clock 100 2))) = Some dn
           \<and> 0 \<le> d_paidAmount dn \<and> isDouble (d_paidAmount dn)
           \<and> d_paidAmount (ex_dispense\<lparr>d_paymentStatus := Partial, d_paidAmount := 4\<rparr>) \<le> d_paidAmount dn"
    by blast
  from i2u a2 a3 a3d a4u have c2u: "\<exists>dn. findDispense 100 (dispenses (dispensaryStep utcMidnight ex_oidStr ex_db_partial (UpdateDispense 100 ex_update))) = Some dn
           \<and> 0 \<le> d_paidAmount dn \<and> isDouble (d_paidAmount dn)
           \<and> d_paidAmount dn = d_paidAmount (ex_dispense\<lparr>d_paymentStatus := Partial, d_paidAmount := 4\<rparr>)"
    by blast
  from i3 a2 a5 have c3: "isNumeric 2" "d_paidAmount (ex_dispense\<lparr>d_paymentStatus := Paid, d_paidAmount := 6\<rparr>)
          = jsAdd (d_paidAmount (ex_dispense\<lparr>d_paymentStatus := Partial, d_paidAmount := 4\<rparr>)) 2"
    by blast+
  from i4 a2 a6 have c4: "d_paidAmount (ex_dispense\<lparr>d_paymentStatus := Partial, d_paidAmount := 4, d_items := [ex_itemA 1, ex_itemB 2], d_subtotal := 8, d_total := 8\<rparr>) = d_paidAmount (ex_dispense\<lparr>d_paymentStatus := Partial, d_paidAmount := 4\<rparr>)" by blast
  from i5 a2 a7 have c5: "d_paidAmount (ex_dispense\<lparr>d_paymentStatus := Cancelled, d_paidAmount := 4\<rparr>) = d_paidAmount (ex_dispense\<lparr>d_paymentStatus := Partial, d_paidAmount := 4\<rparr>)" by blast
  from i6 a2 a3 a3d a9 have c6: "(\<exists>dn. findDispense 100 (dispenses (foldl (dispensaryStep utcMidnight ex_oidStr) ex_db_partial [PayDispense ex_clock 100 2, UpdateDispense 100 ex_update, PayDispense ex_clock 100 0, CancelDispense 100])) = Some dn
           \<and> 0 \<le> d_paidAmount dn \<and> isDouble (d_paidAmount dn)
           \<and> d_paidAmount (ex_dispense\<lparr>d_paymentStatus := Partial, d_paidAmount := 4\<rparr>) \<le> d_paidAmount dn)" by blast
  from a1 c1 a2 a3 a3d c2 c2u a5 c3 a8 a6 c4 a7 c5 a9 c6 show ?thesis by blast
qed

subsection \<open>The stock ledger on update\<close>

lemma resolveMedicine_mem: "resolveMedicine meds it = Some m \<Longrightarrow> m \<in> set meds"
  by (auto simp: resolveMedicine_def findExact_def findByName_def find_Some_iff split: option.splits)

lemma find_first: "find P xs = (case filter P xs of [] \<Rightarrow> None | x # ys \<Rightarrow> Some x)"
  by (induction xs) auto

text \<open>
  Over a catalogue whose medicines all store a strength and a form, the two queries of
  the update route find the medicine that the specification's match finds.
\<close>

lemma resolveMedicine_spec:
  assumes "list_all storesKey meds"
  shows "resolveMedicine meds it = resolve_spec meds it"
proof -
  have k: "filter (\<lambda>m. med_name m = it_name it
              \<and> med_strength m = Some (orEmpty (it_strength it))
              \<and> med_form m = Some (orEmpty (it_form it))) meds
         = filter (\<lambda>m. medicineKey_spec m = itemKey_spec it) meds"
    using assms
    by (intro filter_cong refl)
       (auto simp: list_all_iff storesKey_def medicineKey_spec_def itemKey_spec_def orEmpty_def
             split: option.splits)
  show ?thesis
    by (simp add: resolveMedicine_def resolve_spec_def findExact_def findByName_def find_first k
             split: list.splits)
qed

lemma storesKey_replace:
  "list_all storesKey meds \<Longrightarrow> storesKey m \<Longrightarrow>
   list_all storesKey (map (\<lambda>x. if med_id x = med_id m then m\<lparr>med_stock := v\<rparr> else x) meds)"
  by (auto simp: list_all_iff storesKey_def)

lemma applyItem_spec_restore:
  assumes "list_all storesKey meds"
  shows "applyItem_spec 1 meds it =
     (case resolveMedicine meds it of
        None \<Rightarrow> meds
      | Some m \<Rightarrow> map (\<lambda>x. if med_id x = med_id m
          then m\<lparr>med_stock := jsAdd (med_stock m) (it_quantity it)\<rparr> else x) meds)"
  by (simp add: applyItem_spec_def resolveMedicine_spec[OF assms] split: option.split)

lemma applyItem_spec_consume:
  assumes "list_all storesKey meds"
  shows "applyItem_spec (- 1) meds it =
     (case resolveMedicine meds it of
        None \<Rightarrow> meds
      | Some m \<Rightarrow> map (\<lambda>x. if med_id x = med_id m
          then m\<lparr>med_stock := max 0 (jsSub (med_stock m) (it_quantity it))\<rparr> else x) meds)"
  by (simp add: applyItem_spec_def resolveMedicine_spec[OF assms] jsAdd_def jsSub_def
           split: option.split)

lemma restoreStock_spec:
  "list_all storesKey meds \<Longrightarrow> list_all (\<lambda>m. 0 \<le> med_stock m) meds \<Longrightarrow>
   list_all (\<lambda>it. 0 \<le> it_quantity it) its \<Longrightarrow>
   restoreStock its meds = (True, applyDelta_spec its 1 meds)
   \<and> list_all storesKey (applyDelta_spec its 1 meds)"
proof (induction its arbitrary: meds)
  case Nil
  then show ?case by (simp add: applyDelta_spec_def)
next
  case (Cons it its)
  note keys = Cons.prems(1)
  show ?case
  proof (cases "resolveMedicine meds it")
    case None
    then have ap: "applyItem_spec 1 meds it = meds"
      by (simp add: applyItem_spec_restore[OF keys])
    from Cons.IH[OF keys Cons.prems(2)] Cons.prems(3)
    have "restoreStock its meds = (True, applyDelta_spec its 1 meds)
          \<and> list_all storesKey (applyDelta_spec its 1 meds)" by simp
    with None ap show ?thesis by (simp add: applyDelta_spec_def)
  next
    case (Some m)
    from resolveMedicine_mem[OF Some] have mem: "m \<in> set meds" .
    from mem Cons.prems(2) have m0: "0 \<le> med_stock m" by (simp add: list_all_iff)
    from mem keys have mk: "storesKey m" by (simp add: list_all_iff)
    from Cons.prems(3) have q0: "0 \<le> it_quantity it" by simp
    have s0: "0 \<le> jsAdd (med_stock m) (it_quantity it)" using m0 q0 by (rule jsAdd_nonneg)
    define meds' where "meds' = map (\<lambda>x. if med_id x = med_id m
        then m\<lparr>med_stock := jsAdd (med_stock m) (it_quantity it)\<rparr> else x) meds"
    have sv: "saveMedicine (m\<lparr>med_stock := jsAdd (med_stock m) (it_quantity it)\<rparr>) meds = Some meds'"
      using s0 by (simp add: saveMedicine_def meds'_def)
    have nn: "list_all (\<lambda>m. 0 \<le> med_stock m) meds'"
      using Cons.prems(2) s0 by (auto simp: meds'_def list_all_iff)
    have keys': "list_all storesKey meds'"
      unfolding meds'_def using keys mk by (rule storesKey_replace)
    have ap: "applyItem_spec 1 meds it = meds'"
      using Some by (simp add: applyItem_spec_restore[OF keys] meds'_def)
    from Cons.IH[OF keys' nn] Cons.prems(3)
    have "restoreStock its meds' = (True, applyDelta_spec its 1 meds')
          \<and> list_all storesKey (applyDelta_spec its 1 meds')" by simp
    with Some sv ap show ?thesis by (simp add: applyDelta_spec_def)
  qed
qed

lemma deductStock_spec:
  "list_all storesKey meds \<Longrightarrow>
   deductStock resolveMedicine its meds = (True, applyDelta_spec its (- 1) meds)"
proof (induction its arbitrary: meds)
  case Nil
  then show ?case by (simp add: applyDelta_spec_def)
next
  case (Cons it its)
  note keys = Cons.prems(1)
  show ?case
  proof (cases "resolveMedicine meds it")
    case None
    then have ap: "applyItem_spec (- 1) meds it = meds"
      by (simp add: applyItem_spec_consume[OF keys])
    from Cons.IH[OF keys] None ap show ?thesis by (simp add: applyDelta_spec_def)
  next
    case (Some m)
    from resolveMedicine_mem[OF Some] keys have mk: "storesKey m" by (simp add: list_all_iff)
    define meds' where "meds' = map (\<lambda>x. if med_id x = med_id m
        then m\<lparr>med_stock := max 0 (jsSub (med_stock m) (it_quantity it))\<rparr> else x) meds"
    have sv: "saveMedicine (m\<lparr>med_stock := max 0 (jsSub (med_stock m) (it_quantity it))\<rparr>) meds
                = Some meds'"
      by (simp add: saveMedicine_def meds'_def)
    have keys': "list_all storesKey meds'"
      unfolding meds'_def using keys mk by (rule storesKey_replace)
    have ap: "applyItem_spec (- 1) meds it = meds'"
      using Some by (simp add: applyItem_spec_consume[OF keys] meds'_def)
    from Cons.IH[OF keys'] Some sv ap show ?thesis by (simp add: applyDelta_spec_def)
  qed
qed

text \<open>
  C6, as stated, fails. The catalogue holds Para 250mg tablet and, made without a form,
  Para 500mg; a stored dispense of three units of Para 500mg, no form named, is updated
  to one unit. The exact match of the specification is the second medicine, whose
  stock would go from 10 to 12; the route asks for the form \<^verbatim>\<open>''\<close>, which a
  medicine stored without a form does not have, falls back to the name, and moves the
  stock of the first one instead.
\<close>

theorem update_resolves_exact_key_counterexample:
  "findDispense 100 (dispenses ex_db_bare) = Some (ex_dispense\<lparr>d_items := [ex_item500_bare 3]\<rparr>)
   \<and> orElse (ud_items ex_update_bare) [ex_item500_bare 3] = [ex_item500_bare 1]
   \<and> medicineKey_spec ex_para500_bare = itemKey_spec (ex_item500_bare 3)
   \<and> map med_stock (medicines ex_db_bare) = [10, 10]
   \<and> map med_stock (applyDelta_spec [ex_item500_bare 1] (- 1)
          (applyDelta_spec [ex_item500_bare 3] 1 (medicines ex_db_bare))) = [10, 12]
   \<and> map med_stock (medicines (snd (updateDispense 100 ex_update_bare ex_db_bare))) = [12, 10]"
  by code_simp

text \<open>
  C6, amended. Over a catalogue whose medicines all store a strength and a form
  (either may be empty), an update of a stored dispense that is not cancelled, with
  stocks and old quantities that are not negative (the schema's \<^verbatim>\<open>min\<close>
  constraints), leaves the medicines that the specification's ledger leaves when it
  first restores every old item and then consumes every new item.
\<close>

theorem update_restores_old_then_consumes_new:
  assumes "findDispense i (dispenses st) = Some d" and "d_paymentStatus d \<noteq> Cancelled"
    and "ud_items body \<noteq> Some []"
    and "list_all storesKey (medicines st)"
    and "list_all (\<lambda>m. 0 \<le> med_stock m) (medicines st)"
    and "list_all (\<lambda>it. 0 \<le> it_quantity it) (d_items d)"
  shows "medicines (snd (updateDispense i body st)) =
           applyDelta_spec (orElse (ud_items body) (d_items d)) (- 1)
             (applyDelta_spec (d_items d) 1 (medicines st))"
proof -
  note r = restoreStock_spec[OF assms(4,5,6)]
  have adj: "adjustStock (d_items d) (orElse (ud_items body) (d_items d)) (medicines st) =
      applyDelta_spec (orElse (ud_items body) (d_items d)) (- 1)
             (applyDelta_spec (d_items d) 1 (medicines st))"
    using r by (simp add: adjustStock_def deductStock_spec)
  show ?thesis using assms(1-3)
    by (simp add: updateDispense_def Let_def split_beta adj saveDispense_def)
qed

text \<open>
  The example of the specification, with Para 500mg tablet for A and Para 250mg tablet
  for B, the catalogue listing B first: a name-only match would move the stock of B
  alone.
\<close>

theorem update_restores_old_then_consumes_new_witness:
  "findDispense 100 (dispenses ex_db_paras) = Some (ex_dispense\<lparr>d_items := [ex_item500 3]\<rparr>)
   \<and> d_paymentStatus (ex_dispense\<lparr>d_items := [ex_item500 3]\<rparr>) \<noteq> Cancelled
   \<and> ud_items ex_update_paras \<noteq> Some []
   \<and> list_all storesKey (medicines ex_db_paras)
   \<and> list_all (\<lambda>m. 0 \<le> med_stock m) (medicines ex_db_paras)
   \<and> list_all (\<lambda>it. 0 \<le> it_quantity it) (d_items (ex_dispense\<lparr>d_items := [ex_item500 3]\<rparr>))
   \<and> d_items (ex_dispense\<lparr>d_items := [ex_item500 3]\<rparr>) = [ex_item500 3]
   \<and> orElse (ud_items ex_update_paras) (d_items (ex_dispense\<lparr>d_items := [ex_item500 3]\<rparr>))
        = [ex_item500 1, ex_item250 2]
   \<and> map med_name (medicines ex_db_paras) = [''Para'', ''Para'']
   \<and> map med_stock (medicines ex_db_paras) = [10, 10]
   \<and> medicines (snd (updateDispense 100 ex_update_paras ex_db_paras)) =
        applyDelta_spec (orElse (ud_items ex_update_paras) (d_items (ex_dispense\<lparr>d_items := [ex_item500 3]\<rparr>))) (- 1)
             (applyDelta_spec (d_items (ex_dispense\<lparr>d_items := [ex_item500 3]\<rparr>)) 1 (medicines ex_db_paras))
   \<and> map med_stock (medicines (snd (updateDispense 100 ex_update_paras ex_db_paras))) = [8, 12]"
proof -
  have h1: "findDispense 100 (dispenses ex_db_paras) = Some (ex_dispense\<lparr>d_items := [ex_item500 3]\<rparr>)"
    by (simp add: findDispense_def ex_db_paras_def ex_db_def ex_dispense_def)
  have h2: "d_paymentStatus (ex_dispense\<lparr>d_items := [ex_item500 3]\<rparr>) \<noteq> Cancelled"
    by (simp add: ex_dispense_def)
  have h3: "ud_items ex_update_paras \<noteq> Some []" by (simp add: ex_update_paras_def)
  have h4: "list_all storesKey (medicines ex_db_paras)"
    by (simp add: ex_db_paras_def ex_db_def ex_para250_def ex_para500_def storesKey_def)
  have h5: "list_all (\<lambda>m. 0 \<le> med_stock m) (medicines ex_db_paras)"
    by (simp add: ex_db_paras_def ex_db_def ex_para250_def ex_para500_def)
  have h6: "list_all (\<lambda>it. 0 \<le> it_quantity it) (d_items (ex_dispense\<lparr>d_items := [ex_item500 3]\<rparr>))"
    by (simp add: ex_item500_def)
  have e1: "d_items (ex_dispense\<lparr>d_items := [ex_item500 3]\<rparr>) = [ex_item500 3]" by simp
  have e2: "orElse (ud_items ex_update_paras) (d_items (ex_dispense\<lparr>d_items := [ex_item500 3]\<rparr>))
        = [ex_item500 1, ex_item250 2]"
    by (simp add: ex_update_paras_def orElse_def)
  have e3: "map med_name (medicines ex_db_paras) = [''Para'', ''Para'']"
    by (simp add: ex_db_paras_def ex_db_def ex_para250_def ex_para500_def)
  have e4: "map med_stock (medicines ex_db_paras) = [10, 10]"
    by (simp add: ex_db_paras_def ex_db_def ex_para250_def ex_para500_def)
  have e5: "map med_stock (medicines (snd (updateDispense 100 ex_update_paras ex_db_paras))) = [8, 12]"
    by code_simp
  note u = update_restores_old_then_consumes_new[OF h1 h2 h3 h4 h5 h6]
  from u h1 h2 h3 h4 h5 h6 e1 e2 e3 e4 e5 show ?thesis by blast
qed

text \<open>
  The example of the specification as it words it: A with a strength and a form, B
  with neither; three units of A become one unit of A and two of B, and the stocks 10
  and 10 become 12 and 8.
\<close>

lemma stock_update_example:
  "d_items ex_dispense = [ex_itemA 3]
   \<and> ud_items ex_update = Some [ex_itemA 1, ex_itemB 2]
   \<and> map med_stock (medicines ex_db_open) = [10, 10]
   \<and> map med_stock (medicines (snd (updateDispense 100 ex_update ex_db_open))) = [12, 8]"
  by code_simp

subsection \<open>Create and cancel resolve medicines differently\<close>

text \<open>
  C7 on the code. With two catalogue entries named Para, an item that names neither
  strength nor form is taken from the first entry by the create route (name-only
  lookup) and given back to the second by the cancel route (exact lookup with empty
  strength and form): stocks 10 and 10 become 5 and 10, then 5 and 15.
\<close>

theorem cancel_restores_another_medicine:
  "map med_stock (medicines ex_db_para) = [10, 10]
   \<and> map med_stock (medicines (snd (createDispense utcMidnight ex_clock ''0.k3j5x9abc'' 100 9
          (ex_body [ex_itemPara]) ex_db_para))) = [5, 10]
   \<and> map med_stock (medicines (snd (cancelDispense 100
          (snd (createDispense utcMidnight ex_clock ''0.k3j5x9abc'' 100 9
             (ex_body [ex_itemPara]) ex_db_para))))) = [5, 15]"
  by code_simp

text \<open>
  The example of the specification runs as it says: five units against a stock of 10
  leave 5, the cancellation gives 10 back, and a second cancellation is refused and
  changes nothing.
\<close>

lemma stock_round_trip_example:
  "map med_stock (medicines (snd (createDispense utcMidnight ex_clock ''0.k3j5x9abc'' 100 9
          (ex_body [ex_itemA 5]) ex_db))) = [5, 10]
   \<and> map med_stock (medicines (snd (cancelDispense 100
          (snd (createDispense utcMidnight ex_clock ''0.k3j5x9abc'' 100 9
             (ex_body [ex_itemA 5]) ex_db))))) = [10, 10]
   \<and> cancelDispense 100 (snd (cancelDispense 100
          (snd (createDispense utcMidnight ex_clock ''0.k3j5x9abc'' 100 9
             (ex_body [ex_itemA 5]) ex_db))))
      = (Inl InvalidState, snd (cancelDispense 100
          (snd (createDispense utcMidnight ex_clock ''0.k3j5x9abc'' 100 9
             (ex_body [ex_itemA 5]) ex_db))))"
  by code_simp

subsection \<open>The token loops, unrolled\<close>

text \<open>
  The equations of the two loops unfold without end; they are used by hand, one pass at
  a time.
\<close>

declare createLoop.simps [simp del]

declare updateLoop.simps [simp del]

lemma createLoop_unroll:
  "createLoop others newId data 0 as =
     (case createAttempt others newId data 0 as of
        (Saved a, s) \<Rightarrow> (Inr a, s)
      | (Thrown, s) \<Rightarrow> (Inl ServerError, s)
      | (Duplicate, s1) \<Rightarrow>
          (case createAttempt others newId data 1 s1 of
             (Saved a, s) \<Rightarrow> (Inr a, s)
           | (Thrown, s) \<Rightarrow> (Inl ServerError, s)
           | (Duplicate, s2) \<Rightarrow>
               (case createAttempt others newId data 2 s2 of
                  (Saved a, s) \<Rightarrow> (Inr a, s)
                | (Thrown, s) \<Rightarrow> (Inl ServerError, s)
                | (Duplicate, s3) \<Rightarrow> (Inl TokenAllocationFailed, s3))))"
proof -
  have stop: "createLoop others newId data 3 s = (Inl TokenAllocationFailed, s)" for s
    by (subst createLoop.simps) simp
  have pass: "k < 3 \<Longrightarrow> createLoop others newId data k s =
      (case createAttempt others newId data k s of
         (Saved a, s') \<Rightarrow> (Inr a, s')
       | (Duplicate, s') \<Rightarrow> createLoop others newId data (k + 1) s'
       | (Thrown, s') \<Rightarrow> (Inl ServerError, s'))" for k s
    by (subst createLoop.simps) simp
  have n1: "(0::nat) + 1 = 1" and n2: "(1::nat) + 1 = 2" and n3: "(2::nat) + 1 = 3"
    by simp_all
  have p0: "createLoop others newId data 0 s =
      (case createAttempt others newId data 0 s of
         (Saved a, s') \<Rightarrow> (Inr a, s')
       | (Duplicate, s') \<Rightarrow> createLoop others newId data 1 s'
       | (Thrown, s') \<Rightarrow> (Inl ServerError, s'))" for s
    using pass[of 0 s] unfolding n1 by simp
  have p1: "createLoop others newId data 1 s =
      (case createAttempt others newId data 1 s of
         (Saved a, s') \<Rightarrow> (Inr a, s')
       | (Duplicate, s') \<Rightarrow> createLoop others newId data 2 s'
       | (Thrown, s') \<Rightarrow> (Inl ServerError, s'))" for s
    using pass[of 1 s] unfolding n2 by simp
  have p2: "createLoop others newId data 2 s =
      (case createAttempt others newId data 2 s of
         (Saved a, s') \<Rightarrow> (Inr a, s')
       | (Duplicate, s') \<Rightarrow> (Inl TokenAllocationFailed, s')
       | (Thrown, s') \<Rightarrow> (Inl ServerError, s'))" for s
    using pass[of 2 s] unfolding n3 stop by simp
  show ?thesis
    unfolding p0 p1 p2 by (rule refl)
qed

lemma updateLoop_unroll:
  "updateLoop others i day b 0 as =
     (case updateAttempt others i day b 0 as of
        (Saved a, s) \<Rightarrow> (Inr a, s)
      | (Thrown, s) \<Rightarrow> (Inl ServerError, s)
      | (Duplicate, s1) \<Rightarrow>
          (case updateAttempt others i day b 1 s1 of
             (Saved a, s) \<Rightarrow> (Inr a, s)
           | (Thrown, s) \<Rightarrow> (Inl ServerError, s)
           | (Duplicate, s2) \<Rightarrow>
               (case updateAttempt others i day b 2 s2 of
                  (Saved a, s) \<Rightarrow> (Inr a, s)
                | (Thrown, s) \<Rightarrow> (Inl ServerError, s)
                | (Duplicate, s3) \<Rightarrow> (Inl TokenAllocationFailed, s3))))"
proof -
  have stop: "updateLoop others i day b 3 s = (Inl TokenAllocationFailed, s)" for s
    by (subst updateLoop.simps) simp
  have pass: "k < 3 \<Longrightarrow> updateLoop others i day b k s =
      (case updateAttempt others i day b k s of
         (Saved a, s') \<Rightarrow> (Inr a, s')
       | (Duplicate, s') \<Rightarrow> updateLoop others i day b (k + 1) s'
       | (Thrown, s') \<Rightarrow> (Inl ServerError, s'))" for k s
    by (subst updateLoop.simps) simp
  have n1: "(0::nat) + 1 = 1" and n2: "(1::nat) + 1 = 2" and n3: "(2::nat) + 1 = 3"
    by simp_all
  have p0: "updateLoop others i day b 0 s =
      (case updateAttempt others i day b 0 s of
         (Saved a, s') \<Rightarrow> (Inr a, s')
       | (Duplicate, s') \<Rightarrow> updateLoop others i day b 1 s'
       | (Thrown, s') \<Rightarrow> (Inl ServerError, s'))" for s
    using pass[of 0 s] unfolding n1 by simp
  have p1: "updateLoop others i day b 1 s =
      (case updateAttempt others i day b 1 s of
         (Saved a, s') \<Rightarrow> (Inr a, s')
       | (Duplicate, s') \<Rightarrow> updateLoop others i day b 2 s'
       | (Thrown, s') \<Rightarrow> (Inl ServerError, s'))" for s
    using pass[of 1 s] unfolding n2 by simp
  have p2: "updateLoop others i day b 2 s =
      (case updateAttempt others i day b 2 s of
         (Saved a, s') \<Rightarrow> (Inr a, s')
       | (Duplicate, s') \<Rightarrow> (Inl TokenAllocationFailed, s')
       | (Thrown, s') \<Rightarrow> (Inl ServerError, s'))" for s
    using pass[of 2 s] unfolding n3 stop by simp
  show ?thesis
    unfolding p0 p1 p2 by (rule refl)
qed



lemma createLoop_not_conflict: "fst (createLoop others newId data 0 as) \<noteq> Inl SlotConflict"
proof -
  obtain o0 s1 where a0: "createAttempt others newId data 0 as = (o0, s1)"
    by (cases "createAttempt others newId data 0 as")
  obtain o1 s2 where a1: "createAttempt others newId data 1 s1 = (o1, s2)"
    by (cases "createAttempt others newId data 1 s1")
  obtain o2 s3 where a2: "createAttempt others newId data 2 s2 = (o2, s3)"
    by (cases "createAttempt others newId data 2 s2")
  show ?thesis
    unfolding createLoop_unroll a0 a1 a2 prod.case
    by (cases o0; cases o1; cases o2) simp_all
qed

lemma updateLoop_not_conflict: "fst (updateLoop others i day b 0 as) \<noteq> Inl SlotConflict"
proof -
  obtain o0 s1 where a0: "updateAttempt others i day b 0 as = (o0, s1)"
    by (cases "updateAttempt others i day b 0 as")
  obtain o1 s2 where a1: "updateAttempt others i day b 1 s1 = (o1, s2)"
    by (cases "updateAttempt others i day b 1 s1")
  obtain o2 s3 where a2: "updateAttempt others i day b 2 s2 = (o2, s3)"
    by (cases "updateAttempt others i day b 2 s2")
  show ?thesis
    unfolding updateLoop_unroll a0 a1 a2 prod.case
    by (cases o0; cases o1; cases o2) simp_all
qed

subsection \<open>One pass of a token loop\<close>

lemma createAttempt_cases:
  "createAttempt others newId data k as =
     (let as1 = others (2 * k) as; as2 = others (2 * k + 1) as1;
          a = data\<lparr>a_id := newId k, a_dailyToken := int (countDay (a_appointmentDay data) as1) + 1\<rparr>
      in case insertAppointment a as2 of
           Inr as3 \<Rightarrow> (Saved a, as3)
         | Inl DuplicateKey \<Rightarrow> (Duplicate, as2)
         | Inl ValidationError \<Rightarrow> (Thrown, as2))"
  by (simp add: createAttempt_def Let_def)


lemma createAttempt_saved:
  "createAttempt others newId data k as = (Saved a, as') \<Longrightarrow>
     a = data\<lparr>a_id := newId k,
             a_dailyToken := int (countDay (a_appointmentDay data) (others (2 * k) as)) + 1\<rparr>
     \<and> insertAppointment a (others (2 * k + 1) (others (2 * k) as)) = Inr as'"
  by (auto simp add: createAttempt_def Let_def split: sum.splits storeError.splits)

lemma createAttempt_alone:
  "createAttempt alone newId data k as =
     (case insertAppointment
             (data\<lparr>a_id := newId k, a_dailyToken := int (countDay (a_appointmentDay data) as) + 1\<rparr>) as of
        Inr as3 \<Rightarrow>
          (Saved (data\<lparr>a_id := newId k,
                       a_dailyToken := int (countDay (a_appointmentDay data) as) + 1\<rparr>), as3)
      | Inl DuplicateKey \<Rightarrow> (Duplicate, as)
      | Inl ValidationError \<Rightarrow> (Thrown, as))"
  by (simp add: createAttempt_def Let_def alone_def)

lemma createLoop_saved_fields:
  assumes "createLoop others newId data 0 as = (Inr a, as')"
  shows "\<exists>k tok. a = data\<lparr>a_id := newId k, a_dailyToken := tok\<rparr>"
proof -
  obtain o0 s1 where a0: "createAttempt others newId data 0 as = (o0, s1)"
    by (cases "createAttempt others newId data 0 as")
  obtain o1 s2 where a1: "createAttempt others newId data 1 s1 = (o1, s2)"
    by (cases "createAttempt others newId data 1 s1")
  obtain o2 s3 where a2: "createAttempt others newId data 2 s2 = (o2, s3)"
    by (cases "createAttempt others newId data 2 s2")
  from assms a0 a1 a2 show ?thesis
    unfolding createLoop_unroll
    by (cases o0; cases o1; cases o2) (auto dest!: createAttempt_saved)
qed

lemma createLoop_alone:
  assumes "createLoop alone newId data 0 as = (r, as')"
  shows "(\<exists>e. r = Inl e \<and> as' = as) \<or>
         (\<exists>k. k < 3 \<and> r = Inr (data\<lparr>a_id := newId k,
                       a_dailyToken := int (countDay (a_appointmentDay data) as) + 1\<rparr>)
              \<and> insertAppointment (data\<lparr>a_id := newId k,
                       a_dailyToken := int (countDay (a_appointmentDay data) as) + 1\<rparr>) as = Inr as')"
proof -
  define a where "a k = data\<lparr>a_id := newId k,
      a_dailyToken := int (countDay (a_appointmentDay data) as) + 1\<rparr>" for k
  have att: "createAttempt alone newId data k as =
     (case insertAppointment (a k) as of
        Inr as3 \<Rightarrow> (Saved (a k), as3)
      | Inl DuplicateKey \<Rightarrow> (Duplicate, as)
      | Inl ValidationError \<Rightarrow> (Thrown, as))" for k
    unfolding a_def by (rule createAttempt_alone)
  have goal: "(\<exists>e. r = Inl e \<and> as' = as) \<or> (\<exists>k. k < 3 \<and> r = Inr (a k) \<and> insertAppointment (a k) as = Inr as')"
  proof (cases "insertAppointment (a 0) as")
    case (Inr s)
    with assms att[of 0] show ?thesis by (auto simp: createLoop_unroll)
  next
    case (Inl e0)
    note i0 = this
    show ?thesis
    proof (cases e0)
      case ValidationError
      with assms att[of 0] i0 show ?thesis by (auto simp: createLoop_unroll)
    next
      case DuplicateKey
      note e0 = this
      show ?thesis
      proof (cases "insertAppointment (a 1) as")
        case (Inr s)
        with assms att[of 0] att[of 1] i0 e0 have "r = Inr (a 1)" "as' = s"
          by (auto simp: createLoop_unroll)
        with Inr show ?thesis by (intro disjI2 exI[of _ 1]) simp
      next
        case (Inl e1)
        note i1 = this
        show ?thesis
        proof (cases e1)
          case ValidationError
          with assms att[of 0] att[of 1] i0 e0 i1 show ?thesis by (auto simp: createLoop_unroll)
        next
          case DuplicateKey
          note e1 = this
          show ?thesis
          proof (cases "insertAppointment (a 2) as")
            case (Inr s)
            with assms att[of 0] att[of 1] att[of 2] i0 e0 i1 e1 have "r = Inr (a 2)" "as' = s"
              by (auto simp: createLoop_unroll)
            with Inr show ?thesis by (intro disjI2 exI[of _ 2]) simp
          next
            case (Inl e2)
            with assms att[of 0] att[of 1] att[of 2] i0 e0 i1 e1 show ?thesis
              by (cases e2) (auto simp: createLoop_unroll)
          qed
        qed
      qed
    qed
  qed
  then show ?thesis by (simp add: a_def)
qed

lemma paymentFieldsPresent_token [simp]:
  "paymentFieldsPresent (b\<lparr>ua_dailyToken := t\<rparr>) = paymentFieldsPresent b"
  by (simp add: paymentFieldsPresent_def)

lemma paymentFieldsPresent_day [simp]:
  "paymentFieldsPresent (b\<lparr>ua_appointmentDay := t\<rparr>) = paymentFieldsPresent b"
  by (simp add: paymentFieldsPresent_def)

lemma updateAttempt_alone:
  assumes "findById i as = Some a0"
  shows "updateAttempt alone i day b k as =
     (case findByIdAndUpdate i
             (if paymentFieldsPresent b
              then withPaymentStatus (b\<lparr>ua_dailyToken := Some (int (countDayExcept day i as) + 1)\<rparr>) a0
              else b\<lparr>ua_dailyToken := Some (int (countDayExcept day i as) + 1)\<rparr>) as of
        Inr (u, as4) \<Rightarrow> (Saved u, as4)
      | Inl DuplicateKey \<Rightarrow> (Duplicate, as)
      | Inl ValidationError \<Rightarrow> (Thrown, as))"
  using assms by (simp add: updateAttempt_def Let_def alone_def)

lemma updateLoop_alone:
  assumes "findById i as = Some a0"
  shows "updateLoop alone i day b 0 as =
     (case findByIdAndUpdate i
             (if paymentFieldsPresent b
              then withPaymentStatus (b\<lparr>ua_dailyToken := Some (int (countDayExcept day i as) + 1)\<rparr>) a0
              else b\<lparr>ua_dailyToken := Some (int (countDayExcept day i as) + 1)\<rparr>) as of
        Inr (u, as4) \<Rightarrow> (Inr u, as4)
      | Inl DuplicateKey \<Rightarrow> (Inl TokenAllocationFailed, as)
      | Inl ValidationError \<Rightarrow> (Inl ServerError, as))"
proof -
  define w where "w = findByIdAndUpdate i
             (if paymentFieldsPresent b
              then withPaymentStatus (b\<lparr>ua_dailyToken := Some (int (countDayExcept day i as) + 1)\<rparr>) a0
              else b\<lparr>ua_dailyToken := Some (int (countDayExcept day i as) + 1)\<rparr>) as"
  have att: "updateAttempt alone i day b k as =
     (case w of Inr (u, as4) \<Rightarrow> (Saved u, as4)
      | Inl DuplicateKey \<Rightarrow> (Duplicate, as)
      | Inl ValidationError \<Rightarrow> (Thrown, as))" for k
    unfolding w_def by (rule updateAttempt_alone[OF assms])
  have "updateLoop alone i day b 0 as =
     (case w of Inr (u, as4) \<Rightarrow> (Inr u, as4)
      | Inl DuplicateKey \<Rightarrow> (Inl TokenAllocationFailed, as)
      | Inl ValidationError \<Rightarrow> (Inl ServerError, as))"
  proof (cases w)
    case (Inr p)
    then show ?thesis by (cases p) (simp add: updateLoop_unroll att)
  next
    case (Inl e)
    then show ?thesis by (cases e) (simp_all add: updateLoop_unroll att)
  qed
  then show ?thesis unfolding w_def .
qed

lemma findByIdAndUpdate_found:
  assumes "findById i as = Some a0" and "findByIdAndUpdate i b as = Inr (u, as')"
  shows "u = Some (applyUpdate b a0)
       \<and> as' = map (\<lambda>x. if a_id x = i then applyUpdate b a0 else x) as
       \<and> (dayToken (applyUpdate b a0) = dayToken a0
           \<or> \<not> list_ex (\<lambda>x. a_id x \<noteq> i \<and> dayToken x = dayToken (applyUpdate b a0)) as)"
  using assms
  by (auto simp: findByIdAndUpdate_def Let_def dayToken_def split: if_splits)

lemma applyUpdate_day_token:
  "a_appointmentDay (applyUpdate b a) = orElse (ua_appointmentDay b) (a_appointmentDay a)"
  "a_dailyToken (applyUpdate b a) = orElse (ua_dailyToken b) (a_dailyToken a)"
  "a_id (applyUpdate b a) = a_id a"
  by (simp_all add: applyUpdate_def)

lemma withPaymentStatus_fields [simp]:
  "ua_appointmentDay (withPaymentStatus b c) = ua_appointmentDay b"
  "ua_dailyToken (withPaymentStatus b c) = ua_dailyToken b"
  "ua_paymentOnline (withPaymentStatus b c) = ua_paymentOnline b"
  "ua_paymentOffline (withPaymentStatus b c) = ua_paymentOffline b"
  "ua_amount (withPaymentStatus b c) = ua_amount b"
  "ua_discount (withPaymentStatus b c) = ua_discount b"
  by (simp_all add: withPaymentStatus_def Let_def)

lemma withDoctorFee_fields [simp]:
  "ua_appointmentDate (withDoctorFee body st) = ua_appointmentDate body"
  "ua_appointmentDay (withDoctorFee body st) = ua_appointmentDay body"
  "ua_dailyToken (withDoctorFee body st) = ua_dailyToken body"
  by (simp_all add: withDoctorFee_def split: option.splits)

text \<open>What a request that runs alone answers and writes.\<close>

lemma createAppointment_alone:
  assumes "createAppointment setHours0 alone newId usr body st = (r, st')"
  shows "(\<exists>e. r = Inl e \<and> st' = st) \<or>
         (\<exists>k. k < 3 \<and> r = Inr (appointmentData setHours0 body\<lparr>a_id := newId k,
                  a_dailyToken := int (countDay (setHours0 (ca_appointmentDate body)) (appointments st)) + 1\<rparr>)
              \<and> insertAppointment (appointmentData setHours0 body\<lparr>a_id := newId k,
                  a_dailyToken := int (countDay (setHours0 (ca_appointmentDate body)) (appointments st)) + 1\<rparr>)
                  (appointments st) = Inr (appointments st')
              \<and> st' = st\<lparr>appointments := appointments st'\<rparr>)"
proof (cases "createChecks usr body st = None \<and> conflictingOnCreate body (appointments st) = None")
  case False
  with assms show ?thesis by (auto simp: createAppointment_def split: option.splits)
next
  case True
  obtain r1 as1 where loop: "createLoop alone newId (appointmentData setHours0 body) 0 (appointments st) = (r1, as1)"
    by (cases "createLoop alone newId (appointmentData setHours0 body) 0 (appointments st)")
  with True assms have rs: "r = r1" "st' = st\<lparr>appointments := as1\<rparr>"
    by (auto simp: createAppointment_def)
  have day: "a_appointmentDay (appointmentData setHours0 body) = setHours0 (ca_appointmentDate body)"
    by (simp add: appointmentData_def Let_def)
  from createLoop_alone[OF loop] show ?thesis
  proof (elim disjE exE conjE)
    fix e assume "r1 = Inl e" "as1 = appointments st"
    with rs show ?thesis by simp
  next
    fix k assume "k < 3"
      "r1 = Inr (appointmentData setHours0 body\<lparr>a_id := newId k,
         a_dailyToken := int (countDay (a_appointmentDay (appointmentData setHours0 body)) (appointments st)) + 1\<rparr>)"
      "insertAppointment (appointmentData setHours0 body\<lparr>a_id := newId k,
         a_dailyToken := int (countDay (a_appointmentDay (appointmentData setHours0 body)) (appointments st)) + 1\<rparr>)
         (appointments st) = Inr as1"
    with rs day show ?thesis by (intro disjI2 exI[of _ k]) simp
  qed
qed

lemma updateAppointment_alone:
  assumes "updateAppointment setHours0 alone usr i body st = (r, st')"
  shows "(\<exists>e. r = Inl e \<and> st' = st) \<or>
         (\<exists>a0 b. findById i (appointments st) = Some a0
              \<and> findByIdAndUpdate i b (appointments st) = Inr (Some (applyUpdate b a0), appointments st')
              \<and> r = Inr (Some (applyUpdate b a0))
              \<and> st' = st\<lparr>appointments := appointments st'\<rparr>
              \<and> (case ua_appointmentDate body of
                    Some date \<Rightarrow> ua_appointmentDay b = Some (setHours0 date)
                      \<and> ua_dailyToken b = Some (int (countDayExcept (setHours0 date) i (appointments st)) + 1)
                  | None \<Rightarrow> True)
              \<and> ua_paymentOnline b = ua_paymentOnline (withDoctorFee body st)
              \<and> ua_paymentOffline b = ua_paymentOffline (withDoctorFee body st)
              \<and> ua_amount b = ua_amount (withDoctorFee body st)
              \<and> ua_discount b = ua_discount (withDoctorFee body st)
              \<and> (if paymentFieldsPresent (withDoctorFee body st)
                  then ua_paymentStatus b = Some (appointmentStatus
                       (jsAdd (orElse (ua_paymentOnline b) (a_paymentOnline a0))
                          (orElse (ua_paymentOffline b) (a_paymentOffline a0)))
                       (orElse (ua_amount b) (orElse (a_amount a0) 0))
                       (orElse (ua_discount b) (a_discount a0)))
                  else ua_paymentStatus b = ua_paymentStatus (withDoctorFee body st)))"
proof (cases "findById i (appointments st)")
  case None
  with assms show ?thesis by (auto simp: updateAppointment_def split: if_splits)
next
  case (Some a0)
  note found = this
  show ?thesis
  proof (cases "ua_appointmentTime body \<noteq> Some [] \<and> updateChecks usr body a0 st = None
      \<and> conflictingOnUpdate i body a0 (appointments st) = None")
    case False
    with assms found show ?thesis
      by (auto simp: updateAppointment_def split: if_splits option.splits)
  next
    case True
    define ub where "ub = withDoctorFee body st"
    show ?thesis
    proof (cases "ua_appointmentDate body")
      case None
      define b where "b = (if paymentFieldsPresent ub then withPaymentStatus ub a0 else ub)"
      have run: "updateAppointment setHours0 alone usr i body st =
          (case findByIdAndUpdate i b (appointments st) of
             Inr (u, as) \<Rightarrow> (Inr u, st\<lparr>appointments := as\<rparr>)
           | Inl e \<Rightarrow> (Inl ServerError, st))"
        using True found None
        by (simp add: updateAppointment_def updateInPlace_def Let_def ub_def b_def)
      show ?thesis
      proof (cases "findByIdAndUpdate i b (appointments st)")
        case (Inl e)
        with run assms show ?thesis by simp
      next
        case (Inr p)
        obtain u as where p: "p = (u, as)" by (cases p)
        from findByIdAndUpdate_found[OF found Inr[unfolded p]]
        have u: "u = Some (applyUpdate b a0)" by simp
        from run assms Inr p have rs: "r = Inr u" "st' = st\<lparr>appointments := as\<rparr>" by simp_all
        have "findById i (appointments st) = Some a0
              \<and> findByIdAndUpdate i b (appointments st) = Inr (Some (applyUpdate b a0), appointments st')
              \<and> r = Inr (Some (applyUpdate b a0))
              \<and> st' = st\<lparr>appointments := appointments st'\<rparr>"
          using found Inr p u rs by simp
        moreover have "ua_paymentOnline b = ua_paymentOnline ub" "ua_paymentOffline b = ua_paymentOffline ub"
          "ua_amount b = ua_amount ub" "ua_discount b = ua_discount ub"
          by (simp_all add: b_def)
        moreover have "if paymentFieldsPresent ub
                  then ua_paymentStatus b = Some (appointmentStatus
                       (jsAdd (orElse (ua_paymentOnline b) (a_paymentOnline a0))
                          (orElse (ua_paymentOffline b) (a_paymentOffline a0)))
                       (orElse (ua_amount b) (orElse (a_amount a0) 0))
                       (orElse (ua_discount b) (a_discount a0)))
                  else ua_paymentStatus b = ua_paymentStatus ub"
          by (simp add: b_def withPaymentStatus_def Let_def)
        ultimately show ?thesis using None unfolding ub_def
          by (intro disjI2 exI[of _ a0] exI[of _ b]) simp
      qed
    next
      case (Some date)
      define day where "day = setHours0 date"
      define b1 where "b1 = ub\<lparr>ua_appointmentDay := Some day,
         ua_dailyToken := Some (int (countDayExcept day i (appointments st)) + 1)\<rparr>"
      define b where "b = (if paymentFieldsPresent ub then withPaymentStatus b1 a0 else b1)"
      have run: "updateAppointment setHours0 alone usr i body st =
          (case findByIdAndUpdate i b (appointments st) of
             Inr (u, as) \<Rightarrow> (Inr u, st\<lparr>appointments := as\<rparr>)
           | Inl DuplicateKey \<Rightarrow> (Inl TokenAllocationFailed, st)
           | Inl ValidationError \<Rightarrow> (Inl ServerError, st))"
        using True found Some
        by (simp add: updateAppointment_def Let_def ub_def b_def b1_def day_def
            updateLoop_alone[OF found] split: sum.splits storeError.splits)
      show ?thesis
      proof (cases "findByIdAndUpdate i b (appointments st)")
        case (Inl e)
        with run assms show ?thesis by (cases e) simp_all
      next
        case (Inr p)
        obtain u as where p: "p = (u, as)" by (cases p)
        from findByIdAndUpdate_found[OF found Inr[unfolded p]]
        have u: "u = Some (applyUpdate b a0)" by simp
        from run assms Inr p have rs: "r = Inr u" "st' = st\<lparr>appointments := as\<rparr>" by simp_all
        have "findById i (appointments st) = Some a0
              \<and> findByIdAndUpdate i b (appointments st) = Inr (Some (applyUpdate b a0), appointments st')
              \<and> r = Inr (Some (applyUpdate b a0))
              \<and> st' = st\<lparr>appointments := appointments st'\<rparr>"
          using found Inr p u rs by simp
        moreover have "ua_paymentOnline b = ua_paymentOnline ub" "ua_paymentOffline b = ua_paymentOffline ub"
          "ua_amount b = ua_amount ub" "ua_discount b = ua_discount ub"
          "ua_appointmentDay b = Some day"
          "ua_dailyToken b = Some (int (countDayExcept day i (appointments st)) + 1)"
          by (simp_all add: b_def b1_def)
        moreover have "if paymentFieldsPresent ub
                  then ua_paymentStatus b = Some (appointmentStatus
                       (jsAdd (orElse (ua_paymentOnline b) (a_paymentOnline a0))
                          (orElse (ua_paymentOffline b) (a_paymentOffline a0)))
                       (orElse (ua_amount b) (orElse (a_amount a0) 0))
                       (orElse (ua_discount b) (a_discount a0)))
                  else ua_paymentStatus b = ua_paymentStatus ub"
          by (simp add: b_def b1_def withPaymentStatus_def Let_def)
        ultimately show ?thesis using Some unfolding ub_def day_def
          by (intro disjI2 exI[of _ a0] exI[of _ b]) simp
      qed
    qed
  qed
qed

subsection \<open>A gap in the day's tokens\<close>

text \<open>
  C10. When the day of a booking already holds the token that follows its count, a
  creation that passes the checks, runs alone and carries schema-valid amounts is
  answered with the token allocation failure and leaves the database as it was; each of
  its three passes ends in the duplicate key error, on the same collection. The
  database being unchanged, the same holds for every later submission.
\<close>

theorem gap_blocks_every_creation:
  assumes "createChecks usr body st = None"
    and "conflictingOnCreate body (appointments st) = None"
    and "validAppointment (appointmentData setHours0 body)"
    and "list_ex (\<lambda>x. a_appointmentDay x = setHours0 (ca_appointmentDate body)
                     \<and> a_dailyToken x
                         = int (countDay (setHours0 (ca_appointmentDate body)) (appointments st)) + 1)
           (appointments st)"
  shows "createAppointment setHours0 alone newId usr body st = (Inl TokenAllocationFailed, st)
       \<and> createAttempt alone newId (appointmentData setHours0 body) 0 (appointments st)
           = (Duplicate, appointments st)
       \<and> createAttempt alone newId (appointmentData setHours0 body) 1 (appointments st)
           = (Duplicate, appointments st)
       \<and> createAttempt alone newId (appointmentData setHours0 body) 2 (appointments st)
           = (Duplicate, appointments st)"
proof -
  have day: "a_appointmentDay (appointmentData setHours0 body) = setHours0 (ca_appointmentDate body)"
    by (simp add: appointmentData_def Let_def)
  have valid: "validAppointment (appointmentData setHours0 body\<lparr>a_id := x, a_dailyToken := t\<rparr>)" for x t
    using assms(3) by (simp add: validAppointment_def)
  have att: "createAttempt alone newId (appointmentData setHours0 body) k (appointments st)
      = (Duplicate, appointments st)" for k
    using assms(4) valid
    by (simp add: createAttempt_alone insertAppointment_def day)
  have "createLoop alone newId (appointmentData setHours0 body) 0 (appointments st)
      = (Inl TokenAllocationFailed, appointments st)"
    by (simp add: createLoop_unroll att)
  with assms(1,2) att show ?thesis by (simp add: createAppointment_def)
qed

lemma ex_gap_reached:
  "foldl (appointmentStep utcMidnight) ex_clinic
     [CreateAppointment (ex_newId 10) ex_receptionist (ex_booking ''10:00'' None None),
      CreateAppointment (ex_newId 20) ex_receptionist (ex_booking ''10:30'' None None),
      CreateAppointment (ex_newId 30) ex_receptionist (ex_booking ''11:00'' None None),
      DeleteAppointment 10] = ex_gap"
  by code_simp

theorem gap_blocks_every_creation_witness:
  "createChecks ex_receptionist (ex_booking ''11:30'' None None) ex_gap = None
   \<and> conflictingOnCreate (ex_booking ''11:30'' None None) (appointments ex_gap) = None
   \<and> validAppointment (appointmentData utcMidnight (ex_booking ''11:30'' None None))
   \<and> map a_dailyToken (appointments ex_gap) = [2, 3]
   \<and> countDay (utcMidnight (ca_appointmentDate (ex_booking ''11:30'' None None))) (appointments ex_gap) = 2
   \<and> createAppointment utcMidnight alone (ex_newId 40) ex_receptionist
        (ex_booking ''11:30'' None None) ex_gap = (Inl TokenAllocationFailed, ex_gap)"
proof -
  have h1: "createChecks ex_receptionist (ex_booking ''11:30'' None None) ex_gap = None"
    by code_simp
  have h2: "conflictingOnCreate (ex_booking ''11:30'' None None) (appointments ex_gap) = None"
    by code_simp
  have h3: "validAppointment (appointmentData utcMidnight (ex_booking ''11:30'' None None))"
    by code_simp
  have h4: "list_ex (\<lambda>x. a_appointmentDay x = utcMidnight (ca_appointmentDate (ex_booking ''11:30'' None None))
                     \<and> a_dailyToken x
                         = int (countDay (utcMidnight (ca_appointmentDate (ex_booking ''11:30'' None None)))
                                  (appointments ex_gap)) + 1)
           (appointments ex_gap)"
    by code_simp
  have e1: "map a_dailyToken (appointments ex_gap) = [2, 3]" by code_simp
  have e2: "countDay (utcMidnight (ca_appointmentDate (ex_booking ''11:30'' None None))) (appointments ex_gap) = 2"
    by code_simp
  from gap_blocks_every_creation[OF h1 h2 h3 h4, of "ex_newId 40"] h1 h2 h3 e1 e2
  show ?thesis by blast
qed

subsection \<open>Slot conflicts\<close>

lemma conflictingOnCreate_spec:
  "conflictingOnCreate body as \<noteq> None \<longleftrightarrow>
     hasConflict_spec (ca_doctor body) (ca_appointmentDate body) (ca_appointmentTime body) None as"
  by (auto simp: conflictingOnCreate_def hasConflict_spec_def find_None_iff list_ex_iff)

lemma conflictingOnUpdate_spec:
  assumes "ua_doctor b \<noteq> None \<or> ua_appointmentDate b \<noteq> None \<or> ua_appointmentTime b \<noteq> None"
  shows "conflictingOnUpdate i b a0 as \<noteq> None \<longleftrightarrow>
     hasConflict_spec (orElse (ua_doctor b) (a_doctor a0))
       (orElse (ua_appointmentDate b) (a_appointmentDate a0))
       (orElse (ua_appointmentTime b) (a_appointmentTime a0)) (Some i) as"
proof -
  have "conflictingOnUpdate i b a0 as =
      find (\<lambda>a. a_id a \<noteq> i \<and> a_doctor a = orElse (ua_doctor b) (a_doctor a0)
                    \<and> a_appointmentDate a = orElse (ua_appointmentDate b) (a_appointmentDate a0)
                    \<and> a_appointmentTime a = orElse (ua_appointmentTime b) (a_appointmentTime a0)
                    \<and> (a_status a = Scheduled \<or> a_status a = Confirmed)) as"
    using assms by (auto simp: conflictingOnUpdate_def Let_def)
  then show ?thesis
    by (auto simp: hasConflict_spec_def find_None_iff list_ex_iff)
qed

text \<open>
  C5. A creation that passes the earlier checks is answered with the slot conflict
  exactly when the specification's conflict holds for the body's doctor, date and time;
  an update that passes them and names a doctor, a date or a time is answered with it
  exactly when the conflict holds for the values the appointment would have, the
  appointment itself left out. Whenever the answer is the slot conflict, the database
  is as it was.
\<close>

theorem slot_conflict_iff_spec:
  "(createChecks usr body st = None \<longrightarrow>
      (fst (createAppointment setHours0 others newId usr body st) = Inl SlotConflict
         \<longleftrightarrow> hasConflict_spec (ca_doctor body) (ca_appointmentDate body)
               (ca_appointmentTime body) None (appointments st))
      \<and> (fst (createAppointment setHours0 others newId usr body st) = Inl SlotConflict
         \<longrightarrow> snd (createAppointment setHours0 others newId usr body st) = st))
   \<and> (findById i (appointments st) = Some a0 \<and> ua_appointmentTime ub \<noteq> Some []
        \<and> updateChecks usr ub a0 st = None
        \<and> (ua_doctor ub \<noteq> None \<or> ua_appointmentDate ub \<noteq> None \<or> ua_appointmentTime ub \<noteq> None)
      \<longrightarrow>
      (fst (updateAppointment setHours0 others usr i ub st) = Inl SlotConflict
         \<longleftrightarrow> hasConflict_spec (orElse (ua_doctor ub) (a_doctor a0))
               (orElse (ua_appointmentDate ub) (a_appointmentDate a0))
               (orElse (ua_appointmentTime ub) (a_appointmentTime a0)) (Some i) (appointments st))
      \<and> (fst (updateAppointment setHours0 others usr i ub st) = Inl SlotConflict
         \<longrightarrow> snd (updateAppointment setHours0 others usr i ub st) = st))"
proof (intro conjI impI)
  assume c: "createChecks usr body st = None"
  show "fst (createAppointment setHours0 others newId usr body st) = Inl SlotConflict
         \<longleftrightarrow> hasConflict_spec (ca_doctor body) (ca_appointmentDate body)
               (ca_appointmentTime body) None (appointments st)"
    using c createLoop_not_conflict[of others newId "appointmentData setHours0 body" "appointments st"]
      conflictingOnCreate_spec[of body "appointments st"]
    by (auto simp: createAppointment_def split: option.splits prod.splits)
next
  assume c: "createChecks usr body st = None"
    and r: "fst (createAppointment setHours0 others newId usr body st) = Inl SlotConflict"
  show "snd (createAppointment setHours0 others newId usr body st) = st"
    using c r createLoop_not_conflict[of others newId "appointmentData setHours0 body" "appointments st"]
    by (auto simp: createAppointment_def split: option.splits prod.splits)
next
  assume h: "findById i (appointments st) = Some a0 \<and> ua_appointmentTime ub \<noteq> Some []
        \<and> updateChecks usr ub a0 st = None
        \<and> (ua_doctor ub \<noteq> None \<or> ua_appointmentDate ub \<noteq> None \<or> ua_appointmentTime ub \<noteq> None)"
  then have n: "ua_doctor ub \<noteq> None \<or> ua_appointmentDate ub \<noteq> None \<or> ua_appointmentTime ub \<noteq> None"
    by simp
  have nc: "fst (updateInPlace i b a0 st) \<noteq> Inl SlotConflict" for b
    by (simp add: updateInPlace_def Let_def split: sum.splits prod.splits)
  show "fst (updateAppointment setHours0 others usr i ub st) = Inl SlotConflict
         \<longleftrightarrow> hasConflict_spec (orElse (ua_doctor ub) (a_doctor a0))
               (orElse (ua_appointmentDate ub) (a_appointmentDate a0))
               (orElse (ua_appointmentTime ub) (a_appointmentTime a0)) (Some i) (appointments st)"
  proof -
    have nl: "updateLoop others i day b 0 as \<noteq> (Inl SlotConflict, x)" for day b as x
      using updateLoop_not_conflict[of others i day b as] by auto
    show ?thesis
      using h conflictingOnUpdate_spec[OF n, of i a0 "appointments st"] nc nl
      by (auto simp: updateAppointment_def Let_def split: option.splits prod.splits)
  qed
next
  assume h: "findById i (appointments st) = Some a0 \<and> ua_appointmentTime ub \<noteq> Some []
        \<and> updateChecks usr ub a0 st = None
        \<and> (ua_doctor ub \<noteq> None \<or> ua_appointmentDate ub \<noteq> None \<or> ua_appointmentTime ub \<noteq> None)"
    and r: "fst (updateAppointment setHours0 others usr i ub st) = Inl SlotConflict"
  have nc: "fst (updateInPlace i b a0 st) \<noteq> Inl SlotConflict" for b
    by (simp add: updateInPlace_def Let_def split: sum.splits prod.splits)
  show "snd (updateAppointment setHours0 others usr i ub st) = st"
  proof -
    have nl: "updateLoop others i day b 0 as \<noteq> (Inl SlotConflict, x)" for day b as x
      using updateLoop_not_conflict[of others i day b as] by auto
    show ?thesis
      using h r nc nl
      by (auto simp: updateAppointment_def Let_def split: option.splits prod.splits)
  qed
qed

theorem slot_conflict_iff_spec_witness:
  "createChecks ex_receptionist (ex_booking ''10:00'' None None) ex_day3 = None
   \<and> hasConflict_spec (ca_doctor (ex_booking ''10:00'' None None)) (ca_appointmentDate (ex_booking ''10:00'' None None))
               (ca_appointmentTime (ex_booking ''10:00'' None None)) None (appointments ex_day3)
   \<and> fst (createAppointment utcMidnight alone (ex_newId 40) ex_receptionist (ex_booking ''10:00'' None None) ex_day3) = Inl SlotConflict
   \<and> snd (createAppointment utcMidnight alone (ex_newId 40) ex_receptionist (ex_booking ''10:00'' None None) ex_day3) = ex_day3
   \<and> findById 20 (appointments ex_day3) = Some (ex_appointment 20 ''10:30'' 2) \<and> ua_appointmentTime ex_retime \<noteq> Some []
        \<and> updateChecks ex_receptionist ex_retime (ex_appointment 20 ''10:30'' 2) ex_day3 = None
        \<and> ua_appointmentTime ex_retime \<noteq> None
   \<and> hasConflict_spec (orElse (ua_doctor ex_retime) (a_doctor (ex_appointment 20 ''10:30'' 2)))
               (orElse (ua_appointmentDate ex_retime) (a_appointmentDate (ex_appointment 20 ''10:30'' 2)))
               (orElse (ua_appointmentTime ex_retime) (a_appointmentTime (ex_appointment 20 ''10:30'' 2))) (Some 20) (appointments ex_day3)
   \<and> fst (updateAppointment utcMidnight alone ex_receptionist 20 ex_retime ex_day3) = Inl SlotConflict
   \<and> snd (updateAppointment utcMidnight alone ex_receptionist 20 ex_retime ex_day3) = ex_day3"
proof -
  have a1: "createChecks ex_receptionist (ex_booking ''10:00'' None None) ex_day3 = None"
    by code_simp
  have s1: "hasConflict_spec (ca_doctor (ex_booking ''10:00'' None None)) (ca_appointmentDate (ex_booking ''10:00'' None None))
               (ca_appointmentTime (ex_booking ''10:00'' None None)) None (appointments ex_day3)"
    by code_simp
  have a2: "findById 20 (appointments ex_day3) = Some (ex_appointment 20 ''10:30'' 2) \<and> ua_appointmentTime ex_retime \<noteq> Some []
        \<and> updateChecks ex_receptionist ex_retime (ex_appointment 20 ''10:30'' 2) ex_day3 = None
        \<and> (ua_doctor ex_retime \<noteq> None \<or> ua_appointmentDate ex_retime \<noteq> None \<or> ua_appointmentTime ex_retime \<noteq> None)"
    by code_simp
  have s2: "hasConflict_spec (orElse (ua_doctor ex_retime) (a_doctor (ex_appointment 20 ''10:30'' 2)))
               (orElse (ua_appointmentDate ex_retime) (a_appointmentDate (ex_appointment 20 ''10:30'' 2)))
               (orElse (ua_appointmentTime ex_retime) (a_appointmentTime (ex_appointment 20 ''10:30'' 2))) (Some 20) (appointments ex_day3)"
    by code_simp
  have inst: "(createChecks ex_receptionist (ex_booking ''10:00'' None None) ex_day3 = None \<longrightarrow>
      (fst (createAppointment utcMidnight alone (ex_newId 40) ex_receptionist (ex_booking ''10:00'' None None) ex_day3) = Inl SlotConflict
         \<longleftrightarrow> hasConflict_spec (ca_doctor (ex_booking ''10:00'' None None)) (ca_appointmentDate (ex_booking ''10:00'' None None))
               (ca_appointmentTime (ex_booking ''10:00'' None None)) None (appointments ex_day3))
      \<and> (fst (createAppointment utcMidnight alone (ex_newId 40) ex_receptionist (ex_booking ''10:00'' None None) ex_day3) = Inl SlotConflict
         \<longrightarrow> snd (createAppointment utcMidnight alone (ex_newId 40) ex_receptionist (ex_booking ''10:00'' None None) ex_day3) = ex_day3))
   \<and> (findById 20 (appointments ex_day3) = Some (ex_appointment 20 ''10:30'' 2) \<and> ua_appointmentTime ex_retime \<noteq> Some []
        \<and> updateChecks ex_receptionist ex_retime (ex_appointment 20 ''10:30'' 2) ex_day3 = None
        \<and> (ua_doctor ex_retime \<noteq> None \<or> ua_appointmentDate ex_retime \<noteq> None \<or> ua_appointmentTime ex_retime \<noteq> None)
      \<longrightarrow>
      (fst (updateAppointment utcMidnight alone ex_receptionist 20 ex_retime ex_day3) = Inl SlotConflict
         \<longleftrightarrow> hasConflict_spec (orElse (ua_doctor ex_retime) (a_doctor (ex_appointment 20 ''10:30'' 2)))
               (orElse (ua_appointmentDate ex_retime) (a_appointmentDate (ex_appointment 20 ''10:30'' 2)))
               (orElse (ua_appointmentTime ex_retime) (a_appointmentTime (ex_appointment 20 ''10:30'' 2))) (Some 20) (appointments ex_day3))
      \<and> (fst (updateAppointment utcMidnight alone ex_receptionist 20 ex_retime ex_day3) = Inl SlotConflict
         \<longrightarrow> snd (updateAppointment utcMidnight alone ex_receptionist 20 ex_retime ex_day3) = ex_day3))"
    by (rule slot_conflict_iff_spec)
  have n2: "ua_appointmentTime ex_retime \<noteq> None"
    by (simp add: ex_retime_def)
  from inst a1 s1 a2 s2 n2 show ?thesis by blast
qed

subsection \<open>The payment status\<close>

lemma appointmentStatus_spec:
  "appointmentStatus paid amount discount = derive_spec paid (payable_spec amount discount)"
  by (auto simp: appointmentStatus_def derive_spec_def payable_spec_def Let_def)

lemma dispenseStatus_spec:
  "0 \<le> total' \<Longrightarrow> dispenseStatus paid total' =
     (if paid = 0 \<and> total' = 0 then Paid else derive_spec paid total')"
  by (auto simp: dispenseStatus_def derive_spec_def)

text \<open>
  The sums, differences and products are those of doubles, a decimal such as 0.1 being
  the double nearest to it: a payment of 0.1 online and 0.7 offline adds up to less
  than an amount of 0.8 and leaves the appointment partly paid; three units at 0.1
  cost 0.30000000000000004, which a payment of 0.3 does not reach.
\<close>

lemma rounded_amounts_example:
  "toDouble (1 / 10) = 3602879701896397 / 36028797018963968
   \<and> jsAdd (toDouble (1 / 10)) (toDouble (7 / 10)) < toDouble (8 / 10)
   \<and> a_paymentStatus (appointmentData utcMidnight
        ((ex_booking ''10:00'' (Some (toDouble (8 / 10))) (Some (toDouble (1 / 10))))
           \<lparr>ca_paymentOffline := Some (toDouble (7 / 10))\<rparr>)) = Partial
   \<and> computeTotals [(ex_itemA 3)\<lparr>it_unitPrice := toDouble (1 / 10)\<rparr>] 0 0
        = (5404319552844596 / 18014398509481984, 5404319552844596 / 18014398509481984)
   \<and> toDouble (3 / 10) < 5404319552844596 / 18014398509481984
   \<and> dispenseStatus (jsAdd 0 (toDouble (3 / 10))) (5404319552844596 / 18014398509481984)
        = Partial"
  by code_simp

text \<open>
  C4, as stated, fails: with nothing paid and nothing payable the pay route of the
  dispensary answers paid, where the specification's function, and the appointment
  routes, say pending.
\<close>

theorem payment_paths_agree_counterexample:
  "d_paidAmount ex_free = 0 \<and> d_total ex_free = 0
   \<and> fst (payDispenseRequest ex_clock ex_oidStr 100 0 ex_db_free)
        = Inr (ex_free\<lparr>d_paymentStatus := Paid\<rparr>)
   \<and> derive_spec 0 (payable_spec 0 0) = Pending
   \<and> fst (createAppointment utcMidnight alone (ex_newId 10) ex_receptionist
          (ex_booking ''10:00'' (Some 0) (Some 0)) ex_clinic)
        = Inr (ex_appointment 10 ''10:00'' 1\<lparr>a_amount := Some 0\<rparr>)
   \<and> a_paymentStatus (ex_appointment 10 ''10:00'' 1\<lparr>a_amount := Some 0\<rparr>) = Pending"
  by code_simp

text \<open>
  C4, amended. The sum \<open>paymentOnline + paymentOffline\<close> and the difference
  \<open>amount - discount\<close> being the doubles that JavaScript computes:
  \<^item> an accepted creation of an appointment whose body carries an online or an offline
    payment stores the specification's status of the body's amounts, which are the
    amounts it stores (an absent one counting as 0);
  \<^item> an accepted update of an appointment that runs alone and whose body, after the new
    doctor's fee has been filled in, carries one of the four payment fields stores the
    specification's status of the amounts it stores;
  \<^item> an accepted payment of a dispense whose stored total is not negative, and an
    accepted update of a dispense, store the specification's status of the paid amount
    against the total, but for one input: with nothing paid and a total of zero they
    store paid.
\<close>

theorem payment_status_is_derived:
  "(createAppointment setHours0 others newId usr body st = (Inr a, st')
      \<and> (ca_paymentOnline body \<noteq> None \<or> ca_paymentOffline body \<noteq> None) \<longrightarrow>
      a_paymentStatus a =
        derive_spec (jsAdd (orElse (ca_paymentOnline body) 0) (orElse (ca_paymentOffline body) 0))
          (payable_spec (orElse (ca_amount body) 0) (orElse (ca_discount body) 0))
      \<and> a_paymentStatus a =
        derive_spec (jsAdd (a_paymentOnline a) (a_paymentOffline a))
          (payable_spec (orElse (a_amount a) 0) (a_discount a)))
   \<and> (updateAppointment setHours0 alone usr i ub t = (Inr (Some au), su)
      \<and> paymentFieldsPresent (withDoctorFee ub t) \<longrightarrow>
      a_paymentStatus au =
        derive_spec (jsAdd (a_paymentOnline au) (a_paymentOffline au))
          (payable_spec (orElse (a_amount au) 0) (a_discount au)))
   \<and> (findDispense j (dispenses s) = Some d \<and> 0 \<le> d_total d
      \<and> payDispenseRequest now oidStr j amount s = (Inr dp, sp) \<longrightarrow>
      d_paymentStatus dp =
        (if d_paidAmount dp = 0 \<and> d_total dp = 0 then Paid
         else derive_spec (d_paidAmount dp) (d_total dp)))
   \<and> (updateDispense jq body' q = (Inr dq, sq) \<longrightarrow>
      d_paymentStatus dq =
        (if d_paidAmount dq = 0 \<and> d_total dq = 0 then Paid
         else derive_spec (d_paidAmount dq) (d_total dq)))"
proof (intro conjI impI)
  assume h: "createAppointment setHours0 others newId usr body st = (Inr a, st')
      \<and> (ca_paymentOnline body \<noteq> None \<or> ca_paymentOffline body \<noteq> None)"
  obtain r1 as1 where loop: "createLoop others newId (appointmentData setHours0 body) 0 (appointments st) = (r1, as1)"
    by (cases "createLoop others newId (appointmentData setHours0 body) 0 (appointments st)")
  with h have "r1 = Inr a"
    by (auto simp: createAppointment_def split: option.splits)
  with loop createLoop_saved_fields[of others newId "appointmentData setHours0 body" "appointments st" a as1]
  obtain k tok where a: "a = appointmentData setHours0 body\<lparr>a_id := newId k, a_dailyToken := tok\<rparr>"
    by auto
  from h have st: "a_paymentStatus a =
        derive_spec (jsAdd (orElse (ca_paymentOnline body) 0) (orElse (ca_paymentOffline body) 0))
          (payable_spec (orElse (ca_amount body) 0) (orElse (ca_discount body) 0))"
    by (auto simp: a appointmentData_def Let_def appointmentStatus_spec orElse_def)
  show "a_paymentStatus a =
        derive_spec (jsAdd (orElse (ca_paymentOnline body) 0) (orElse (ca_paymentOffline body) 0))
          (payable_spec (orElse (ca_amount body) 0) (orElse (ca_discount body) 0))" by (rule st)
  show "a_paymentStatus a =
        derive_spec (jsAdd (a_paymentOnline a) (a_paymentOffline a))
          (payable_spec (orElse (a_amount a) 0) (a_discount a))"
    unfolding st by (simp add: a appointmentData_def Let_def)
next
  assume h: "updateAppointment setHours0 alone usr i ub t = (Inr (Some au), su)
      \<and> paymentFieldsPresent (withDoctorFee ub t)"
  then have eq: "updateAppointment setHours0 alone usr i ub t = (Inr (Some au), su)" by simp
  from updateAppointment_alone[OF eq] h
  obtain a0 b where ab: "au = applyUpdate b a0"
    "ua_paymentStatus b = Some (appointmentStatus
                       (jsAdd (orElse (ua_paymentOnline b) (a_paymentOnline a0))
                          (orElse (ua_paymentOffline b) (a_paymentOffline a0)))
                       (orElse (ua_amount b) (orElse (a_amount a0) 0))
                       (orElse (ua_discount b) (a_discount a0)))"
    by auto
  show "a_paymentStatus au =
        derive_spec (jsAdd (a_paymentOnline au) (a_paymentOffline au))
          (payable_spec (orElse (a_amount au) 0) (a_discount au))"
    by (simp add: ab applyUpdate_def appointmentStatus_spec orElse_def split: option.splits)
next
  assume h: "findDispense j (dispenses s) = Some d \<and> 0 \<le> d_total d
      \<and> payDispenseRequest now oidStr j amount s = (Inr dp, sp)"
  with payDispenseRequest_cases[of now oidStr j amount s]
  have eq: "payDispense now oidStr j amount s = (Inr dp, sp)" by auto
  from payDispense_result[OF eq] h
  have "d_paymentStatus dp = dispenseStatus (d_paidAmount dp) (d_total dp)" "0 \<le> d_total dp"
    by auto
  then show "d_paymentStatus dp =
        (if d_paidAmount dp = 0 \<and> d_total dp = 0 then Paid
         else derive_spec (d_paidAmount dp) (d_total dp))"
    by (simp only: dispenseStatus_spec)
next
  assume eq: "updateDispense jq body' q = (Inr dq, sq)"
  from updateDispense_result[OF eq]
  have "d_paymentStatus dq = dispenseStatus (d_paidAmount dq) (d_total dq)" "0 \<le> d_total dq"
    by auto
  then show "d_paymentStatus dq =
        (if d_paidAmount dq = 0 \<and> d_total dq = 0 then Paid
         else derive_spec (d_paidAmount dq) (d_total dq))"
    by (simp only: dispenseStatus_spec)
qed

theorem payment_status_is_derived_witness:
  "(createAppointment utcMidnight alone (ex_newId 10) ex_receptionist (ex_booking ''10:00'' (Some 300) (Some 100)) ex_clinic = (Inr (ex_appointment 10 ''10:00'' 1\<lparr>a_paymentStatus := Partial, a_amount := Some 300, a_paymentOnline := 100\<rparr>), snd (createAppointment utcMidnight alone (ex_newId 10) ex_receptionist (ex_booking ''10:00'' (Some 300) (Some 100)) ex_clinic))
      \<and> ca_paymentOnline (ex_booking ''10:00'' (Some 300) (Some 100)) \<noteq> None)
   \<and> (a_paymentStatus (ex_appointment 10 ''10:00'' 1\<lparr>a_paymentStatus := Partial, a_amount := Some 300, a_paymentOnline := 100\<rparr>) =
        derive_spec (jsAdd (orElse (ca_paymentOnline (ex_booking ''10:00'' (Some 300) (Some 100))) 0) (orElse (ca_paymentOffline (ex_booking ''10:00'' (Some 300) (Some 100))) 0))
          (payable_spec (orElse (ca_amount (ex_booking ''10:00'' (Some 300) (Some 100))) 0) (orElse (ca_discount (ex_booking ''10:00'' (Some 300) (Some 100))) 0))
      \<and> a_paymentStatus (ex_appointment 10 ''10:00'' 1\<lparr>a_paymentStatus := Partial, a_amount := Some 300, a_paymentOnline := 100\<rparr>) =
        derive_spec (jsAdd (a_paymentOnline (ex_appointment 10 ''10:00'' 1\<lparr>a_paymentStatus := Partial, a_amount := Some 300, a_paymentOnline := 100\<rparr>)) (a_paymentOffline (ex_appointment 10 ''10:00'' 1\<lparr>a_paymentStatus := Partial, a_amount := Some 300, a_paymentOnline := 100\<rparr>)))
          (payable_spec (orElse (a_amount (ex_appointment 10 ''10:00'' 1\<lparr>a_paymentStatus := Partial, a_amount := Some 300, a_paymentOnline := 100\<rparr>)) 0) (a_discount (ex_appointment 10 ''10:00'' 1\<lparr>a_paymentStatus := Partial, a_amount := Some 300, a_paymentOnline := 100\<rparr>))))
   \<and> derive_spec (jsAdd 100 0) (payable_spec 300 0) = Partial
   \<and> (updateAppointment utcMidnight alone ex_receptionist 20 ex_payOnline ex_day3 = (Inr (Some (ex_appointment 20 ''10:30'' 2\<lparr>a_paymentStatus := Partial, a_amount := Some 300, a_paymentOnline := 100\<rparr>)), snd (updateAppointment utcMidnight alone ex_receptionist 20 ex_payOnline ex_day3))
      \<and> paymentFieldsPresent (withDoctorFee ex_payOnline ex_day3))
   \<and> (a_paymentStatus (ex_appointment 20 ''10:30'' 2\<lparr>a_paymentStatus := Partial, a_amount := Some 300, a_paymentOnline := 100\<rparr>) =
        derive_spec (jsAdd (a_paymentOnline (ex_appointment 20 ''10:30'' 2\<lparr>a_paymentStatus := Partial, a_amount := Some 300, a_paymentOnline := 100\<rparr>)) (a_paymentOffline (ex_appointment 20 ''10:30'' 2\<lparr>a_paymentStatus := Partial, a_amount := Some 300, a_paymentOnline := 100\<rparr>)))
          (payable_spec (orElse (a_amount (ex_appointment 20 ''10:30'' 2\<lparr>a_paymentStatus := Partial, a_amount := Some 300, a_paymentOnline := 100\<rparr>)) 0) (a_discount (ex_appointment 20 ''10:30'' 2\<lparr>a_paymentStatus := Partial, a_amount := Some 300, a_paymentOnline := 100\<rparr>))))
   \<and> (findDispense 100 (dispenses ex_db_partial) = Some (ex_dispense\<lparr>d_paymentStatus := Partial, d_paidAmount := 4\<rparr>) \<and> 0 \<le> d_total (ex_dispense\<lparr>d_paymentStatus := Partial, d_paidAmount := 4\<rparr>)
      \<and> payDispenseRequest ex_clock ex_oidStr 100 2 ex_db_partial = (Inr (ex_dispense\<lparr>d_paymentStatus := Paid, d_paidAmount := 6\<rparr>), snd (payDispenseRequest ex_clock ex_oidStr 100 2 ex_db_partial)))
   \<and> (d_paymentStatus (ex_dispense\<lparr>d_paymentStatus := Paid, d_paidAmount := 6\<rparr>) =
        (if d_paidAmount (ex_dispense\<lparr>d_paymentStatus := Paid, d_paidAmount := 6\<rparr>) = 0 \<and> d_total (ex_dispense\<lparr>d_paymentStatus := Paid, d_paidAmount := 6\<rparr>) = 0 then Paid
         else derive_spec (d_paidAmount (ex_dispense\<lparr>d_paymentStatus := Paid, d_paidAmount := 6\<rparr>)) (d_total (ex_dispense\<lparr>d_paymentStatus := Paid, d_paidAmount := 6\<rparr>))))
   \<and> (updateDispense 100 ex_update ex_db_open = (Inr (ex_dispense\<lparr>d_items := [ex_itemA 1, ex_itemB 2], d_subtotal := 8, d_total := 8\<rparr>), snd (updateDispense 100 ex_update ex_db_open)))
   \<and> (d_paymentStatus (ex_dispense\<lparr>d_items := [ex_itemA 1, ex_itemB 2], d_subtotal := 8, d_total := 8\<rparr>) =
        (if d_paidAmount (ex_dispense\<lparr>d_items := [ex_itemA 1, ex_itemB 2], d_subtotal := 8, d_total := 8\<rparr>) = 0 \<and> d_total (ex_dispense\<lparr>d_items := [ex_itemA 1, ex_itemB 2], d_subtotal := 8, d_total := 8\<rparr>) = 0 then Paid
         else derive_spec (d_paidAmount (ex_dispense\<lparr>d_items := [ex_itemA 1, ex_itemB 2], d_subtotal := 8, d_total := 8\<rparr>)) (d_total (ex_dispense\<lparr>d_items := [ex_itemA 1, ex_itemB 2], d_subtotal := 8, d_total := 8\<rparr>))))"
proof -
  have f1: "fst (createAppointment utcMidnight alone (ex_newId 10) ex_receptionist (ex_booking ''10:00'' (Some 300) (Some 100)) ex_clinic) = Inr (ex_appointment 10 ''10:00'' 1\<lparr>a_paymentStatus := Partial, a_amount := Some 300, a_paymentOnline := 100\<rparr>)"
    by code_simp
  have a1: "createAppointment utcMidnight alone (ex_newId 10) ex_receptionist (ex_booking ''10:00'' (Some 300) (Some 100)) ex_clinic = (Inr (ex_appointment 10 ''10:00'' 1\<lparr>a_paymentStatus := Partial, a_amount := Some 300, a_paymentOnline := 100\<rparr>), snd (createAppointment utcMidnight alone (ex_newId 10) ex_receptionist (ex_booking ''10:00'' (Some 300) (Some 100)) ex_clinic))
      \<and> (ca_paymentOnline (ex_booking ''10:00'' (Some 300) (Some 100)) \<noteq> None \<or> ca_paymentOffline (ex_booking ''10:00'' (Some 300) (Some 100)) \<noteq> None)"
    using f1 by (simp add: prod_eq_iff ex_booking_def)
  have f2: "fst (updateAppointment utcMidnight alone ex_receptionist 20 ex_payOnline ex_day3) = Inr (Some (ex_appointment 20 ''10:30'' 2\<lparr>a_paymentStatus := Partial, a_amount := Some 300, a_paymentOnline := 100\<rparr>))"
    by code_simp
  have p2: "paymentFieldsPresent (withDoctorFee ex_payOnline ex_day3)"
    by code_simp
  have a2: "(updateAppointment utcMidnight alone ex_receptionist 20 ex_payOnline ex_day3 = (Inr (Some (ex_appointment 20 ''10:30'' 2\<lparr>a_paymentStatus := Partial, a_amount := Some 300, a_paymentOnline := 100\<rparr>)), snd (updateAppointment utcMidnight alone ex_receptionist 20 ex_payOnline ex_day3))
      \<and> paymentFieldsPresent (withDoctorFee ex_payOnline ex_day3))"
    using f2 p2 by (simp add: prod_eq_iff)
  have f3: "fst (payDispenseRequest ex_clock ex_oidStr 100 2 ex_db_partial) = Inr (ex_dispense\<lparr>d_paymentStatus := Paid, d_paidAmount := 6\<rparr>)"
    by code_simp
  have g3: "findDispense 100 (dispenses ex_db_partial) = Some (ex_dispense\<lparr>d_paymentStatus := Partial, d_paidAmount := 4\<rparr>) \<and> 0 \<le> d_total (ex_dispense\<lparr>d_paymentStatus := Partial, d_paidAmount := 4\<rparr>)"
    by code_simp
  have a3: "(findDispense 100 (dispenses ex_db_partial) = Some (ex_dispense\<lparr>d_paymentStatus := Partial, d_paidAmount := 4\<rparr>) \<and> 0 \<le> d_total (ex_dispense\<lparr>d_paymentStatus := Partial, d_paidAmount := 4\<rparr>)
      \<and> payDispenseRequest ex_clock ex_oidStr 100 2 ex_db_partial = (Inr (ex_dispense\<lparr>d_paymentStatus := Paid, d_paidAmount := 6\<rparr>), snd (payDispenseRequest ex_clock ex_oidStr 100 2 ex_db_partial)))"
    using f3 g3 by (simp add: prod_eq_iff)
  have f4: "fst (updateDispense 100 ex_update ex_db_open) = Inr (ex_dispense\<lparr>d_items := [ex_itemA 1, ex_itemB 2], d_subtotal := 8, d_total := 8\<rparr>)"
    by code_simp
  have a4: "(updateDispense 100 ex_update ex_db_open = (Inr (ex_dispense\<lparr>d_items := [ex_itemA 1, ex_itemB 2], d_subtotal := 8, d_total := 8\<rparr>), snd (updateDispense 100 ex_update ex_db_open)))"
    using f4 by (simp add: prod_eq_iff)
  have e: "derive_spec (jsAdd 100 0) (payable_spec 300 0) = Partial" by code_simp
  have i1: "((createAppointment utcMidnight alone (ex_newId 10) ex_receptionist (ex_booking ''10:00'' (Some 300) (Some 100)) ex_clinic = (Inr (ex_appointment 10 ''10:00'' 1\<lparr>a_paymentStatus := Partial, a_amount := Some 300, a_paymentOnline := 100\<rparr>), snd (createAppointment utcMidnight alone (ex_newId 10) ex_receptionist (ex_booking ''10:00'' (Some 300) (Some 100)) ex_clinic))
      \<and> (ca_paymentOnline (ex_booking ''10:00'' (Some 300) (Some 100)) \<noteq> None \<or> ca_paymentOffline (ex_booking ''10:00'' (Some 300) (Some 100)) \<noteq> None)) \<longrightarrow>
      a_paymentStatus (ex_appointment 10 ''10:00'' 1\<lparr>a_paymentStatus := Partial, a_amount := Some 300, a_paymentOnline := 100\<rparr>) =
        derive_spec (jsAdd (orElse (ca_paymentOnline (ex_booking ''10:00'' (Some 300) (Some 100))) 0) (orElse (ca_paymentOffline (ex_booking ''10:00'' (Some 300) (Some 100))) 0))
          (payable_spec (orElse (ca_amount (ex_booking ''10:00'' (Some 300) (Some 100))) 0) (orElse (ca_discount (ex_booking ''10:00'' (Some 300) (Some 100))) 0))
      \<and> a_paymentStatus (ex_appointment 10 ''10:00'' 1\<lparr>a_paymentStatus := Partial, a_amount := Some 300, a_paymentOnline := 100\<rparr>) =
        derive_spec (jsAdd (a_paymentOnline (ex_appointment 10 ''10:00'' 1\<lparr>a_paymentStatus := Partial, a_amount := Some 300, a_paymentOnline := 100\<rparr>)) (a_paymentOffline (ex_appointment 10 ''10:00'' 1\<lparr>a_paymentStatus := Partial, a_amount := Some 300, a_paymentOnline := 100\<rparr>)))
          (payable_spec (orElse (a_amount (ex_appointment 10 ''10:00'' 1\<lparr>a_paymentStatus := Partial, a_amount := Some 300, a_paymentOnline := 100\<rparr>)) 0) (a_discount (ex_appointment 10 ''10:00'' 1\<lparr>a_paymentStatus := Partial, a_amount := Some 300, a_paymentOnline := 100\<rparr>))))"
    by (rule payment_status_is_derived[THEN conjunct1])
  have i2: "(updateAppointment utcMidnight alone ex_receptionist 20 ex_payOnline ex_day3 = (Inr (Some (ex_appointment 20 ''10:30'' 2\<lparr>a_paymentStatus := Partial, a_amount := Some 300, a_paymentOnline := 100\<rparr>)), snd (updateAppointment utcMidnight alone ex_receptionist 20 ex_payOnline ex_day3))
      \<and> paymentFieldsPresent (withDoctorFee ex_payOnline ex_day3)) \<longrightarrow>
      (a_paymentStatus (ex_appointment 20 ''10:30'' 2\<lparr>a_paymentStatus := Partial, a_amount := Some 300, a_paymentOnline := 100\<rparr>) =
        derive_spec (jsAdd (a_paymentOnline (ex_appointment 20 ''10:30'' 2\<lparr>a_paymentStatus := Partial, a_amount := Some 300, a_paymentOnline := 100\<rparr>)) (a_paymentOffline (ex_appointment 20 ''10:30'' 2\<lparr>a_paymentStatus := Partial, a_amount := Some 300, a_paymentOnline := 100\<rparr>)))
          (payable_spec (orElse (a_amount (ex_appointment 20 ''10:30'' 2\<lparr>a_paymentStatus := Partial, a_amount := Some 300, a_paymentOnline := 100\<rparr>)) 0) (a_discount (ex_appointment 20 ''10:30'' 2\<lparr>a_paymentStatus := Partial, a_amount := Some 300, a_paymentOnline := 100\<rparr>))))"
    by (rule payment_status_is_derived[THEN conjunct2, THEN conjunct1])
  have i3: "(findDispense 100 (dispenses ex_db_partial) = Some (ex_dispense\<lparr>d_paymentStatus := Partial, d_paidAmount := 4\<rparr>) \<and> 0 \<le> d_total (ex_dispense\<lparr>d_paymentStatus := Partial, d_paidAmount := 4\<rparr>)
      \<and> payDispenseRequest ex_clock ex_oidStr 100 2 ex_db_partial = (Inr (ex_dispense\<lparr>d_paymentStatus := Paid, d_paidAmount := 6\<rparr>), snd (payDispenseRequest ex_clock ex_oidStr 100 2 ex_db_partial))) \<longrightarrow>
      (d_paymentStatus (ex_dispense\<lparr>d_paymentStatus := Paid, d_paidAmount := 6\<rparr>) =
        (if d_paidAmount (ex_dispense\<lparr>d_paymentStatus := Paid, d_paidAmount := 6\<rparr>) = 0 \<and> d_total (ex_dispense\<lparr>d_paymentStatus := Paid, d_paidAmount := 6\<rparr>) = 0 then Paid
         else derive_spec (d_paidAmount (ex_dispense\<lparr>d_paymentStatus := Paid, d_paidAmount := 6\<rparr>)) (d_total (ex_dispense\<lparr>d_paymentStatus := Paid, d_paidAmount := 6\<rparr>))))"
    by (rule payment_status_is_derived[THEN conjunct2, THEN conjunct2, THEN conjunct1])
  have i4: "(updateDispense 100 ex_update ex_db_open = (Inr (ex_dispense\<lparr>d_items := [ex_itemA 1, ex_itemB 2], d_subtotal := 8, d_total := 8\<rparr>), snd (updateDispense 100 ex_update ex_db_open))) \<longrightarrow>
      (d_paymentStatus (ex_dispense\<lparr>d_items := [ex_itemA 1, ex_itemB 2], d_subtotal := 8, d_total := 8\<rparr>) =
        (if d_paidAmount (ex_dispense\<lparr>d_items := [ex_itemA 1, ex_itemB 2], d_subtotal := 8, d_total := 8\<rparr>) = 0 \<and> d_total (ex_dispense\<lparr>d_items := [ex_itemA 1, ex_itemB 2], d_subtotal := 8, d_total := 8\<rparr>) = 0 then Paid
         else derive_spec (d_paidAmount (ex_dispense\<lparr>d_items := [ex_itemA 1, ex_itemB 2], d_subtotal := 8, d_total := 8\<rparr>)) (d_total (ex_dispense\<lparr>d_items := [ex_itemA 1, ex_itemB 2], d_subtotal := 8, d_total := 8\<rparr>))))"
    by (rule payment_status_is_derived[THEN conjunct2, THEN conjunct2, THEN conjunct2])
  have n1: "ca_paymentOnline (ex_booking ''10:00'' (Some 300) (Some 100)) \<noteq> None"
    by (simp add: ex_booking_def)
  from i1 a1 have c1: "(a_paymentStatus (ex_appointment 10 ''10:00'' 1\<lparr>a_paymentStatus := Partial, a_amount := Some 300, a_paymentOnline := 100\<rparr>) =
        derive_spec (jsAdd (orElse (ca_paymentOnline (ex_booking ''10:00'' (Some 300) (Some 100))) 0) (orElse (ca_paymentOffline (ex_booking ''10:00'' (Some 300) (Some 100))) 0))
          (payable_spec (orElse (ca_amount (ex_booking ''10:00'' (Some 300) (Some 100))) 0) (orElse (ca_discount (ex_booking ''10:00'' (Some 300) (Some 100))) 0))
      \<and> a_paymentStatus (ex_appointment 10 ''10:00'' 1\<lparr>a_paymentStatus := Partial, a_amount := Some 300, a_paymentOnline := 100\<rparr>) =
        derive_spec (jsAdd (a_paymentOnline (ex_appointment 10 ''10:00'' 1\<lparr>a_paymentStatus := Partial, a_amount := Some 300, a_paymentOnline := 100\<rparr>)) (a_paymentOffline (ex_appointment 10 ''10:00'' 1\<lparr>a_paymentStatus := Partial, a_amount := Some 300, a_paymentOnline := 100\<rparr>)))
          (payable_spec (orElse (a_amount (ex_appointment 10 ''10:00'' 1\<lparr>a_paymentStatus := Partial, a_amount := Some 300, a_paymentOnline := 100\<rparr>)) 0) (a_discount (ex_appointment 10 ''10:00'' 1\<lparr>a_paymentStatus := Partial, a_amount := Some 300, a_paymentOnline := 100\<rparr>))))" by blast
  from i2 a2 have c2: "(a_paymentStatus (ex_appointment 20 ''10:30'' 2\<lparr>a_paymentStatus := Partial, a_amount := Some 300, a_paymentOnline := 100\<rparr>) =
        derive_spec (jsAdd (a_paymentOnline (ex_appointment 20 ''10:30'' 2\<lparr>a_paymentStatus := Partial, a_amount := Some 300, a_paymentOnline := 100\<rparr>)) (a_paymentOffline (ex_appointment 20 ''10:30'' 2\<lparr>a_paymentStatus := Partial, a_amount := Some 300, a_paymentOnline := 100\<rparr>)))
          (payable_spec (orElse (a_amount (ex_appointment 20 ''10:30'' 2\<lparr>a_paymentStatus := Partial, a_amount := Some 300, a_paymentOnline := 100\<rparr>)) 0) (a_discount (ex_appointment 20 ''10:30'' 2\<lparr>a_paymentStatus := Partial, a_amount := Some 300, a_paymentOnline := 100\<rparr>))))" by blast
  from i3 a3 have c3: "(d_paymentStatus (ex_dispense\<lparr>d_paymentStatus := Paid, d_paidAmount := 6\<rparr>) =
        (if d_paidAmount (ex_dispense\<lparr>d_paymentStatus := Paid, d_paidAmount := 6\<rparr>) = 0 \<and> d_total (ex_dispense\<lparr>d_paymentStatus := Paid, d_paidAmount := 6\<rparr>) = 0 then Paid
         else derive_spec (d_paidAmount (ex_dispense\<lparr>d_paymentStatus := Paid, d_paidAmount := 6\<rparr>)) (d_total (ex_dispense\<lparr>d_paymentStatus := Paid, d_paidAmount := 6\<rparr>))))" by blast
  from i4 a4 have c4: "(d_paymentStatus (ex_dispense\<lparr>d_items := [ex_itemA 1, ex_itemB 2], d_subtotal := 8, d_total := 8\<rparr>) =
        (if d_paidAmount (ex_dispense\<lparr>d_items := [ex_itemA 1, ex_itemB 2], d_subtotal := 8, d_total := 8\<rparr>) = 0 \<and> d_total (ex_dispense\<lparr>d_items := [ex_itemA 1, ex_itemB 2], d_subtotal := 8, d_total := 8\<rparr>) = 0 then Paid
         else derive_spec (d_paidAmount (ex_dispense\<lparr>d_items := [ex_itemA 1, ex_itemB 2], d_subtotal := 8, d_total := 8\<rparr>)) (d_total (ex_dispense\<lparr>d_items := [ex_itemA 1, ex_itemB 2], d_subtotal := 8, d_total := 8\<rparr>))))" by blast
  from a1 n1 c1 e a2 c2 a3 c3 a4 c4 show ?thesis by blast
qed

subsection \<open>The unique index is kept by every write\<close>

lemma insertAppointment_keeps:
  assumes "insertAppointment a as = Inr as'"
    and "distinct (map a_id as)" and "distinct (map dayToken as)"
  shows "as' = as @ [a] \<and> distinct (map a_id as') \<and> distinct (map dayToken as')"
proof -
  from assms(1) have app: "as' = as @ [a]"
    and ids: "\<forall>x\<in>set as. a_id x \<noteq> a_id a"
    and keys: "\<forall>x\<in>set as. dayToken x \<noteq> dayToken a"
    by (auto simp: insertAppointment_def list_ex_iff dayToken_def split: if_splits)
  from ids have "a_id a \<notin> a_id ` set as" by force
  moreover from keys have "dayToken a \<notin> dayToken ` set as" by force
  ultimately show ?thesis using app assms(2,3) by simp
qed

lemma replace_keeps_ids:
  "a_id a' = i \<Longrightarrow> map a_id (map (\<lambda>x. if a_id x = i then a' else x) as) = map a_id as"
  by (induction as) auto

lemma distinct_map_head:
  assumes "distinct (map f (x # xs))" and "y \<in> set xs"
  shows "f y \<noteq> f x"
proof
  assume "f y = f x"
  with assms(2) have "f x \<in> f ` set xs" by (metis imageI)
  with assms(1) show False by simp
qed

lemma replace_keeps_keys:
  assumes "distinct (map a_id as)" and "distinct (map dayToken as)" and "a_id a' = i"
    and "\<forall>x\<in>set as. a_id x \<noteq> i \<longrightarrow> dayToken x \<noteq> dayToken a'"
  shows "distinct (map dayToken (map (\<lambda>x. if a_id x = i then a' else x) as))"
proof -
  define put where "put x = (if a_id x = i then a' else x)" for x
  have "distinct (map dayToken (map put as))"
    using assms(1,2,4)
  proof (induction as)
    case Nil
    then show ?case by simp
  next
    case (Cons x xs)
    have IH: "distinct (map dayToken (map put xs))"
      using Cons by simp
    have new: "dayToken (put x) \<notin> set (map dayToken (map put xs))"
    proof
      assume "dayToken (put x) \<in> set (map dayToken (map put xs))"
      then obtain y where y: "y \<in> set xs" "dayToken (put y) = dayToken (put x)" by auto
      from Cons.prems(1) y(1) have ids: "a_id y \<noteq> a_id x" by (rule distinct_map_head)
      from Cons.prems(2) y(1) have keys: "dayToken y \<noteq> dayToken x" by (rule distinct_map_head)
      show False
      proof (cases "a_id x = i")
        case True
        with ids have "a_id y \<noteq> i" by simp
        with True y Cons.prems(3) show False by (simp add: put_def)
      next
        case False
        note xi = this
        show False
        proof (cases "a_id y = i")
          case True
          with xi y Cons.prems(3) show False by (simp add: put_def)
        next
          case False
          with xi y keys show False by (simp add: put_def)
        qed
      qed
    qed
    from new IH show ?case by simp
  qed
  then show ?thesis unfolding put_def .
qed

lemma findById_mem: "findById i as = Some a \<Longrightarrow> a \<in> set as \<and> a_id a = i"
  by (auto simp: findById_def find_Some_iff)

lemma findByIdAndUpdate_keeps:
  assumes "findById i as = Some a0" and "findByIdAndUpdate i b as = Inr (u, as')"
    and "distinct (map a_id as)" and "distinct (map dayToken as)"
  shows "distinct (map a_id as') \<and> distinct (map dayToken as')"
proof -
  define a' where "a' = applyUpdate b a0"
  from findByIdAndUpdate_found[OF assms(1,2)]
  have as': "as' = map (\<lambda>x. if a_id x = i then a' else x) as"
    and free: "dayToken a' = dayToken a0
           \<or> \<not> list_ex (\<lambda>x. a_id x \<noteq> i \<and> dayToken x = dayToken a') as"
    by (simp_all add: a'_def)
  from findById_mem[OF assms(1)] have a0: "a0 \<in> set as" "a_id a0 = i" by simp_all
  have id': "a_id a' = i" using a0 by (simp add: a'_def applyUpdate_day_token)
  have clear: "\<forall>x\<in>set as. a_id x \<noteq> i \<longrightarrow> dayToken x \<noteq> dayToken a'"
  proof (intro ballI impI)
    fix x assume x: "x \<in> set as" "a_id x \<noteq> i"
    from free show "dayToken x \<noteq> dayToken a'"
    proof
      assume same: "dayToken a' = dayToken a0"
      from x a0 have "x \<noteq> a0" by auto
      with x a0 assms(4) have "dayToken x \<noteq> dayToken a0"
        by (auto simp: distinct_map inj_on_def)
      with same show ?thesis by simp
    next
      assume "\<not> list_ex (\<lambda>x. a_id x \<noteq> i \<and> dayToken x = dayToken a') as"
      with x show ?thesis by (auto simp: list_ex_iff)
    qed
  qed
  have i1: "distinct (map a_id as')"
    unfolding as' replace_keeps_ids[OF id'] by (rule assms(3))
  have i2: "distinct (map dayToken as')"
    unfolding as' by (rule replace_keeps_keys[OF assms(3,4) id' clear])
  from i1 i2 show ?thesis by (rule conjI)
qed

lemma appointmentStep_keeps:
  assumes "distinct (map a_id (appointments st))" and "distinct (map dayToken (appointments st))"
  shows "distinct (map a_id (appointments (appointmentStep setHours0 st op)))
       \<and> distinct (map dayToken (appointments (appointmentStep setHours0 st op)))"
proof (cases op)
  case (CreateAppointment newId usr body)
  obtain r st' where eq: "createAppointment setHours0 alone newId usr body st = (r, st')"
    by (cases "createAppointment setHours0 alone newId usr body st")
  from createAppointment_alone[OF eq] assms have
    "distinct (map a_id (appointments st')) \<and> distinct (map dayToken (appointments st'))"
    by (auto dest: insertAppointment_keeps)
  with CreateAppointment eq show ?thesis by simp
next
  case (UpdateAppointment usr i body)
  obtain r st' where eq: "updateAppointment setHours0 alone usr i body st = (r, st')"
    by (cases "updateAppointment setHours0 alone usr i body st")
  from updateAppointment_alone[OF eq] assms have
    "distinct (map a_id (appointments st')) \<and> distinct (map dayToken (appointments st'))"
    by (auto dest: findByIdAndUpdate_keeps)
  with UpdateAppointment eq show ?thesis by simp
next
  case (DeleteAppointment i)
  with assms show ?thesis
    by (auto simp: deleteAppointment_def distinct_map_filter split: option.splits)
qed

lemma appointment_run_keeps:
  assumes "distinct (map a_id (appointments st))" and "distinct (map dayToken (appointments st))"
  shows "distinct (map a_id (appointments (foldl (appointmentStep setHours0) st ops)))
       \<and> distinct (map dayToken (appointments (foldl (appointmentStep setHours0) st ops)))"
  using assms
proof (induction ops arbitrary: st)
  case Nil
  then show ?case by simp
next
  case (Cons op ops)
  from appointmentStep_keeps[OF Cons.prems, of setHours0 op] Cons.IH
  show ?case by simp
qed

lemma createdBy_appended:
  assumes "distinct (map a_id (appointments st))" and "distinct (map dayToken (appointments st))"
  shows "distinct (map dayToken (appointments st @ createdBy setHours0 st reqs))"
  using assms
proof (induction reqs arbitrary: st)
  case Nil
  then show ?case by simp
next
  case (Cons req reqs)
  obtain newId usr body where req: "req = (newId, usr, body)" by (cases req)
  obtain r st' where eq: "createAppointment setHours0 alone newId usr body st = (r, st')"
    by (cases "createAppointment setHours0 alone newId usr body st")
  from createAppointment_alone[OF eq] show ?case
  proof (elim disjE exE conjE)
    fix e assume "r = Inl e" "st' = st"
    with eq req Cons show ?thesis by simp
  next
    fix k
    assume r: "r = Inr (appointmentData setHours0 body\<lparr>a_id := newId k,
                  a_dailyToken := int (countDay (setHours0 (ca_appointmentDate body)) (appointments st)) + 1\<rparr>)"
      and ins: "insertAppointment (appointmentData setHours0 body\<lparr>a_id := newId k,
                  a_dailyToken := int (countDay (setHours0 (ca_appointmentDate body)) (appointments st)) + 1\<rparr>)
                  (appointments st) = Inr (appointments st')"
    note kept = insertAppointment_keeps[OF ins Cons.prems]
    from kept
    have app: "appointments st' = appointments st @ [appointmentData setHours0 body\<lparr>a_id := newId k,
                  a_dailyToken := int (countDay (setHours0 (ca_appointmentDate body)) (appointments st)) + 1\<rparr>]"
      and inv: "distinct (map a_id (appointments st'))" "distinct (map dayToken (appointments st'))"
      by blast+
    from Cons.IH[OF inv] have "distinct (map dayToken (appointments st' @ createdBy setHours0 st' reqs))" .
    with app r eq req show ?thesis by simp
  qed
qed

lemma same_day_tokens_distinct:
  "distinct (map dayToken as) \<Longrightarrow>
   distinct (map a_dailyToken (filter (\<lambda>a. a_appointmentDay a = day) as))"
proof (induction as)
  case Nil
  then show ?case by simp
next
  case (Cons x xs)
  then show ?case by (auto simp: dayToken_def image_iff)
qed

text \<open>
  C3. From a collection without appointments, after any sequence of create, update and
  delete requests run one after the other, no two stored appointments share their day
  and token; and the appointments that any further list of create requests answers
  with have, among those of one day, pairwise different tokens.
\<close>

theorem daily_tokens_stay_unique:
  assumes "appointments st0 = []"
  shows "distinct (map dayToken (appointments (foldl (appointmentStep setHours0) st0 ops)))
       \<and> distinct (map a_dailyToken (filter (\<lambda>a. a_appointmentDay a = day)
            (createdBy setHours0 (foldl (appointmentStep setHours0) st0 ops) reqs)))"
proof -
  from assms have "distinct (map a_id (appointments st0))" "distinct (map dayToken (appointments st0))"
    by simp_all
  from appointment_run_keeps[OF this, of setHours0 ops]
  have inv: "distinct (map a_id (appointments (foldl (appointmentStep setHours0) st0 ops)))"
    "distinct (map dayToken (appointments (foldl (appointmentStep setHours0) st0 ops)))"
    by simp_all
  from createdBy_appended[OF inv, of setHours0 reqs]
  have "distinct (map dayToken (createdBy setHours0 (foldl (appointmentStep setHours0) st0 ops) reqs))"
    by simp
  from same_day_tokens_distinct[OF this] inv(2) show ?thesis by simp
qed

lemma ex_three_created:
  "map a_dailyToken (createdBy utcMidnight ex_clinic
      [(ex_newId 10, ex_receptionist, ex_booking ''10:00'' None None),
       (ex_newId 20, ex_receptionist, ex_booking ''10:30'' None None),
       (ex_newId 30, ex_receptionist, ex_booking ''11:00'' None None)]) = [1, 2, 3]"
  by code_simp

theorem daily_tokens_stay_unique_witness:
  "appointments ex_clinic = []
   \<and> distinct (map dayToken (appointments (foldl (appointmentStep utcMidnight) ex_clinic
        [CreateAppointment (ex_newId 10) ex_receptionist (ex_booking ''10:00'' None None),
         CreateAppointment (ex_newId 20) ex_receptionist (ex_booking ''10:30'' None None),
         DeleteAppointment 10,
         UpdateAppointment ex_receptionist 20 ex_move])))
   \<and> distinct (map a_dailyToken (filter (\<lambda>a. a_appointmentDay a = 1704067200000)
        (createdBy utcMidnight (foldl (appointmentStep utcMidnight) ex_clinic
        [CreateAppointment (ex_newId 10) ex_receptionist (ex_booking ''10:00'' None None),
         CreateAppointment (ex_newId 20) ex_receptionist (ex_booking ''10:30'' None None),
         DeleteAppointment 10,
         UpdateAppointment ex_receptionist 20 ex_move])
          [(ex_newId 40, ex_receptionist, ex_booking ''10:00'' None None),
           (ex_newId 50, ex_receptionist, ex_booking ''10:30'' None None)])))
   \<and> map a_dailyToken (createdBy utcMidnight ex_clinic
      [(ex_newId 10, ex_receptionist, ex_booking ''10:00'' None None),
       (ex_newId 20, ex_receptionist, ex_booking ''10:30'' None None),
       (ex_newId 30, ex_receptionist, ex_booking ''11:00'' None None)]) = [1, 2, 3]"
proof -
  have h: "appointments ex_clinic = []" by (simp add: ex_clinic_def)
  from daily_tokens_stay_unique[OF h] h ex_three_created show ?thesis by blast
qed

subsection \<open>Token allocation\<close>







end
